theory Spec2Isabelle
  imports Main "HOL-Library.Word"
begin

unbundle bit_operations_syntax

section \<open>Data model\<close>

text \<open>
  The programs of \<^verbatim>\<open>bpf/bpf_host.c\<close> and the redirect helper of \<^verbatim>\<open>bpf/lib/fib.h\<close>,
  embedded as HOL functions. Machine integers are words of their C width. A pointer into
  the packet (\<^verbatim>\<open>struct iphdr *ip4\<close>) is modelled by the header it points to at the last
  revalidation. A conditional compilation flag is a boolean of the record \<open>config\<close>;
  a function, table or constant that is declared in a header outside the three source
  files is a field of the record \<open>env\<close>.
\<close>

type_synonym u8 = "8 word"
type_synonym u16 = "16 word"
type_synonym u32 = "32 word"
type_synonym u64 = "64 word"
type_synonym macaddr = "u8 list"

text \<open>\<^verbatim>\<open>union v6addr\<close>, read through its two 64-bit members \<^verbatim>\<open>d1\<close> and \<^verbatim>\<open>d2\<close>.\<close>

record v6addr =
  v6_d1 :: u64
  v6_d2 :: u64

record iphdr =
  ip4_saddr :: u32
  ip4_daddr :: u32
  ip4_protocol :: u8
  ip4_frag_off :: u16

record ipv6hdr =
  ip6_saddr :: v6addr
  ip6_daddr :: v6addr
  ip6_nexthdr :: u8

record remote_endpoint_info =
  sec_identity :: u32
  tunnel_endpoint_ip4 :: u32
  flag_skip_tunnel :: bool
  flag_has_tunnel_ep :: bool

record endpoint_info =
  ep_ifindex :: u32
  ep_flags :: u32
  ep_sec_id :: u32

subsection \<open>Return codes\<close>

text \<open>
  The C functions return an \<^verbatim>\<open>int\<close>: a verdict (\<^verbatim>\<open>CTX_ACT_*\<close>) or a negative drop
  reason (\<^verbatim>\<open>DROP_*\<close>). The numeric values are declared in \<^verbatim>\<open>lib/common.h\<close> and
  \<^verbatim>\<open>bpf/ctx/skb.h\<close>; the model keeps the names. \<open>DROP_OTHER n\<close> and \<open>CTX_ACT_OTHER n\<close>
  stand for the codes that the embedded functions never name themselves (a policy
  denial returned by the policy engine, say); \<open>DROP_PLUS e n\<close> is the negative integer
  that the sum of the error \<open>e\<close> and the header length \<open>n\<close> gives where the C code returns
  such a sum.
\<close>

datatype drop_reason =
    DROP_INVALID
  | DROP_FRAG_NOSUPPORT
  | DROP_INVALID_TC_BUFFER
  | DROP_UNROUTABLE
  | DROP_WRITE_ERROR
  | DROP_VLAN_FILTERED
  | DROP_UNSUPPORTED_L2
  | DROP_UNKNOWN_L3
  | DROP_NO_FIB
  | DROP_UNENCRYPTED_TRAFFIC
  | DROP_CT_UNKNOWN_PROTO
  | DROP_MISSED_TAIL_CALL
  | DROP_OTHER nat
  | DROP_PLUS drop_reason nat

datatype rc =
    CTX_ACT_OK
  | CTX_ACT_REDIRECT
  | CTX_ACT_DROP
  | NAT_46X64_RECIRC
  | CTX_ACT_OTHER nat
  | DROP drop_reason

text \<open>\<^verbatim>\<open>ret < 0\<close>: the drop reasons are the negative codes.\<close>

fun rc_negative :: "rc \<Rightarrow> bool" where
  "rc_negative (DROP _) = True"
| "rc_negative _ = False"

text \<open>
  Modelled from the spec: the macro \<^verbatim>\<open>IS_ERR\<close> is declared in \<^verbatim>\<open>lib/common.h\<close>, which is
  not among the sources. The spec's verdict vocabulary has the negative values as the
  drops ("negative values (drop, carrying a reason and optional extended sub-reason)").
\<close>

definition IS_ERR :: "rc \<Rightarrow> bool" where
  "IS_ERR ret = rc_negative ret"

text \<open>The result of \<^verbatim>\<open>icmp6_host_handle\<close>: the sentinel \<^verbatim>\<open>SKIP_HOST_FIREWALL\<close> or a code.\<close>

datatype icmp6_ret = SKIP_HOST_FIREWALL | ICMP6_RET rc

subsection \<open>Connection-tracking transfer buffers\<close>

record ipv4_ct_tuple =
  t4_daddr :: u32
  t4_saddr :: u32
  t4_dport :: u16
  t4_sport :: u16
  t4_nexthdr :: u8
  t4_flags :: u8

record ipv6_ct_tuple =
  t6_daddr :: v6addr
  t6_saddr :: v6addr
  t6_dport :: u16
  t6_sport :: u16
  t6_nexthdr :: u8
  t6_flags :: u8

text \<open>
  \<^verbatim>\<open>struct ct_buffer4\<close> and \<^verbatim>\<open>struct ct_buffer6\<close>. The member \<^verbatim>\<open>ret\<close> holds the result of
  the connection-tracking lookup: a negative error (\<open>Inl\<close>) or a lookup status.
\<close>

record ct_buffer4 =
  cb4_tuple :: ipv4_ct_tuple
  cb4_monitor :: u32
  cb4_ret :: "drop_reason + nat"
  cb4_l4_off :: nat

record ct_buffer6 =
  cb6_tuple :: ipv6_ct_tuple
  cb6_monitor :: u32
  cb6_ret :: "drop_reason + nat"
  cb6_l4_off :: nat

definition zero_v6addr :: v6addr where
  "zero_v6addr = \<lparr>v6_d1 = 0, v6_d2 = 0\<rparr>"

text \<open>\<^verbatim>\<open>struct ct_buffer4 ct_buffer = {}\<close>\<close>

definition zero_ct_buffer4 :: ct_buffer4 where
  "zero_ct_buffer4 =
     \<lparr>cb4_tuple = \<lparr>t4_daddr = 0, t4_saddr = 0, t4_dport = 0, t4_sport = 0,
                    t4_nexthdr = 0, t4_flags = 0\<rparr>,
      cb4_monitor = 0, cb4_ret = Inr 0, cb4_l4_off = 0\<rparr>"

definition zero_ct_buffer6 :: ct_buffer6 where
  "zero_ct_buffer6 =
     \<lparr>cb6_tuple = \<lparr>t6_daddr = zero_v6addr, t6_saddr = zero_v6addr, t6_dport = 0,
                    t6_sport = 0, t6_nexthdr = 0, t6_flags = 0\<rparr>,
      cb6_monitor = 0, cb6_ret = Inr 0, cb6_l4_off = 0\<rparr>"

subsection \<open>Packet context and program state\<close>

text \<open>The metadata slots (\<^verbatim>\<open>ctx->cb[]\<close>) that the embedded functions name.\<close>

datatype cb_slot =
    CB_SRC_LABEL
  | CB_FROM_HOST
  | CB_IPCACHE_SRC_LABEL
  | CB_PROXY_MAGIC
  | CB_ENCRYPT_IDENTITY
  | CB_OTHER nat

text \<open>\<^verbatim>\<open>struct __ctx_buff\<close> (\<^verbatim>\<open>struct __sk_buff\<close>): the fields read here and the frame.\<close>

record skb =
  mark :: u32
  vlan_present :: bool
  vlan_tci :: u32
  ifindex :: u32
  ingress_ifindex :: u32
  tc_index :: u32
  cb :: "cb_slot \<Rightarrow> u32"
  frame :: "u8 list"

record trace_ctx =
  trace_reason :: u8
  trace_monitor :: u32

datatype metric_dir = METRIC_INGRESS | METRIC_EGRESS

datatype trace_point =
    TRACE_FROM_NETWORK
  | TRACE_TO_NETWORK
  | TRACE_FROM_HOST
  | TRACE_FROM_PROXY
  | TRACE_FROM_STACK
  | TRACE_TO_STACK

datatype dbg_type =
    DBG_IP_ID_MAP_SUCCEED4
  | DBG_IP_ID_MAP_FAILED4
  | DBG_IP_ID_MAP_SUCCEED6
  | DBG_IP_ID_MAP_FAILED6

text \<open>The telemetry a program emits: debug, trace and drop notifications, metrics.\<close>

datatype event =
    Dbg dbg_type u32 u32
  | Trace_notify trace_point u32 u32 "u32 option" u8 u32 u16
  | Drop_notify u32 u32 rc int rc metric_dir
  | Update_metrics metric_dir rc

text \<open>
  The state one program run works on: the packet context, the locals that the C code
  passes by pointer down the call chain (\<^verbatim>\<open>ext_err\<close>, \<^verbatim>\<open>trace\<close>, \<^verbatim>\<open>punt_to_stack\<close>), the
  two per-CPU single-slot maps \<^verbatim>\<open>cilium_tail_call_buffer4/6\<close> (\<open>None\<close>: the lookup
  returns \<^verbatim>\<open>NULL\<close>), the L2 responder maps (a key's \<^verbatim>\<open>responses_sent\<close> counter) and the
  emitted telemetry.
\<close>

record state =
  skb :: skb
  ext_err :: int
  trace :: trace_ctx
  punt_to_stack :: bool
  cilium_tail_call_buffer4 :: "ct_buffer4 option"
  cilium_tail_call_buffer6 :: "ct_buffer6 option"
  cilium_l2_responder_v4 :: "u32 \<times> u32 \<Rightarrow> u64 option"
  cilium_l2_responder_v6 :: "v6addr \<times> u32 \<Rightarrow> u64 option"
  events :: "event list"

subsection \<open>Configuration\<close>

text \<open>
  The \<^verbatim>\<open>#ifdef\<close> switches of the sources, the \<^verbatim>\<open>CONFIG()\<close> values and the constants of
  headers that are not among the sources.
\<close>

record config =
  ENABLE_IPV4 :: bool
  ENABLE_IPV6 :: bool
  ENABLE_HOST_FIREWALL :: bool
  ENABLE_NODEPORT :: bool
  ENABLE_HOST_ROUTING :: bool
  ENABLE_IPV4_FRAGMENTS :: bool
  ENABLE_IPV6_FRAGMENTS :: bool
  ENABLE_SRV6 :: bool
  ENABLE_VTEP :: bool
  TUNNEL_MODE :: bool
  ENABLE_IPSEC :: bool
  ENABLE_WIREGUARD :: bool
  ENCRYPTION_STRICT_MODE :: bool
  ENABLE_MASQUERADE_IPV4 :: bool
  ENABLE_MASQUERADE_IPV6 :: bool
  ENABLE_L2_ANNOUNCEMENTS :: bool
  ENABLE_ARP_PASSTHROUGH :: bool
  ENABLE_ARP_RESPONDER :: bool
  ENABLE_IDENTITY_MARK :: bool
  ENABLE_NODEPORT_ACCELERATION :: bool
  HAVE_ENCAP :: bool
  ENABLE_L7_LB :: bool
  ENABLE_EGRESS_GATEWAY_COMMON :: bool
  ENABLE_BANDWIDTH_MANAGER :: bool
  ENABLE_HEALTH_CHECK :: bool
  secctx_from_ipcache :: bool
  neigh_resolver_available :: bool
  IS_L3_DEV :: "u32 \<Rightarrow> bool"
  ETH_HLEN :: nat
  interface_mac :: macaddr
  THIS_INTERFACE_IFINDEX :: u32
  ENDPOINT_MASK_HOST_DELIVERY :: u32
  TRACE_REASON_UNKNOWN :: u8
  TRACE_REASON_ENCRYPTED :: u8
  TRACE_PAYLOAD_LEN :: u32
  MARK_MAGIC_HOST_MASK :: u32
  MARK_MAGIC_HOST :: u32
  MARK_MAGIC_OVERLAY :: u32
  MARK_MAGIC_IDENTITY :: u32
  MARK_MAGIC_EGW_DONE :: u32
  MARK_MAGIC_PROXY_INGRESS :: u32
  MARK_MAGIC_PROXY_EGRESS :: u32
  MARK_MAGIC_PROXY_EGRESS_EPID :: u32
  MARK_MAGIC_PROXY_TO_WORLD :: u32
  MARK_MAGIC_ENCRYPT :: u32
  MARK_MAGIC_DECRYPT :: u32
  XFER_PKT_NO_SVC :: u32
  XFER_PKT_SNAT_DONE :: u32

text \<open>The constants of \<^verbatim>\<open>node_config.h\<close>.\<close>

definition UNKNOWN_ID :: u32 where "UNKNOWN_ID = 0"
definition HOST_ID :: u32 where "HOST_ID = 1"
definition WORLD_ID :: u32 where "WORLD_ID = 2"

definition WORLD_IPV4_ID :: "config \<Rightarrow> u32" where
  "WORLD_IPV4_ID C = (if ENABLE_IPV4 C \<and> ENABLE_IPV6 C then 9 else 2)"

definition WORLD_IPV6_ID :: "config \<Rightarrow> u32" where
  "WORLD_IPV6_ID C = (if ENABLE_IPV4 C \<and> ENABLE_IPV6 C then 10 else 2)"

definition VTEP_MASK :: u32 where "VTEP_MASK = 0xffffff"

text \<open>\<^verbatim>\<open>NATIVE_DEV_MAC_BY_IFINDEX(_)\<close>\<close>

definition NATIVE_DEV_MAC_BY_IFINDEX :: "u32 \<Rightarrow> macaddr" where
  "NATIVE_DEV_MAC_BY_IFINDEX oif = [0xce, 0x72, 0xa7, 0x03, 0x88, 0x56]"

definition CILIUM_NET_MAC :: macaddr where
  "CILIUM_NET_MAC = [0xce, 0x72, 0xa7, 0x03, 0x88, 0x57]"

definition L2_ANNOUNCEMENTS_MAX_LIVENESS :: u64 where
  "L2_ANNOUNCEMENTS_MAX_LIVENESS = 3000000000"

text \<open>The flags of bpf_host.c, lines 64-65.\<close>

definition FROM_HOST_FLAG_NEED_HOSTFW :: u32 where
  "FROM_HOST_FLAG_NEED_HOSTFW = push_bit 1 1"

definition FROM_HOST_FLAG_HOST_ID :: u32 where
  "FROM_HOST_FLAG_HOST_ID = push_bit 2 1"

text \<open>
  Constants of the Linux headers: the ethertypes, the length of an Ethernet header
  (\<^verbatim>\<open>__ETH_HLEN\<close>), the protocol number of ICMPv6 and the address family of IPv4.
  \<^verbatim>\<open>bpf_htons\<close> swaps the two bytes (a little-endian target).
\<close>

definition ETH_P_IP :: u16 where "ETH_P_IP = 0x0800"
definition ETH_P_ARP :: u16 where "ETH_P_ARP = 0x0806"
definition ETH_P_IPV6 :: u16 where "ETH_P_IPV6 = 0x86DD"
definition uu_ETH_HLEN :: nat where "uu_ETH_HLEN = 14"
definition IPPROTO_ICMPV6 :: u8 where "IPPROTO_ICMPV6 = 58"
definition NEXTHDR_ICMP :: u8 where "NEXTHDR_ICMP = 58"
definition AF_INET :: u8 where "AF_INET = 2"

definition bpf_htons :: "u16 \<Rightarrow> u16" where
  "bpf_htons x = push_bit 8 x OR drop_bit 8 x"

text \<open>\<^verbatim>\<open>CTX_ACT_REDIRECT\<close> is \<^verbatim>\<open>TC_ACT_REDIRECT\<close> in a program attached to tc.\<close>

abbreviation TC_ACT_REDIRECT :: rc where
  "TC_ACT_REDIRECT \<equiv> CTX_ACT_REDIRECT"

text \<open>The programs that a tail call names.\<close>

datatype call_id =
    CILIUM_CALL_IPV4_FROM_HOST
  | CILIUM_CALL_IPV4_FROM_NETDEV
  | CILIUM_CALL_IPV6_FROM_HOST
  | CILIUM_CALL_IPV6_FROM_NETDEV
  | CILIUM_CALL_SRV6_DECAP

record vtep_value =
  vtep_mac :: u64
  vtep_tunnel_endpoint :: u32

text \<open>
  \<^verbatim>\<open>struct bpf_fib_lookup\<close>: the members that \<^verbatim>\<open>fib_do_redirect\<close> reads. The destination is
  a union of \<^verbatim>\<open>ipv4_dst\<close> and \<^verbatim>\<open>ipv6_dst\<close>; \<open>fl_ipv4_dst\<close> reads its first four bytes.
\<close>

record bpf_fib_lookup =
  fl_family :: u8
  fl_ifindex :: u32
  fl_ipv6_dst :: v6addr
  fl_smac :: macaddr
  fl_dmac :: macaddr

definition fl_ipv4_dst :: "bpf_fib_lookup \<Rightarrow> u32" where
  "fl_ipv4_dst l = ucast (v6_d1 (fl_ipv6_dst l))"

record bpf_redir_neigh =
  nh_family :: u8
  ipv6_nh :: v6addr

datatype fib_result =
    BPF_FIB_LKUP_RET_SUCCESS
  | BPF_FIB_LKUP_RET_NO_NEIGH
  | BPF_FIB_LKUP_RET_OTHER nat

text \<open>The extended error \<^verbatim>\<open>BPF_FIB_MAP_NO_NEIGH\<close> is a parameter (\<^verbatim>\<open>lib/common.h\<close>).\<close>

subsection \<open>Collaborators\<close>

text \<open>
  Functions and tables of headers that are not among the sources. A name that starts
  with two underscores in C starts with \<open>uu_\<close> here.
\<close>

record env =
  identity_is_reserved :: "u32 \<Rightarrow> bool"
  identity_is_world_ipv4 :: "u32 \<Rightarrow> bool"
  identity_is_world_ipv6 :: "u32 \<Rightarrow> bool"
  identity_is_cluster :: "u32 \<Rightarrow> bool"
  lookup_ip4_remote_endpoint :: "u32 \<Rightarrow> u32 \<Rightarrow> remote_endpoint_info option"
  lookup_ip6_remote_endpoint :: "v6addr \<Rightarrow> u32 \<Rightarrow> remote_endpoint_info option"
  lookup_ip4_endpoint :: "iphdr \<Rightarrow> endpoint_info option"
  lookup_ip6_endpoint :: "ipv6hdr \<Rightarrow> endpoint_info option"
  cilium_vtep_map :: "u32 \<Rightarrow> vtep_value option"
  revalidate_data4 :: "skb \<Rightarrow> iphdr option"
  revalidate_data6 :: "skb \<Rightarrow> ipv6hdr option"
  uuuu_revalidate_data_pull4 :: "skb \<Rightarrow> nat \<Rightarrow> iphdr option"
  ipfrag_encode_ipv4 :: "iphdr \<Rightarrow> int"
  ipfrag_is_fragment :: "int \<Rightarrow> bool"
  ipv6_get_fraginfo :: "state \<Rightarrow> ipv6hdr \<Rightarrow> drop_reason + int"
  ipv6_hdrlen :: "state \<Rightarrow> u8 \<Rightarrow> drop_reason + (nat \<times> u8)"
  icmp6_host_handle :: "state \<Rightarrow> nat \<Rightarrow> bool \<Rightarrow> icmp6_ret \<times> state"
  ctx_skip_nodeport :: "skb \<Rightarrow> bool"
  ctx_skip_host_fw :: "skb \<Rightarrow> bool"
  tc_index_from_ingress_proxy :: "skb \<Rightarrow> bool"
  tc_index_from_egress_proxy :: "skb \<Rightarrow> bool"
  nodeport_lb4 :: "state \<Rightarrow> iphdr \<Rightarrow> nat \<Rightarrow> u32 \<Rightarrow> rc \<times> state"
  nodeport_lb6 :: "state \<Rightarrow> ipv6hdr \<Rightarrow> u32 \<Rightarrow> rc \<times> state"
  ipv4_host_policy_egress_lookup ::
    "state \<Rightarrow> u32 \<Rightarrow> u32 \<Rightarrow> iphdr \<Rightarrow> ct_buffer4 \<Rightarrow> bool \<times> ct_buffer4"
  ipv4_host_policy_ingress_lookup :: "state \<Rightarrow> iphdr \<Rightarrow> ct_buffer4 \<Rightarrow> bool \<times> ct_buffer4"
  ipv6_host_policy_egress_lookup ::
    "state \<Rightarrow> u32 \<Rightarrow> u32 \<Rightarrow> ipv6hdr \<Rightarrow> ct_buffer6 \<Rightarrow> bool \<times> ct_buffer6"
  ipv6_host_policy_ingress_lookup :: "state \<Rightarrow> ipv6hdr \<Rightarrow> ct_buffer6 \<Rightarrow> bool \<times> ct_buffer6"
  map_update_elem_fails :: "state \<Rightarrow> bool"
  uu_ipv4_host_policy_egress :: "state \<Rightarrow> bool \<Rightarrow> iphdr \<Rightarrow> ct_buffer4 \<Rightarrow> rc \<times> state"
  uu_ipv4_host_policy_ingress :: "state \<Rightarrow> iphdr \<Rightarrow> ct_buffer4 \<Rightarrow> u32 \<Rightarrow> rc \<times> state"
  uu_ipv6_host_policy_egress :: "state \<Rightarrow> bool \<Rightarrow> ipv6hdr \<Rightarrow> ct_buffer6 \<Rightarrow> rc \<times> state"
  uu_ipv6_host_policy_ingress :: "state \<Rightarrow> ipv6hdr \<Rightarrow> ct_buffer6 \<Rightarrow> u32 \<Rightarrow> rc \<times> state"
  ipv4_local_delivery ::
    "state \<Rightarrow> nat \<Rightarrow> u32 \<Rightarrow> u32 \<Rightarrow> iphdr \<Rightarrow> endpoint_info \<Rightarrow> metric_dir \<Rightarrow> bool \<Rightarrow> bool
      \<Rightarrow> u32 \<Rightarrow> rc \<times> state"
  ipv6_local_delivery ::
    "state \<Rightarrow> nat \<Rightarrow> u32 \<Rightarrow> u32 \<Rightarrow> endpoint_info \<Rightarrow> metric_dir \<Rightarrow> bool \<Rightarrow> bool
      \<Rightarrow> rc \<times> state"
  encap_and_redirect_with_nodeid ::
    "state \<Rightarrow> remote_endpoint_info \<Rightarrow> u32 \<Rightarrow> u32 \<Rightarrow> u16 \<Rightarrow> rc \<times> state"
  uu_encap_and_redirect_with_nodeid ::
    "state \<Rightarrow> remote_endpoint_info \<Rightarrow> u32 \<Rightarrow> u32 \<Rightarrow> u32 \<Rightarrow> u16 \<Rightarrow> rc \<times> state"
  is_srv6_packet :: "ipv6hdr \<Rightarrow> bool"
  srv6_lookup_sid :: "v6addr \<Rightarrow> bool"
  tail_call_internal :: "state \<Rightarrow> call_id \<Rightarrow> (rc \<times> state) + (rc \<times> state)"
  ctx_get_protocol :: "skb \<Rightarrow> u16"
  ctx_change_head :: "state \<Rightarrow> nat \<Rightarrow> u64 \<Rightarrow> int \<times> state"
  eth_store_proto :: "state \<Rightarrow> u16 \<Rightarrow> nat \<Rightarrow> int \<times> state"
  eth_store_daddr :: "state \<Rightarrow> macaddr \<Rightarrow> nat \<Rightarrow> int \<times> state"
  eth_store_saddr :: "state \<Rightarrow> macaddr \<Rightarrow> nat \<Rightarrow> int \<times> state"
  eth_store_daddr_aligned :: "state \<Rightarrow> macaddr \<Rightarrow> nat \<Rightarrow> int \<times> state"
  eth_store_saddr_aligned :: "state \<Rightarrow> macaddr \<Rightarrow> nat \<Rightarrow> int \<times> state"
  redirect_neigh :: "state \<Rightarrow> u32 \<Rightarrow> bpf_redir_neigh option \<Rightarrow> rc \<times> state"
  ctx_redirect :: "state \<Rightarrow> u32 \<Rightarrow> u64 \<Rightarrow> rc \<times> state"
  neigh_lookup_ip4 :: "u32 \<Rightarrow> macaddr option"
  neigh_lookup_ip6 :: "v6addr \<Rightarrow> macaddr option"
  BPF_FIB_MAP_NO_NEIGH :: int
  revalidate_data_pull4 :: "skb \<Rightarrow> iphdr option"
  revalidate_data_pull6 :: "skb \<Rightarrow> ipv6hdr option"
  validate_ethertype :: "skb \<Rightarrow> bool \<times> u16"
  eth_is_supported_ethertype :: "u16 \<Rightarrow> bool"
  ipv4_hdrlen :: "iphdr \<Rightarrow> nat"
  ctx_is_wireguard :: "skb \<Rightarrow> nat \<Rightarrow> u8 \<Rightarrow> u32 \<Rightarrow> bool"
  ctx_mark_is_wireguard :: "skb \<Rightarrow> bool"
  ctx_is_overlay :: "skb \<Rightarrow> bool"
  ctx_snat_done :: "skb \<Rightarrow> bool"
  ctx_egw_done :: "skb \<Rightarrow> bool"
  ctx_get_xfer_flags :: "skb \<Rightarrow> u32"
  ctx_skip_nodeport_clear :: "skb \<Rightarrow> skb"
  ctx_skip_nodeport_set :: "skb \<Rightarrow> skb"
  ctx_snat_done_set :: "skb \<Rightarrow> skb"
  get_identity :: "skb \<Rightarrow> u32"
  get_epid :: "skb \<Rightarrow> u32"
  do_decrypt :: "state \<Rightarrow> u16 \<Rightarrow> state"
  tail_call_egress_policy :: "state \<Rightarrow> u16 \<Rightarrow> (rc \<times> state) + (rc \<times> state)"
  ipv4_host_policy_egress :: "state \<Rightarrow> u32 \<Rightarrow> u32 \<Rightarrow> iphdr \<Rightarrow> rc \<times> state"
  ipv6_host_policy_egress :: "state \<Rightarrow> u32 \<Rightarrow> u32 \<Rightarrow> ipv6hdr \<Rightarrow> rc \<times> state"
  ct_extract_ports4 ::
    "state \<Rightarrow> iphdr \<Rightarrow> int \<Rightarrow> nat \<Rightarrow> ipv4_ct_tuple \<Rightarrow> rc \<times> ipv4_ct_tuple"
  ct_extract_ports6 ::
    "state \<Rightarrow> ipv6hdr \<Rightarrow> int \<Rightarrow> nat \<Rightarrow> ipv6_ct_tuple \<Rightarrow> rc \<times> ipv6_ct_tuple"
  ct_is_reply4 :: "ipv4_ct_tuple \<Rightarrow> bool"
  ct_is_reply6 :: "ipv6_ct_tuple \<Rightarrow> bool"
  uu_ipv4_ct_tuple_reverse :: "ipv4_ct_tuple \<Rightarrow> ipv4_ct_tuple"
  uu_ipv6_ct_tuple_reverse :: "ipv6_ct_tuple \<Rightarrow> ipv6_ct_tuple"
  uu_lookup_ip4_endpoint :: "u32 \<Rightarrow> endpoint_info option"
  uu_lookup_ip6_endpoint :: "v6addr \<Rightarrow> endpoint_info option"
  egress_gw_handle_packet :: "state \<Rightarrow> ipv4_ct_tuple \<Rightarrow> u32 \<Rightarrow> u32 \<Rightarrow> rc \<times> state"
  egress_gw_handle_packet_v6 :: "state \<Rightarrow> ipv6_ct_tuple \<Rightarrow> u32 \<Rightarrow> u32 \<Rightarrow> rc \<times> state"
  edt_sched_departure :: "state \<Rightarrow> u16 \<Rightarrow> rc \<times> state"
  ipsec_maybe_redirect_to_encrypt :: "state \<Rightarrow> u16 \<Rightarrow> u32 \<Rightarrow> rc \<times> state"
  wg_maybe_redirect_to_encrypt :: "state \<Rightarrow> u16 \<Rightarrow> u32 \<Rightarrow> rc \<times> state"
  strict_allow :: "state \<Rightarrow> u16 \<Rightarrow> bool"
  lb_handle_health :: "state \<Rightarrow> u16 \<Rightarrow> rc \<times> state"
  handle_nat_fwd :: "state \<Rightarrow> u32 \<Rightarrow> u32 \<Rightarrow> u16 \<Rightarrow> bool \<Rightarrow> rc \<times> state"
  config_get_agent_liveness :: "state \<Rightarrow> u64"
  ktime_get_ns :: "state \<Rightarrow> u64"
  arp_validate :: "skb \<Rightarrow> macaddr \<Rightarrow> (macaddr \<times> u32 \<times> u32) option"
  arp_respond :: "state \<Rightarrow> macaddr \<Rightarrow> u32 \<Rightarrow> macaddr \<Rightarrow> u32 \<Rightarrow> nat \<Rightarrow> rc \<times> state"
  icmp6_ndisc_validate :: "skb \<Rightarrow> ipv6hdr \<Rightarrow> macaddr \<Rightarrow> v6addr option"
  icmp6_send_ndisc_adv :: "state \<Rightarrow> nat \<Rightarrow> macaddr \<Rightarrow> bool \<Rightarrow> rc \<times> state"

text \<open>
  What the fields stand for. \<open>tail_call_internal\<close>: \<open>Inl (v, s)\<close> when the call succeeds,
  the program then ends in the called program with the verdict \<open>v\<close>; \<open>Inr (e, s)\<close> when
  the call fails and returns the error \<open>e\<close> to its caller. The lookups
  \<^verbatim>\<open>ipv4_host_policy_egress_lookup\<close> and its siblings take the zeroed buffer and give it
  back filled, with their boolean result. A helper that returns an \<^verbatim>\<open>int\<close> status gives
  that integer. The locals \<^verbatim>\<open>ext_err\<close>, \<^verbatim>\<open>trace\<close> and \<^verbatim>\<open>punt_to_stack\<close> that a collaborator
  receives by pointer are fields of the state it takes and returns.
\<close>

section \<open>Metadata and telemetry helpers\<close>

definition ctx_store_meta :: "state \<Rightarrow> cb_slot \<Rightarrow> u32 \<Rightarrow> state" where
  "ctx_store_meta s slot v = s\<lparr>skb := (skb s)\<lparr>cb := (cb (skb s))(slot := v)\<rparr>\<rparr>"

text \<open>\<^verbatim>\<open>ctx_load_and_clear_meta\<close>: the value read, and the state with the slot zeroed.\<close>

definition ctx_load_and_clear_meta :: "state \<Rightarrow> cb_slot \<Rightarrow> u32 \<times> state" where
  "ctx_load_and_clear_meta s slot = (cb (skb s) slot, ctx_store_meta s slot 0)"

definition bpf_clear_meta :: "state \<Rightarrow> state" where
  "bpf_clear_meta s = s\<lparr>skb := (skb s)\<lparr>cb := (\<lambda>_. 0)\<rparr>\<rparr>"

definition emit :: "state \<Rightarrow> event \<Rightarrow> state" where
  "emit s e = s\<lparr>events := events s @ [e]\<rparr>"

definition cilium_dbg :: "state \<Rightarrow> dbg_type \<Rightarrow> u32 \<Rightarrow> u32 \<Rightarrow> state" where
  "cilium_dbg s t arg1 arg2 = emit s (Dbg t arg1 arg2)"

text \<open>
  \<^verbatim>\<open>send_trace_notify\<close>: the observation point, the two identities, the interface
  (\<open>None\<close> for \<^verbatim>\<open>TRACE_IFINDEX_UNKNOWN\<close>), the reason, the payload length and the
  protocol.
\<close>

definition send_trace_notify ::
  "state \<Rightarrow> trace_point \<Rightarrow> u32 \<Rightarrow> u32 \<Rightarrow> u32 option \<Rightarrow> u8 \<Rightarrow> u32 \<Rightarrow> u16 \<Rightarrow> state" where
  "send_trace_notify s obs src dst ifidx reason monitor proto =
     emit s (Trace_notify obs src dst ifidx reason monitor proto)"

text \<open>
  Modelled from the spec: the drop notification helpers are declared in \<^verbatim>\<open>lib/drop.h\<close>,
  which is not among the sources. By the spec, an entry point "converts any error into a
  drop notification (telemetry side-effect) carrying the reason and, where available, an
  extended sub-reason byte, then returns the drop verdict to the host environment"; the
  variant with an exit code returns that exit code in place of the drop verdict
  ("converted to pass to the OS stack (\<^verbatim>\<open>CTX_ACT_OK\<close>) rather than a hard drop").
\<close>

definition send_drop_notify_error_with_exitcode_ext ::
  "state \<Rightarrow> u32 \<Rightarrow> rc \<Rightarrow> int \<Rightarrow> rc \<Rightarrow> metric_dir \<Rightarrow> rc \<times> state" where
  "send_drop_notify_error_with_exitcode_ext s src err ext exitcode dir =
     (exitcode, emit s (Drop_notify src 0 err ext exitcode dir))"

definition send_drop_notify_error_ext ::
  "state \<Rightarrow> u32 \<Rightarrow> rc \<Rightarrow> int \<Rightarrow> metric_dir \<Rightarrow> rc \<times> state" where
  "send_drop_notify_error_ext s src err ext dir =
     send_drop_notify_error_with_exitcode_ext s src err ext CTX_ACT_DROP dir"

definition send_drop_notify_error ::
  "state \<Rightarrow> u32 \<Rightarrow> rc \<Rightarrow> metric_dir \<Rightarrow> rc \<times> state" where
  "send_drop_notify_error s src err dir = send_drop_notify_error_ext s src err 0 dir"

definition update_metrics :: "state \<Rightarrow> metric_dir \<Rightarrow> rc \<Rightarrow> state" where
  "update_metrics s dir reason = emit s (Update_metrics dir reason)"

section \<open>Source-identity resolution\<close>

text \<open>
  \<^verbatim>\<open>resolve_srcid_ipv4\<close> (bpf_host.c, lines 531-568). The argument \<open>sec_id0\<close> is the value
  that \<^verbatim>\<open>*sec_identity\<close> holds at the call; the result is the returned identity, the
  value of \<^verbatim>\<open>*sec_identity\<close> at the return and the state.
\<close>

definition resolve_srcid_ipv4 ::
  "env \<Rightarrow> config \<Rightarrow> state \<Rightarrow> iphdr \<Rightarrow> u32 \<Rightarrow> u32 \<Rightarrow> bool \<Rightarrow> u32 \<times> u32 \<times> state" where
  "resolve_srcid_ipv4 E C s ip4 srcid_from_proxy sec_id0 from_host =
     (let src_id = WORLD_IPV4_ID C;
          srcid_from_ipcache = srcid_from_proxy;
          (srcid_from_ipcache, sec_id, s) =
            (if identity_is_reserved E srcid_from_ipcache then
               let info = lookup_ip4_remote_endpoint E (ip4_saddr ip4) 0;
                   (srcid_from_ipcache, sec_id) =
                     (case info of
                        None \<Rightarrow> (srcid_from_ipcache, sec_id0)
                      | Some i \<Rightarrow>
                          (if sec_identity i \<noteq> HOST_ID then sec_identity i
                           else srcid_from_ipcache,
                           sec_identity i))
               in (srcid_from_ipcache, sec_id,
                   cilium_dbg s
                     (if info \<noteq> None then DBG_IP_ID_MAP_SUCCEED4 else DBG_IP_ID_MAP_FAILED4)
                     (ip4_saddr ip4) srcid_from_ipcache)
             else (srcid_from_ipcache, sec_id0, s));
          src_id =
            (if from_host then srcid_from_ipcache
             else if secctx_from_ipcache C then srcid_from_ipcache
             else src_id)
      in (src_id, sec_id, s))"

text \<open>
  \<^verbatim>\<open>resolve_srcid_ipv6\<close> (bpf_host.c, lines 89-125). The debug argument
  \<^verbatim>\<open>((__u32 *) src)[3]\<close> is the last 32-bit quarter of the address (the upper half of
  \<^verbatim>\<open>d2\<close> on a little-endian target).
\<close>

definition resolve_srcid_ipv6 ::
  "env \<Rightarrow> config \<Rightarrow> state \<Rightarrow> ipv6hdr \<Rightarrow> u32 \<Rightarrow> u32 \<Rightarrow> bool \<Rightarrow> u32 \<times> u32 \<times> state" where
  "resolve_srcid_ipv6 E C s ip6 srcid_from_ipcache0 sec_id0 from_host =
     (let src_id = WORLD_IPV6_ID C;
          srcid_from_ipcache = srcid_from_ipcache0;
          (srcid_from_ipcache, sec_id, s) =
            (if identity_is_reserved E srcid_from_ipcache then
               let src = ip6_saddr ip6;
                   info = lookup_ip6_remote_endpoint E src 0;
                   (srcid_from_ipcache, sec_id) =
                     (case info of
                        None \<Rightarrow> (srcid_from_ipcache, sec_id0)
                      | Some i \<Rightarrow>
                          (if sec_identity i \<noteq> HOST_ID then sec_identity i
                           else srcid_from_ipcache,
                           sec_identity i))
               in (srcid_from_ipcache, sec_id,
                   cilium_dbg s
                     (if info \<noteq> None then DBG_IP_ID_MAP_SUCCEED6 else DBG_IP_ID_MAP_FAILED6)
                     (ucast (drop_bit 32 (v6_d2 src))) srcid_from_ipcache)
             else (srcid_from_ipcache, sec_id0, s));
          src_id =
            (if from_host then srcid_from_ipcache
             else if secctx_from_ipcache C then srcid_from_ipcache
             else src_id)
      in (src_id, sec_id, s))"


section \<open>L2 header synthesis (lib/fib.h)\<close>

text \<open>
  \<^verbatim>\<open>add_l2_hdr\<close> and \<^verbatim>\<open>maybe_add_l2_hdr\<close> (fib.h, lines 13-43) return 0 or a drop reason:
  \<open>None\<close> is the return value 0. \<open>maybe_add_l2_hdr\<close> also gives the value of
  \<^verbatim>\<open>*l2_hdr_required\<close> at the return.
\<close>

definition add_l2_hdr :: "env \<Rightarrow> state \<Rightarrow> drop_reason option \<times> state" where
  "add_l2_hdr E s =
     (let proto = ctx_get_protocol E (skb s) in
      case ctx_change_head E s uu_ETH_HLEN 0 of (r, s) \<Rightarrow>
        if r \<noteq> 0 then (Some DROP_INVALID, s)
        else case eth_store_proto E s proto 0 of (r, s) \<Rightarrow>
          if r < 0 then (Some DROP_WRITE_ERROR, s)
          else (None, s))"

definition maybe_add_l2_hdr ::
  "env \<Rightarrow> config \<Rightarrow> state \<Rightarrow> u32 \<Rightarrow> bool \<Rightarrow> drop_reason option \<times> bool \<times> state" where
  "maybe_add_l2_hdr E C s ifidx l2_hdr_required =
     (if IS_L3_DEV C ifidx then (None, False, s)
      else if ETH_HLEN C = 0 then
        (case add_l2_hdr E s of (r, s) \<Rightarrow> (r, l2_hdr_required, s))
      else (None, l2_hdr_required, s))"

section \<open>Host firewall pre-check: handle_ipv4 and handle_ipv6\<close>

text \<open>
  Modelled from the spec: \<^verbatim>\<open>map_update_elem\<close> is a helper of the execution host. On the
  single-slot per-CPU buffer it either fails ("storing to the transfer buffer fails
  (resource exhaustion)") and leaves the slot as it is, or the slot holds the value
  stored.
\<close>

definition map_update_elem_buffer4 :: "env \<Rightarrow> state \<Rightarrow> ct_buffer4 \<Rightarrow> int \<times> state" where
  "map_update_elem_buffer4 E s v =
     (if map_update_elem_fails E s then (-1, s)
      else (0, s\<lparr>cilium_tail_call_buffer4 := Some v\<rparr>))"

definition map_update_elem_buffer6 :: "env \<Rightarrow> state \<Rightarrow> ct_buffer6 \<Rightarrow> int \<times> state" where
  "map_update_elem_buffer6 E s v =
     (if map_update_elem_fails E s then (-1, s)
      else (0, s\<lparr>cilium_tail_call_buffer6 := Some v\<rparr>))"

text \<open>
  The connection-tracking lookup of \<^verbatim>\<open>handle_ipv4\<close> (bpf_host.c, lines 635-654):
  \<open>Inl r\<close> when the function returns \<open>r\<close> there, else the locals \<^verbatim>\<open>need_hostfw\<close>,
  \<^verbatim>\<open>is_host_id\<close> and \<^verbatim>\<open>ct_buffer\<close>.
\<close>

definition handle_ipv4_hostfw_lookup ::
  "env \<Rightarrow> state \<Rightarrow> u32 \<Rightarrow> u32 \<Rightarrow> bool \<Rightarrow> iphdr \<Rightarrow> rc + (bool \<times> bool \<times> ct_buffer4)" where
  "handle_ipv4_hostfw_lookup E s secctx ipcache_srcid from_host ip4 =
     (let ct_buffer = zero_ct_buffer4 in
      if from_host then
        (case ipv4_host_policy_egress_lookup E s secctx ipcache_srcid ip4 ct_buffer of
           (hit, ct_buffer) \<Rightarrow>
             if hit then
               (case cb4_ret ct_buffer of
                  Inl e \<Rightarrow> Inl (DROP e)
                | Inr _ \<Rightarrow> Inr (True, secctx = HOST_ID, ct_buffer))
             else Inr (False, False, ct_buffer))
      else if \<not> ctx_skip_host_fw E (skb s) then
        (case revalidate_data4 E (skb s) of
           None \<Rightarrow> Inl (DROP DROP_INVALID)
         | Some ip4 \<Rightarrow>
             (case ipv4_host_policy_ingress_lookup E s ip4 ct_buffer of
                (hit, ct_buffer) \<Rightarrow>
                  if hit then
                    (case cb4_ret ct_buffer of
                       Inl e \<Rightarrow> Inl (DROP e)
                     | Inr _ \<Rightarrow> Inr (True, False, ct_buffer))
                  else Inr (False, False, ct_buffer)))
      else Inr (False, False, ct_buffer))"

text \<open>The store and the metadata write (bpf_host.c, lines 655-667).\<close>

definition handle_ipv4_hostfw_store ::
  "env \<Rightarrow> state \<Rightarrow> bool \<Rightarrow> bool \<Rightarrow> ct_buffer4 \<Rightarrow> rc \<times> state" where
  "handle_ipv4_hostfw_store E s need_hostfw is_host_id ct_buffer =
     (case (if need_hostfw then map_update_elem_buffer4 E s ct_buffer else (0, s)) of
        (r, s) \<Rightarrow>
          if r < 0 then (DROP DROP_INVALID_TC_BUFFER, s)
          else
            (CTX_ACT_OK,
             ctx_store_meta s CB_FROM_HOST
               ((if need_hostfw then FROM_HOST_FLAG_NEED_HOSTFW else 0) OR
                (if is_host_id then FROM_HOST_FLAG_HOST_ID else 0))))"

text \<open>
  The start of \<^verbatim>\<open>handle_ipv4\<close> (bpf_host.c, lines 593-632): revalidation, the fragment
  check and the NodePort load balancer. \<open>Inl\<close> when the function returns there, else the
  header and the state it goes on with. Where the function returns the result of
  \<^verbatim>\<open>tail_call_internal\<close>, the result is the verdict of the called program or the error
  of the failed call.
\<close>

definition handle_ipv4_pre ::
  "env \<Rightarrow> config \<Rightarrow> state \<Rightarrow> u32 \<Rightarrow> bool \<Rightarrow> (rc \<times> state) + (iphdr \<times> state)" where
  "handle_ipv4_pre E C s secctx from_host =
     (case revalidate_data4 E (skb s) of
        None \<Rightarrow> Inl (DROP DROP_INVALID, s)
      | Some ip4 \<Rightarrow>
          if \<not> ENABLE_IPV4_FRAGMENTS C \<and> ipfrag_is_fragment E (ipfrag_encode_ipv4 E ip4)
          then Inl (DROP DROP_FRAG_NOSUPPORT, s)
          else if ENABLE_NODEPORT C \<and> \<not> from_host \<and> \<not> ctx_skip_nodeport E (skb s) then
            (case nodeport_lb4 E s ip4 (ETH_HLEN C) secctx of (ret, s) \<Rightarrow>
               if ENABLE_IPV6 C \<and> ret = NAT_46X64_RECIRC then
                 (case tail_call_internal E (ctx_store_meta s CB_SRC_LABEL secctx)
                         CILIUM_CALL_IPV6_FROM_NETDEV of
                    Inl r \<Rightarrow> Inl r
                  | Inr r \<Rightarrow> Inl r)
               else if rc_negative ret \<or> ret = TC_ACT_REDIRECT then Inl (ret, s)
               else if punt_to_stack s then Inl (ret, s)
               else Inr (ip4, s))
          else Inr (ip4, s))"

text \<open>\<^verbatim>\<open>handle_ipv4\<close> (bpf_host.c, lines 577-668).\<close>

definition handle_ipv4 ::
  "env \<Rightarrow> config \<Rightarrow> state \<Rightarrow> u32 \<Rightarrow> u32 \<Rightarrow> bool \<Rightarrow> rc \<times> state" where
  "handle_ipv4 E C s secctx ipcache_srcid from_host =
     (case handle_ipv4_pre E C s secctx from_host of
        Inl r \<Rightarrow> r
      | Inr (ip4, s) \<Rightarrow>
          if ENABLE_HOST_FIREWALL C then
            (case handle_ipv4_hostfw_lookup E s secctx ipcache_srcid from_host ip4 of
               Inl r \<Rightarrow> (r, s)
             | Inr (need_hostfw, is_host_id, ct_buffer) \<Rightarrow>
                 handle_ipv4_hostfw_store E s need_hostfw is_host_id ct_buffer)
          else (CTX_ACT_OK, s))"

section \<open>Host firewall apply and delivery: handle_ipv4_cont\<close>

text \<open>
  The policy decision from a transfer buffer (bpf_host.c, lines 714-729): \<open>Inl\<close> when
  \<^verbatim>\<open>handle_ipv4_cont\<close> returns there, else the header and the state it goes on with.
\<close>

definition handle_ipv4_cont_hostfw_apply ::
  "env \<Rightarrow> state \<Rightarrow> bool \<Rightarrow> u32 \<Rightarrow> iphdr \<Rightarrow> ct_buffer4 \<Rightarrow> (rc \<times> state) + (iphdr \<times> state)" where
  "handle_ipv4_cont_hostfw_apply E s from_host from_host_raw ip4 ct_buffer =
     (let remote_id = 0 in
      case
        (if from_host then
           (let is_host_id = (from_host_raw AND FROM_HOST_FLAG_HOST_ID \<noteq> 0)
            in uu_ipv4_host_policy_egress E s is_host_id ip4 ct_buffer)
         else uu_ipv4_host_policy_ingress E s ip4 ct_buffer remote_id)
      of (ret, s) \<Rightarrow>
        if IS_ERR ret \<or> ret = CTX_ACT_REDIRECT then Inl (ret, s)
        else if from_host then
          (case revalidate_data4 E (skb s) of
             None \<Rightarrow> Inl (DROP DROP_INVALID, s)
           | Some ip4 \<Rightarrow> Inr (ip4, s))
        else Inr (ip4, s))"

text \<open>The host firewall block of \<^verbatim>\<open>handle_ipv4_cont\<close> (bpf_host.c, lines 699-731).\<close>

definition handle_ipv4_cont_hostfw ::
  "env \<Rightarrow> state \<Rightarrow> bool \<Rightarrow> iphdr \<Rightarrow> (rc \<times> state) + (iphdr \<times> state)" where
  "handle_ipv4_cont_hostfw E s from_host ip4 =
     (case ctx_load_and_clear_meta s CB_FROM_HOST of (from_host_raw, s) \<Rightarrow>
        if from_host_raw AND FROM_HOST_FLAG_NEED_HOSTFW \<noteq> 0 then
          (case cilium_tail_call_buffer4 s of
             None \<Rightarrow> Inl (DROP DROP_INVALID_TC_BUFFER, s)
           | Some ct_buffer \<Rightarrow>
               if t4_saddr (cb4_tuple ct_buffer) = 0 then Inl (DROP DROP_INVALID_TC_BUFFER, s)
               else handle_ipv4_cont_hostfw_apply E s from_host from_host_raw ip4 ct_buffer)
        else Inr (ip4, s))"

text \<open>The first six bytes of a 64-bit value, as \<^verbatim>\<open>(__u8 *)&vtep->vtep_mac\<close> reads them.\<close>

definition mac_bytes :: "u64 \<Rightarrow> macaddr" where
  "mac_bytes m = map (\<lambda>i. ucast (drop_bit (8 * i) m)) [0..<6]"

text \<open>
  The remote-endpoint decision of \<^verbatim>\<open>handle_ipv4_cont\<close>, from the label \<^verbatim>\<open>skip_vtep\<close> on
  (bpf_host.c, lines 815-853).
\<close>

definition handle_ipv4_cont_skip_vtep ::
  "env \<Rightarrow> config \<Rightarrow> state \<Rightarrow> u32 \<Rightarrow> bool \<Rightarrow> iphdr \<Rightarrow> rc \<times> state" where
  "handle_ipv4_cont_skip_vtep E C s secctx from_proxy ip4 =
     (let info = lookup_ip4_remote_endpoint E (ip4_daddr ip4) 0 in
      case info of
        None \<Rightarrow> (DROP DROP_UNROUTABLE, s)
      | Some i \<Rightarrow>
          if TUNNEL_MODE C \<and> \<not> flag_skip_tunnel i \<and> flag_has_tunnel_ep i then
            encap_and_redirect_with_nodeid E s i secctx (sec_identity i) (bpf_htons ETH_P_IP)
          else if \<not> from_proxy \<and> identity_is_world_ipv4 E (sec_identity i) then
            (DROP DROP_UNROUTABLE, s)
          else
            (CTX_ACT_OK,
             if ENABLE_IPSEC C \<and> \<not> TUNNEL_MODE C \<and> from_proxy
                \<and> \<not> identity_is_cluster E (sec_identity i)
             then s\<lparr>skb := (skb s)\<lparr>mark := MARK_MAGIC_PROXY_TO_WORLD C\<rparr>\<rparr>
             else s))"

text \<open>
  Local delivery and the VTEP lookup of \<^verbatim>\<open>handle_ipv4_cont\<close> (bpf_host.c, lines
  733-813).
\<close>

definition handle_ipv4_cont_deliver ::
  "env \<Rightarrow> config \<Rightarrow> state \<Rightarrow> u32 \<Rightarrow> bool \<Rightarrow> bool \<Rightarrow> u32 \<Rightarrow> iphdr \<Rightarrow> rc \<times> state" where
  "handle_ipv4_cont_deliver E C s secctx from_host from_proxy magic ip4 =
     (if \<not> ENABLE_HOST_ROUTING C \<and> \<not> from_host then (CTX_ACT_OK, s)
      else
        case lookup_ip4_endpoint E ip4 of
          Some ep \<Rightarrow>
            (let l3_off = ETH_HLEN C in
             if ep_flags ep AND ENDPOINT_MASK_HOST_DELIVERY C \<noteq> 0 then (CTX_ACT_OK, s)
             else
               case
                 (if ENABLE_HOST_ROUTING C \<and> \<not> from_host then
                    (case maybe_add_l2_hdr E C s (ep_ifindex ep) True of
                       (ret, l2_hdr_required, s) \<Rightarrow>
                         (case ret of
                            Some e \<Rightarrow> Inl (DROP e, s)
                          | None \<Rightarrow>
                              if l2_hdr_required \<and> ETH_HLEN C = 0 then
                                (let l3_off = l3_off + uu_ETH_HLEN in
                                 case uuuu_revalidate_data_pull4 E (skb s) l3_off of
                                   None \<Rightarrow> Inl (DROP DROP_INVALID, s)
                                 | Some ip4 \<Rightarrow> Inr (l3_off, ip4, s))
                              else Inr (l3_off, ip4, s)))
                  else Inr (l3_off, ip4, s))
               of
                 Inl r \<Rightarrow> r
               | Inr (l3_off, ip4, s) \<Rightarrow>
                   ipv4_local_delivery E s l3_off secctx magic ip4 ep METRIC_INGRESS
                     from_host False 0)
        | None \<Rightarrow>
            if \<not> from_host then (CTX_ACT_OK, s)
            else
              case (if ENABLE_VTEP C then cilium_vtep_map E (ip4_daddr ip4 AND VTEP_MASK)
                    else None) of
                Some vtep \<Rightarrow>
                  if vtep_mac vtep \<noteq> 0 \<and> vtep_tunnel_endpoint vtep \<noteq> 0 then
                    (case eth_store_daddr E s (mac_bytes (vtep_mac vtep)) 0 of (r, s) \<Rightarrow>
                       if r < 0 then (DROP DROP_WRITE_ERROR, s)
                       else
                         uu_encap_and_redirect_with_nodeid E s
                           \<lparr>sec_identity = 0, tunnel_endpoint_ip4 = vtep_tunnel_endpoint vtep,
                            flag_skip_tunnel = False, flag_has_tunnel_ep = True\<rparr>
                           secctx (WORLD_IPV4_ID C) (WORLD_IPV4_ID C) (bpf_htons ETH_P_IP))
                  else handle_ipv4_cont_skip_vtep E C s secctx from_proxy ip4
              | None \<Rightarrow> handle_ipv4_cont_skip_vtep E C s secctx from_proxy ip4)"

text \<open>
  The start of \<^verbatim>\<open>handle_ipv4_cont\<close> and of \<^verbatim>\<open>handle_ipv6_cont\<close> (bpf_host.c, lines 674-694
  and 247-269): the trace context, and the locals \<^verbatim>\<open>from_proxy\<close> and \<^verbatim>\<open>magic\<close>.
\<close>

definition cont_trace_init :: "config \<Rightarrow> state \<Rightarrow> state" where
  "cont_trace_init C s =
     s\<lparr>trace := \<lparr>trace_reason = TRACE_REASON_UNKNOWN C, trace_monitor = TRACE_PAYLOAD_LEN C\<rparr>\<rparr>"

definition cont_from_proxy :: "env \<Rightarrow> config \<Rightarrow> skb \<Rightarrow> bool \<Rightarrow> bool \<times> u32" where
  "cont_from_proxy E C k from_host =
     (let magic = MARK_MAGIC_IDENTITY C;
          from_proxy = False;
          (from_proxy, magic) =
            (if from_host \<and> tc_index_from_ingress_proxy E k
             then (True, MARK_MAGIC_PROXY_INGRESS C) else (from_proxy, magic));
          (from_proxy, magic) =
            (if from_host \<and> tc_index_from_egress_proxy E k
             then (True, MARK_MAGIC_PROXY_EGRESS C) else (from_proxy, magic))
      in (from_proxy, magic))"

text \<open>\<^verbatim>\<open>handle_ipv4_cont\<close> (bpf_host.c, lines 670-854).\<close>

definition handle_ipv4_cont ::
  "env \<Rightarrow> config \<Rightarrow> state \<Rightarrow> u32 \<Rightarrow> bool \<Rightarrow> rc \<times> state" where
  "handle_ipv4_cont E C s secctx from_host =
     (let s = cont_trace_init C s;
          (from_proxy, magic) = cont_from_proxy E C (skb s) from_host
      in
        case revalidate_data4 E (skb s) of
          None \<Rightarrow> (DROP DROP_INVALID, s)
        | Some ip4 \<Rightarrow>
            (case (if ENABLE_HOST_FIREWALL C then handle_ipv4_cont_hostfw E s from_host ip4
                   else Inr (ip4, s)) of
               Inl r \<Rightarrow> r
             | Inr (ip4, s) \<Rightarrow>
                 handle_ipv4_cont_deliver E C s secctx from_host from_proxy magic ip4))"

text \<open>
  The spec's \<open>decide_from(x)\<close>: what \<^verbatim>\<open>handle_ipv4_cont\<close> does when the host firewall
  decides from the lookup result \<open>x\<close>. It is \<^verbatim>\<open>handle_ipv4_cont\<close> with the buffer an
  argument in place of the read of \<^verbatim>\<open>cilium_tail_call_buffer4\<close>.
\<close>

definition handle_ipv4_cont_decide_from ::
  "env \<Rightarrow> config \<Rightarrow> state \<Rightarrow> u32 \<Rightarrow> bool \<Rightarrow> ct_buffer4 \<Rightarrow> rc \<times> state" where
  "handle_ipv4_cont_decide_from E C s secctx from_host x =
     (let s = cont_trace_init C s;
          (from_proxy, magic) = cont_from_proxy E C (skb s) from_host
      in
        case revalidate_data4 E (skb s) of
          None \<Rightarrow> (DROP DROP_INVALID, s)
        | Some ip4 \<Rightarrow>
            (case ctx_load_and_clear_meta s CB_FROM_HOST of (from_host_raw, s) \<Rightarrow>
               case handle_ipv4_cont_hostfw_apply E s from_host from_host_raw ip4 x of
                 Inl r \<Rightarrow> r
               | Inr (ip4, s) \<Rightarrow>
                   handle_ipv4_cont_deliver E C s secctx from_host from_proxy magic ip4))"

section \<open>The IPv6 handlers\<close>

text \<open>The lookup of \<^verbatim>\<open>handle_ipv6\<close> (bpf_host.c, lines 207-224).\<close>

definition handle_ipv6_hostfw_lookup ::
  "env \<Rightarrow> state \<Rightarrow> u32 \<Rightarrow> u32 \<Rightarrow> bool \<Rightarrow> ipv6hdr \<Rightarrow> rc + (bool \<times> bool \<times> ct_buffer6)" where
  "handle_ipv6_hostfw_lookup E s secctx ipcache_srcid from_host ip6 =
     (let ct_buffer = zero_ct_buffer6 in
      if from_host then
        (case ipv6_host_policy_egress_lookup E s secctx ipcache_srcid ip6 ct_buffer of
           (hit, ct_buffer) \<Rightarrow>
             if hit then
               (case cb6_ret ct_buffer of
                  Inl e \<Rightarrow> Inl (DROP e)
                | Inr _ \<Rightarrow> Inr (True, secctx = HOST_ID, ct_buffer))
             else Inr (False, False, ct_buffer))
      else if \<not> ctx_skip_host_fw E (skb s) then
        (case revalidate_data6 E (skb s) of
           None \<Rightarrow> Inl (DROP DROP_INVALID)
         | Some ip6 \<Rightarrow>
             (case ipv6_host_policy_ingress_lookup E s ip6 ct_buffer of
                (hit, ct_buffer) \<Rightarrow>
                  if hit then
                    (case cb6_ret ct_buffer of
                       Inl e \<Rightarrow> Inl (DROP e)
                     | Inr _ \<Rightarrow> Inr (True, False, ct_buffer))
                  else Inr (False, False, ct_buffer)))
      else Inr (False, False, ct_buffer))"

text \<open>The store and the label \<^verbatim>\<open>skip_host_firewall\<close> (bpf_host.c, lines 225-240).\<close>

definition handle_ipv6_skip_host_firewall :: "state \<Rightarrow> bool \<Rightarrow> bool \<Rightarrow> rc \<times> state" where
  "handle_ipv6_skip_host_firewall s need_hostfw is_host_id =
     (CTX_ACT_OK,
      ctx_store_meta s CB_FROM_HOST
        ((if need_hostfw then FROM_HOST_FLAG_NEED_HOSTFW else 0) OR
         (if is_host_id then FROM_HOST_FLAG_HOST_ID else 0)))"

definition handle_ipv6_hostfw_store ::
  "env \<Rightarrow> state \<Rightarrow> bool \<Rightarrow> bool \<Rightarrow> ct_buffer6 \<Rightarrow> rc \<times> state" where
  "handle_ipv6_hostfw_store E s need_hostfw is_host_id ct_buffer =
     (case (if need_hostfw then map_update_elem_buffer6 E s ct_buffer else (0, s)) of
        (r, s) \<Rightarrow>
          if r < 0 then (DROP DROP_INVALID_TC_BUFFER, s)
          else handle_ipv6_skip_host_firewall s need_hostfw is_host_id)"

text \<open>
  The start of \<^verbatim>\<open>handle_ipv6\<close> (bpf_host.c, lines 152-201): revalidation, the fragment
  check, ICMPv6 handling and the NodePort load balancer. \<open>Inl\<close> when the function returns
  there, else the header, whether ICMPv6 handling asked to skip the host firewall, and
  the state.
\<close>

definition handle_ipv6_pre ::
  "env \<Rightarrow> config \<Rightarrow> state \<Rightarrow> u32 \<Rightarrow> bool \<Rightarrow> (rc \<times> state) + (ipv6hdr \<times> bool \<times> state)" where
  "handle_ipv6_pre E C s secctx from_host =
     (case revalidate_data6 E (skb s) of
        None \<Rightarrow> Inl (DROP DROP_INVALID, s)
      | Some ip6 \<Rightarrow>
          case
            (if \<not> ENABLE_IPV6_FRAGMENTS C then
               (case ipv6_get_fraginfo E s ip6 of
                  Inl e \<Rightarrow> Some (DROP e)
                | Inr fraginfo \<Rightarrow>
                    if ipfrag_is_fragment E fraginfo then Some (DROP DROP_FRAG_NOSUPPORT)
                    else None)
             else None)
          of
            Some r \<Rightarrow> Inl (r, s)
          | None \<Rightarrow>
              case
                (if ENABLE_HOST_FIREWALL C \<or> \<not> from_host then
                   (case ipv6_hdrlen E s (ip6_nexthdr ip6) of
                      Inl e \<Rightarrow> Inl (DROP e, s)
                    | Inr (hdrlen, nexthdr) \<Rightarrow>
                        if nexthdr = IPPROTO_ICMPV6 then
                          (case icmp6_host_handle E s (ETH_HLEN C + hdrlen) (\<not> from_host) of
                             (ret, s) \<Rightarrow>
                               (case ret of
                                  SKIP_HOST_FIREWALL \<Rightarrow> Inr (True, s)
                                | ICMP6_RET ret \<Rightarrow>
                                    if IS_ERR ret then Inl (ret, s) else Inr (False, s)))
                        else Inr (False, s))
                 else Inr (False, s))
              of
                Inl r \<Rightarrow> Inl r
              | Inr (skip_host_firewall, s) \<Rightarrow>
                  if ENABLE_NODEPORT C \<and> \<not> from_host \<and> \<not> ctx_skip_nodeport E (skb s) then
                    (case nodeport_lb6 E s ip6 secctx of (ret, s) \<Rightarrow>
                       if rc_negative ret \<or> ret = TC_ACT_REDIRECT then Inl (ret, s)
                       else if punt_to_stack s then Inl (ret, s)
                       else Inr (ip6, skip_host_firewall, s))
                  else Inr (ip6, skip_host_firewall, s))"

text \<open>\<^verbatim>\<open>handle_ipv6\<close> (bpf_host.c, lines 134-241).\<close>

definition handle_ipv6 ::
  "env \<Rightarrow> config \<Rightarrow> state \<Rightarrow> u32 \<Rightarrow> u32 \<Rightarrow> bool \<Rightarrow> rc \<times> state" where
  "handle_ipv6 E C s secctx ipcache_srcid from_host =
     (case handle_ipv6_pre E C s secctx from_host of
        Inl r \<Rightarrow> r
      | Inr (ip6, skip_host_firewall, s) \<Rightarrow>
          if ENABLE_HOST_FIREWALL C then
            (if skip_host_firewall then handle_ipv6_skip_host_firewall s False False
             else
               case handle_ipv6_hostfw_lookup E s secctx ipcache_srcid from_host ip6 of
                 Inl r \<Rightarrow> (r, s)
               | Inr (need_hostfw, is_host_id, ct_buffer) \<Rightarrow>
                   handle_ipv6_hostfw_store E s need_hostfw is_host_id ct_buffer)
          else (CTX_ACT_OK, s))"

text \<open>The policy decision from a transfer buffer (bpf_host.c, lines 289-304).\<close>

definition handle_ipv6_cont_hostfw_apply ::
  "env \<Rightarrow> config \<Rightarrow> state \<Rightarrow> bool \<Rightarrow> u32 \<Rightarrow> ipv6hdr \<Rightarrow> ct_buffer6
     \<Rightarrow> (rc \<times> state) + (ipv6hdr \<times> state)" where
  "handle_ipv6_cont_hostfw_apply E C s from_host from_host_raw ip6 ct_buffer =
     (let remote_id = WORLD_IPV6_ID C in
      case
        (if from_host then
           (let is_host_id = (from_host_raw AND FROM_HOST_FLAG_HOST_ID \<noteq> 0)
            in uu_ipv6_host_policy_egress E s is_host_id ip6 ct_buffer)
         else uu_ipv6_host_policy_ingress E s ip6 ct_buffer remote_id)
      of (ret, s) \<Rightarrow>
        if IS_ERR ret \<or> ret = CTX_ACT_REDIRECT then Inl (ret, s)
        else if from_host then
          (case revalidate_data6 E (skb s) of
             None \<Rightarrow> Inl (DROP DROP_INVALID, s)
           | Some ip6 \<Rightarrow> Inr (ip6, s))
        else Inr (ip6, s))"

text \<open>The host firewall block of \<^verbatim>\<open>handle_ipv6_cont\<close> (bpf_host.c, lines 274-306).\<close>

definition handle_ipv6_cont_hostfw ::
  "env \<Rightarrow> config \<Rightarrow> state \<Rightarrow> bool \<Rightarrow> ipv6hdr \<Rightarrow> (rc \<times> state) + (ipv6hdr \<times> state)" where
  "handle_ipv6_cont_hostfw E C s from_host ip6 =
     (case ctx_load_and_clear_meta s CB_FROM_HOST of (from_host_raw, s) \<Rightarrow>
        if from_host_raw AND FROM_HOST_FLAG_NEED_HOSTFW \<noteq> 0 then
          (case cilium_tail_call_buffer6 s of
             None \<Rightarrow> Inl (DROP DROP_INVALID_TC_BUFFER, s)
           | Some ct_buffer \<Rightarrow>
               if v6_d1 (t6_saddr (cb6_tuple ct_buffer)) = 0
                  \<and> v6_d2 (t6_saddr (cb6_tuple ct_buffer)) = 0
               then Inl (DROP DROP_INVALID_TC_BUFFER, s)
               else handle_ipv6_cont_hostfw_apply E C s from_host from_host_raw ip6 ct_buffer)
        else Inr (ip6, s))"

text \<open>The remote-endpoint decision of \<^verbatim>\<open>handle_ipv6_cont\<close> (bpf_host.c, lines 366-393).\<close>

definition handle_ipv6_cont_remote ::
  "env \<Rightarrow> config \<Rightarrow> state \<Rightarrow> u32 \<Rightarrow> bool \<Rightarrow> ipv6hdr \<Rightarrow> rc \<times> state" where
  "handle_ipv6_cont_remote E C s secctx from_proxy ip6 =
     (let dst = ip6_daddr ip6;
          info = lookup_ip6_remote_endpoint E dst 0 in
      case info of
        None \<Rightarrow> (DROP DROP_UNROUTABLE, s)
      | Some i \<Rightarrow>
          if TUNNEL_MODE C \<and> \<not> flag_skip_tunnel i \<and> flag_has_tunnel_ep i then
            encap_and_redirect_with_nodeid E s i secctx (sec_identity i) (bpf_htons ETH_P_IPV6)
          else if \<not> from_proxy \<and> identity_is_world_ipv6 E (sec_identity i) then
            (DROP DROP_UNROUTABLE, s)
          else
            (CTX_ACT_OK,
             if ENABLE_IPSEC C \<and> \<not> TUNNEL_MODE C \<and> from_proxy
                \<and> \<not> identity_is_cluster E (sec_identity i)
             then s\<lparr>skb := (skb s)\<lparr>mark := MARK_MAGIC_PROXY_TO_WORLD C\<rparr>\<rparr>
             else s))"

text \<open>SRv6, local delivery (bpf_host.c, lines 316-364).\<close>

definition handle_ipv6_cont_deliver ::
  "env \<Rightarrow> config \<Rightarrow> state \<Rightarrow> u32 \<Rightarrow> bool \<Rightarrow> bool \<Rightarrow> u32 \<Rightarrow> ipv6hdr \<Rightarrow> rc \<times> state" where
  "handle_ipv6_cont_deliver E C s secctx from_host from_proxy magic ip6 =
     (if ENABLE_SRV6 C \<and> \<not> from_host \<and> is_srv6_packet E ip6 \<and> srv6_lookup_sid E (ip6_daddr ip6)
      then (case tail_call_internal E s CILIUM_CALL_SRV6_DECAP of Inl r \<Rightarrow> r | Inr r \<Rightarrow> r)
      else if \<not> ENABLE_HOST_ROUTING C \<and> \<not> from_host then (CTX_ACT_OK, s)
      else
        case lookup_ip6_endpoint E ip6 of
          Some ep \<Rightarrow>
            (let l3_off = ETH_HLEN C in
             if ep_flags ep AND ENDPOINT_MASK_HOST_DELIVERY C \<noteq> 0 then (CTX_ACT_OK, s)
             else
               case
                 (if ENABLE_HOST_ROUTING C \<and> \<not> from_host then
                    (case maybe_add_l2_hdr E C s (ep_ifindex ep) True of
                       (ret, l2_hdr_required, s) \<Rightarrow>
                         (case ret of
                            Some e \<Rightarrow> Inl (DROP e, s)
                          | None \<Rightarrow>
                              if l2_hdr_required \<and> ETH_HLEN C = 0
                              then Inr (l3_off + uu_ETH_HLEN, s)
                              else Inr (l3_off, s)))
                  else Inr (l3_off, s))
               of
                 Inl r \<Rightarrow> r
               | Inr (l3_off, s) \<Rightarrow>
                   ipv6_local_delivery E s l3_off secctx magic ep METRIC_INGRESS from_host
                     False)
        | None \<Rightarrow>
            if \<not> from_host then (CTX_ACT_OK, s)
            else handle_ipv6_cont_remote E C s secctx from_proxy ip6)"

text \<open>\<^verbatim>\<open>handle_ipv6_cont\<close> (bpf_host.c, lines 243-394).\<close>

definition handle_ipv6_cont ::
  "env \<Rightarrow> config \<Rightarrow> state \<Rightarrow> u32 \<Rightarrow> bool \<Rightarrow> rc \<times> state" where
  "handle_ipv6_cont E C s secctx from_host =
     (let s = cont_trace_init C s;
          (from_proxy, magic) = cont_from_proxy E C (skb s) from_host
      in
        case revalidate_data6 E (skb s) of
          None \<Rightarrow> (DROP DROP_INVALID, s)
        | Some ip6 \<Rightarrow>
            (case (if ENABLE_HOST_FIREWALL C then handle_ipv6_cont_hostfw E C s from_host ip6
                   else Inr (ip6, s)) of
               Inl r \<Rightarrow> r
             | Inr (ip6, s) \<Rightarrow>
                 handle_ipv6_cont_deliver E C s secctx from_host from_proxy magic ip6))"

text \<open>The spec's \<open>decide_from(x)\<close> for \<^verbatim>\<open>handle_ipv6_cont\<close>, as for IPv4.\<close>

definition handle_ipv6_cont_decide_from ::
  "env \<Rightarrow> config \<Rightarrow> state \<Rightarrow> u32 \<Rightarrow> bool \<Rightarrow> ct_buffer6 \<Rightarrow> rc \<times> state" where
  "handle_ipv6_cont_decide_from E C s secctx from_host x =
     (let s = cont_trace_init C s;
          (from_proxy, magic) = cont_from_proxy E C (skb s) from_host
      in
        case revalidate_data6 E (skb s) of
          None \<Rightarrow> (DROP DROP_INVALID, s)
        | Some ip6 \<Rightarrow>
            (case ctx_load_and_clear_meta s CB_FROM_HOST of (from_host_raw, s) \<Rightarrow>
               case handle_ipv6_cont_hostfw_apply E C s from_host from_host_raw ip6 x of
                 Inl r \<Rightarrow> r
               | Inr (ip6, s) \<Rightarrow>
                   handle_ipv6_cont_deliver E C s secctx from_host from_proxy magic ip6))"

section \<open>FIB redirect (lib/fib.h)\<close>

text \<open>The label \<^verbatim>\<open>out_send\<close> of \<^verbatim>\<open>fib_do_redirect\<close>.\<close>

definition fib_do_redirect_out_send :: "env \<Rightarrow> state \<Rightarrow> u32 \<Rightarrow> rc \<times> state" where
  "fib_do_redirect_out_send E s oif = ctx_redirect E s oif 0"

text \<open>
  \<^verbatim>\<open>fib_do_redirect\<close> (fib.h, lines 77-147). \<open>fib_params = None\<close> is the \<^verbatim>\<open>NULL\<close> pointer;
  the result is \<open>None\<close> where the C code dereferences it.
\<close>

definition fib_do_redirect ::
  "env \<Rightarrow> config \<Rightarrow> state \<Rightarrow> bool \<Rightarrow> bpf_fib_lookup option \<Rightarrow> bool \<Rightarrow> fib_result \<Rightarrow> u32
     \<Rightarrow> (rc \<times> state) option" where
  "fib_do_redirect E C s needs_l2_check fib_params allow_neigh_map fib_res oif =
     (case
        (if needs_l2_check then
           (case maybe_add_l2_hdr E C s oif True of (ret, l2_hdr_required, s) \<Rightarrow>
              (case ret of
                 Some e \<Rightarrow> Inl (Some (DROP e, s))
               | None \<Rightarrow>
                   if \<not> l2_hdr_required then Inl (Some (fib_do_redirect_out_send E s oif))
                   else Inr s))
         else Inr s)
      of
        Inl r \<Rightarrow> r
      | Inr s \<Rightarrow>
          (case fib_res of
             BPF_FIB_LKUP_RET_SUCCESS \<Rightarrow>
               (case fib_params of
                  None \<Rightarrow> None
                | Some p \<Rightarrow>
                    (case eth_store_daddr E s (fl_dmac p) 0 of (r, s) \<Rightarrow>
                       if r < 0 then Some (DROP DROP_WRITE_ERROR, s)
                       else case eth_store_saddr E s (fl_smac p) 0 of (r, s) \<Rightarrow>
                         if r < 0 then Some (DROP DROP_WRITE_ERROR, s)
                         else Some (fib_do_redirect_out_send E s oif)))
           | BPF_FIB_LKUP_RET_NO_NEIGH \<Rightarrow>
               if neigh_resolver_available C then
                 (case fib_params of
                    Some p \<Rightarrow>
                      Some (redirect_neigh E s oif
                              (Some \<lparr>nh_family = fl_family p, ipv6_nh = fl_ipv6_dst p\<rparr>))
                  | None \<Rightarrow> Some (redirect_neigh E s oif None))
               else
                 (let smac = NATIVE_DEV_MAC_BY_IFINDEX oif in
                  case
                    (if allow_neigh_map then
                       (case fib_params of
                          None \<Rightarrow> None
                        | Some p \<Rightarrow>
                            Some (if fl_family p = AF_INET
                                  then neigh_lookup_ip4 E (fl_ipv4_dst p)
                                  else neigh_lookup_ip6 E (fl_ipv6_dst p)))
                     else Some None)
                  of
                    None \<Rightarrow> None
                  | Some None \<Rightarrow>
                      Some (DROP DROP_NO_FIB, s\<lparr>ext_err := BPF_FIB_MAP_NO_NEIGH E\<rparr>)
                  | Some (Some dmac) \<Rightarrow>
                      (case eth_store_daddr_aligned E s dmac 0 of (r, s) \<Rightarrow>
                         if r < 0 then Some (DROP DROP_WRITE_ERROR, s)
                         else case eth_store_saddr_aligned E s smac 0 of (r, s) \<Rightarrow>
                           if r < 0 then Some (DROP DROP_WRITE_ERROR, s)
                           else Some (fib_do_redirect_out_send E s oif)))
           | BPF_FIB_LKUP_RET_OTHER _ \<Rightarrow> Some (fib_do_redirect_out_send E s oif)))"

section \<open>Entry points\<close>

text \<open>\<^verbatim>\<open>allow_vlan\<close> (bpf_host.c, lines 67-69) with \<^verbatim>\<open>VLAN_FILTER\<close> of node_config.h.\<close>

definition allow_vlan :: "u32 \<Rightarrow> u32 \<Rightarrow> bool" where
  "allow_vlan ifidx vlan_id =
     (if ifidx = 116 then vlan_id = 4000 \<or> vlan_id = 4001
      else if ifidx = 117 then vlan_id = 4003 \<or> vlan_id = 4004 \<or> vlan_id = 4005
      else False)"

text \<open>
  \<^verbatim>\<open>handle_l2_announcement\<close> (bpf_host.c, lines 1019-1082); \<open>ip6 = None\<close> is the \<^verbatim>\<open>NULL\<close>
  argument. The offset \<^verbatim>\<open>l3_off\<close> of the IPv6 header in the frame is \<^verbatim>\<open>ETH_HLEN\<close>.
\<close>

definition handle_l2_announcement ::
  "env \<Rightarrow> config \<Rightarrow> state \<Rightarrow> ipv6hdr option \<Rightarrow> rc \<times> state" where
  "handle_l2_announcement E C s ip6 =
     (let mac = interface_mac C;
          time = config_get_agent_liveness E s in
      if time = 0 then (CTX_ACT_OK, s)
      else if ktime_get_ns E s - time > L2_ANNOUNCEMENTS_MAX_LIVENESS then (CTX_ACT_OK, s)
      else
        case ip6 of
          None \<Rightarrow>
            (case arp_validate E (skb s) mac of
               None \<Rightarrow> (CTX_ACT_OK, s)
             | Some (smac, sip, tip) \<Rightarrow>
                 (let key = (tip, ingress_ifindex (skb s)) in
                  case cilium_l2_responder_v4 s key of
                    None \<Rightarrow> (CTX_ACT_OK, s)
                  | Some _ \<Rightarrow>
                      (case arp_respond E s mac tip smac sip 0 of (ret, s) \<Rightarrow>
                         (ret,
                          if ret = CTX_ACT_REDIRECT then
                            s\<lparr>cilium_l2_responder_v4 :=
                                 (cilium_l2_responder_v4 s)
                                   (key := map_option (\<lambda>n. n + 1) (cilium_l2_responder_v4 s key))\<rparr>
                          else s))))
        | Some ip6 \<Rightarrow>
            if ENABLE_IPV6 C then
              (case icmp6_ndisc_validate E (skb s) ip6 mac of
                 None \<Rightarrow> (CTX_ACT_OK, s)
               | Some tip6 \<Rightarrow>
                   (let key6 = (tip6, ingress_ifindex (skb s)) in
                    case cilium_l2_responder_v6 s key6 of
                      None \<Rightarrow> (CTX_ACT_OK, s)
                    | Some _ \<Rightarrow>
                        (let l3_off = ETH_HLEN C in
                         case icmp6_send_ndisc_adv E s l3_off mac False of (ret, s) \<Rightarrow>
                           (ret,
                            if ret = CTX_ACT_REDIRECT then
                              s\<lparr>cilium_l2_responder_v6 :=
                                   (cilium_l2_responder_v6 s)
                                     (key6 :=
                                        map_option (\<lambda>n. n + 1) (cilium_l2_responder_v6 s key6))\<rparr>
                            else s))))
            else (CTX_ACT_OK, s))"

text \<open>
  The hand-over of \<^verbatim>\<open>do_netdev\<close> to the protocol handler (bpf_host.c, lines 1164-1169 and
  1207-1217): when the tail call succeeds the program ends with the verdict of the
  called program; when it fails, its error goes into a drop notification whose exit
  code is \<^verbatim>\<open>CTX_ACT_OK\<close>.
\<close>

definition do_netdev_tail_call ::
  "env \<Rightarrow> state \<Rightarrow> call_id \<Rightarrow> u32 \<Rightarrow> rc \<times> state" where
  "do_netdev_tail_call E s call identity =
     (case tail_call_internal E s call of
        Inl r \<Rightarrow> r
      | Inr (ret, s) \<Rightarrow>
          send_drop_notify_error_with_exitcode_ext s identity ret (ext_err s) CTX_ACT_OK
            METRIC_INGRESS)"

text \<open>
  The IPv6 case of \<^verbatim>\<open>do_netdev\<close> from the identity resolution to the trace notification
  (lines 1138-1162): the resolved identity and the state at the tail call.
\<close>

definition do_netdev_ipv6_prepare ::
  "env \<Rightarrow> config \<Rightarrow> state \<Rightarrow> u16 \<Rightarrow> u32 \<Rightarrow> trace_point \<Rightarrow> bool \<Rightarrow> ipv6hdr \<Rightarrow> u32 \<times> state" where
  "do_netdev_ipv6_prepare E C s proto identity obs_point from_host ip6 =
     (case resolve_srcid_ipv6 E C s ip6 identity 0 from_host of (identity, ipcache_srcid, s) \<Rightarrow>
        let s = ctx_store_meta s CB_SRC_LABEL identity;
            s = (if ENABLE_HOST_FIREWALL C \<and> \<not> ENABLE_MASQUERADE_IPV6 C \<and> from_host
                 then ctx_store_meta s CB_IPCACHE_SRC_LABEL ipcache_srcid else s);
            s = (if ENABLE_WIREGUARD C \<and> \<not> from_host then
                   (case ipv6_hdrlen E s (ip6_nexthdr ip6) of
                      Inl _ \<Rightarrow> s
                    | Inr (hdrlen, next_proto) \<Rightarrow>
                        if hdrlen > 0
                           \<and> ctx_is_wireguard E (skb s) (ETH_HLEN C + hdrlen) next_proto
                                ipcache_srcid
                        then s\<lparr>trace := (trace s)\<lparr>trace_reason := TRACE_REASON_ENCRYPTED C\<rparr>\<rparr>
                        else s)
                 else s);
            s = send_trace_notify s obs_point ipcache_srcid UNKNOWN_ID
                  (Some (ingress_ifindex (skb s))) (trace_reason (trace s))
                  (trace_monitor (trace s)) proto
        in (identity, s))"

text \<open>The same for IPv4 (lines 1181-1205).\<close>

definition do_netdev_ipv4_prepare ::
  "env \<Rightarrow> config \<Rightarrow> state \<Rightarrow> u16 \<Rightarrow> u32 \<Rightarrow> trace_point \<Rightarrow> bool \<Rightarrow> iphdr \<Rightarrow> u32 \<times> state" where
  "do_netdev_ipv4_prepare E C s proto identity obs_point from_host ip4 =
     (case resolve_srcid_ipv4 E C s ip4 identity 0 from_host of (identity, ipcache_srcid, s) \<Rightarrow>
        let s = ctx_store_meta s CB_SRC_LABEL identity;
            s = (if ENABLE_HOST_FIREWALL C \<and> \<not> ENABLE_MASQUERADE_IPV4 C \<and> from_host
                 then ctx_store_meta s CB_IPCACHE_SRC_LABEL ipcache_srcid else s);
            s = (if ENABLE_WIREGUARD C \<and> \<not> from_host then
                   (let next_proto = ip4_protocol ip4;
                        hdrlen = ipv4_hdrlen E ip4 in
                    if ctx_is_wireguard E (skb s) (ETH_HLEN C + hdrlen) next_proto ipcache_srcid
                    then s\<lparr>trace := (trace s)\<lparr>trace_reason := TRACE_REASON_ENCRYPTED C\<rparr>\<rparr>
                    else s)
                 else s);
            s = send_trace_notify s obs_point ipcache_srcid UNKNOWN_ID
                  (Some (ingress_ifindex (skb s))) (trace_reason (trace s))
                  (trace_monitor (trace s)) proto
        in (identity, s))"

text \<open>
  The L2 announcement of the IPv6 case (lines 1124-1136): \<open>Inl\<close> when \<^verbatim>\<open>do_netdev\<close> returns
  there, else the header and the state it goes on with.
\<close>

definition do_netdev_ipv6_l2 ::
  "env \<Rightarrow> config \<Rightarrow> state \<Rightarrow> u32 \<Rightarrow> ipv6hdr \<Rightarrow> (rc \<times> state) + (ipv6hdr \<times> state)" where
  "do_netdev_ipv6_l2 E C s identity ip6 =
     (if ENABLE_L2_ANNOUNCEMENTS C \<and> ip6_nexthdr ip6 = NEXTHDR_ICMP then
        (case handle_l2_announcement E C s (Some ip6) of (ret, s) \<Rightarrow>
           if ret \<noteq> CTX_ACT_OK then Inl (ret, s)
           else
             case revalidate_data_pull6 E (skb s) of
               None \<Rightarrow> Inl (send_drop_notify_error s identity (DROP DROP_INVALID) METRIC_INGRESS)
             | Some ip6 \<Rightarrow> Inr (ip6, s))
      else Inr (ip6, s))"

text \<open>The start of \<^verbatim>\<open>do_netdev\<close> (lines 1090-1103).\<close>

definition do_netdev_init :: "config \<Rightarrow> state \<Rightarrow> state" where
  "do_netdev_init C s =
     bpf_clear_meta
       (s\<lparr>trace := \<lparr>trace_reason = TRACE_REASON_UNKNOWN C,
                      trace_monitor = TRACE_PAYLOAD_LEN C\<rparr>,
          ext_err := 0\<rparr>)"

text \<open>\<^verbatim>\<open>do_netdev\<close> (bpf_host.c, lines 1086-1232).\<close>

definition do_netdev ::
  "env \<Rightarrow> config \<Rightarrow> state \<Rightarrow> u16 \<Rightarrow> u32 \<Rightarrow> trace_point \<Rightarrow> bool \<Rightarrow> rc \<times> state" where
  "do_netdev E C s proto identity obs_point from_host =
     (let s = do_netdev_init C s
      in
        if (ENABLE_ARP_PASSTHROUGH C \<or> ENABLE_ARP_RESPONDER C \<or> ENABLE_L2_ANNOUNCEMENTS C)
           \<and> proto = bpf_htons ETH_P_ARP
        then
          (let s = send_trace_notify s obs_point UNKNOWN_ID UNKNOWN_ID
                     (Some (ingress_ifindex (skb s))) (trace_reason (trace s))
                     (trace_monitor (trace s)) proto
           in if ENABLE_L2_ANNOUNCEMENTS C then handle_l2_announcement E C s None
              else (CTX_ACT_OK, s))
        else if ENABLE_IPV6 C \<and> proto = bpf_htons ETH_P_IPV6 then
          (case revalidate_data_pull6 E (skb s) of
             None \<Rightarrow> send_drop_notify_error s identity (DROP DROP_INVALID) METRIC_INGRESS
           | Some ip6 \<Rightarrow>
               (case do_netdev_ipv6_l2 E C s identity ip6 of
                  Inl r \<Rightarrow> r
                | Inr (ip6, s) \<Rightarrow>
                    (case do_netdev_ipv6_prepare E C s proto identity obs_point from_host ip6 of
                       (identity, s) \<Rightarrow>
                         do_netdev_tail_call E s
                           (if from_host then CILIUM_CALL_IPV6_FROM_HOST
                            else CILIUM_CALL_IPV6_FROM_NETDEV)
                           identity)))
        else if ENABLE_IPV4 C \<and> proto = bpf_htons ETH_P_IP then
          (case revalidate_data_pull4 E (skb s) of
             None \<Rightarrow> send_drop_notify_error s identity (DROP DROP_INVALID) METRIC_INGRESS
           | Some ip4 \<Rightarrow>
               (case do_netdev_ipv4_prepare E C s proto identity obs_point from_host ip4 of
                  (identity, s) \<Rightarrow>
                    do_netdev_tail_call E s
                      (if from_host then CILIUM_CALL_IPV4_FROM_HOST
                       else CILIUM_CALL_IPV4_FROM_NETDEV)
                      identity))
        else
          (let s = send_trace_notify s obs_point UNKNOWN_ID UNKNOWN_ID
                     (Some (ingress_ifindex (skb s))) (trace_reason (trace s))
                     (trace_monitor (trace s)) proto
           in if ENABLE_HOST_FIREWALL C
              then send_drop_notify_error s identity (DROP DROP_UNKNOWN_L3) METRIC_INGRESS
              else (CTX_ACT_OK, s)))"

text \<open>\<^verbatim>\<open>cil_from_netdev\<close> (bpf_host.c, lines 1241-1309).\<close>

definition cil_from_netdev :: "env \<Rightarrow> config \<Rightarrow> state \<Rightarrow> rc \<times> state" where
  "cil_from_netdev E C s =
     (let src_id = UNKNOWN_ID;
          flags = ctx_get_xfer_flags E (skb s);
          vlan_id = vlan_tci (skb s) AND 0xfff
      in
        if vlan_present (skb s) \<and> vlan_id \<noteq> 0 then
          (if allow_vlan (ifindex (skb s)) vlan_id then (CTX_ACT_OK, s)
           else send_drop_notify_error s src_id (DROP DROP_VLAN_FILTERED) METRIC_INGRESS)
        else
          let k = ctx_skip_nodeport_clear E (skb s);
              k = (if ENABLE_NODEPORT_ACCELERATION C \<and> flags AND XFER_PKT_NO_SVC C \<noteq> 0
                   then ctx_skip_nodeport_set E k else k);
              k = (if ENABLE_NODEPORT_ACCELERATION C \<and> HAVE_ENCAP C
                      \<and> flags AND XFER_PKT_SNAT_DONE C \<noteq> 0
                   then ctx_snat_done_set E k else k);
              s = s\<lparr>skb := k\<rparr>
          in
            case validate_ethertype E (skb s) of (ok, proto) \<Rightarrow>
              if \<not> ok then
                (if ENABLE_HOST_FIREWALL C
                 then send_drop_notify_error s src_id (DROP DROP_UNSUPPORTED_L2) METRIC_INGRESS
                 else
                   (CTX_ACT_OK,
                    send_trace_notify s TRACE_TO_STACK src_id UNKNOWN_ID None
                      (TRACE_REASON_UNKNOWN C) 0 proto))
              else
                let s = (if ENABLE_IPSEC C then do_decrypt E s proto else s) in
                if ENABLE_IPSEC C \<and> mark (skb s) = MARK_MAGIC_DECRYPT C then (CTX_ACT_OK, s)
                else do_netdev E C s proto UNKNOWN_ID TRACE_FROM_NETWORK False)"

text \<open>\<^verbatim>\<open>handle_to_netdev_ipv6\<close> (bpf_host.c, lines 487-526).\<close>

definition handle_to_netdev_ipv6 :: "env \<Rightarrow> config \<Rightarrow> state \<Rightarrow> u32 \<Rightarrow> rc \<times> state" where
  "handle_to_netdev_ipv6 E C s src_sec_identity =
     (case revalidate_data_pull6 E (skb s) of
        None \<Rightarrow> (DROP DROP_INVALID, s)
      | Some ip6 \<Rightarrow>
          (case ipv6_hdrlen E s (ip6_nexthdr ip6) of
             Inl e \<Rightarrow> (DROP e, s)
           | Inr (hdrlen, nexthdr) \<Rightarrow>
               case
                 (if nexthdr = IPPROTO_ICMPV6 then
                    (case icmp6_host_handle E s (ETH_HLEN C + hdrlen) False of (ret, s) \<Rightarrow>
                       (case ret of
                          SKIP_HOST_FIREWALL \<Rightarrow> Inl (CTX_ACT_OK, s)
                        | ICMP6_RET ret \<Rightarrow> if IS_ERR ret then Inl (ret, s) else Inr s))
                  else Inr s)
               of
                 Inl r \<Rightarrow> r
               | Inr s \<Rightarrow>
                   let src_sec_identity =
                         (if src_sec_identity \<noteq> HOST_ID then 0 else src_sec_identity)
                   in case resolve_srcid_ipv6 E C s ip6 src_sec_identity 0 True of
                        (srcid, ipcache_srcid, s) \<Rightarrow>
                          ipv6_host_policy_egress E s srcid ipcache_srcid ip6))"

text \<open>\<^verbatim>\<open>handle_to_netdev_ipv4\<close> (bpf_host.c, lines 947-973).\<close>

definition handle_to_netdev_ipv4 :: "env \<Rightarrow> config \<Rightarrow> state \<Rightarrow> u32 \<Rightarrow> rc \<times> state" where
  "handle_to_netdev_ipv4 E C s src_sec_identity =
     (case revalidate_data_pull4 E (skb s) of
        None \<Rightarrow> (DROP DROP_INVALID, s)
      | Some ip4 \<Rightarrow>
          let src_sec_identity = (if src_sec_identity \<noteq> HOST_ID then 0 else src_sec_identity)
          in case resolve_srcid_ipv4 E C s ip4 src_sec_identity 0 True of
               (src_id, ipcache_srcid, s) \<Rightarrow>
                 ipv4_host_policy_egress E s src_id ipcache_srcid ip4)"

text \<open>
  \<^verbatim>\<open>cil_to_netdev\<close> (bpf_host.c, lines 1384-1704), one function for each label that a
  \<^verbatim>\<open>goto\<close> names and for the code that follows the host firewall block. The locals
  \<^verbatim>\<open>src_sec_identity\<close>, \<^verbatim>\<open>dst_sec_identity\<close>, \<^verbatim>\<open>proto\<close> and \<^verbatim>\<open>ret\<close> are arguments.
\<close>

definition cil_to_netdev_drop_err :: "state \<Rightarrow> u32 \<Rightarrow> rc \<Rightarrow> rc \<times> state" where
  "cil_to_netdev_drop_err s src_sec_identity ret =
     send_drop_notify_error_ext s src_sec_identity ret (ext_err s) METRIC_EGRESS"

text \<open>The label \<^verbatim>\<open>exit\<close> and the end of the function (lines 1689-1699).\<close>

definition cil_to_netdev_exit ::
  "config \<Rightarrow> state \<Rightarrow> u32 \<Rightarrow> u32 \<Rightarrow> u16 \<Rightarrow> rc \<Rightarrow> rc \<times> state" where
  "cil_to_netdev_exit C s src_sec_identity dst_sec_identity proto ret =
     (if IS_ERR ret then cil_to_netdev_drop_err s src_sec_identity ret
      else
        (ret,
         send_trace_notify s TRACE_TO_NETWORK src_sec_identity dst_sec_identity
           (Some (THIS_INTERFACE_IFINDEX C)) (trace_reason (trace s))
           (trace_monitor (trace s)) proto))"

text \<open>Health check and NodePort NAT (lines 1671-1687).\<close>

definition cil_to_netdev_nat ::
  "env \<Rightarrow> config \<Rightarrow> state \<Rightarrow> u32 \<Rightarrow> u32 \<Rightarrow> u16 \<Rightarrow> rc \<Rightarrow> rc \<times> state" where
  "cil_to_netdev_nat E C s src_sec_identity dst_sec_identity proto ret =
     (case (if ENABLE_HEALTH_CHECK C then lb_handle_health E s proto else (ret, s)) of
        (ret, s) \<Rightarrow>
          if ENABLE_HEALTH_CHECK C \<and> ret \<noteq> CTX_ACT_OK
          then cil_to_netdev_exit C s src_sec_identity dst_sec_identity proto ret
          else if ENABLE_NODEPORT C \<and> \<not> ctx_snat_done E (skb s) \<and> \<not> ctx_is_overlay E (skb s)
                  \<and> \<not> ctx_mark_is_wireguard E (skb s)
          then
            (case handle_nat_fwd E s 0 src_sec_identity proto False of (ret, s) \<Rightarrow>
               if ret = CTX_ACT_REDIRECT then (ret, s)
               else cil_to_netdev_exit C s src_sec_identity dst_sec_identity proto ret)
          else cil_to_netdev_exit C s src_sec_identity dst_sec_identity proto ret)"

text \<open>WireGuard and strict mode (lines 1633-1669).\<close>

definition cil_to_netdev_wireguard ::
  "env \<Rightarrow> config \<Rightarrow> state \<Rightarrow> u32 \<Rightarrow> u32 \<Rightarrow> u16 \<Rightarrow> rc \<Rightarrow> rc \<times> state" where
  "cil_to_netdev_wireguard E C s src_sec_identity dst_sec_identity proto ret =
     (if ENABLE_WIREGUARD C then
        (case
           (if \<not> ctx_mark_is_wireguard E (skb s) then
              (case wg_maybe_redirect_to_encrypt E s proto src_sec_identity of (ret, s) \<Rightarrow>
                 if ret = CTX_ACT_REDIRECT then Inl (ret, s)
                 else if IS_ERR ret then Inl (cil_to_netdev_drop_err s src_sec_identity ret)
                 else Inr (ret, s))
            else
              Inr (ret,
                   s\<lparr>trace := (trace s)\<lparr>trace_reason :=
                          trace_reason (trace s) OR TRACE_REASON_ENCRYPTED C\<rparr>\<rparr>))
         of
           Inl r \<Rightarrow> r
         | Inr (ret, s) \<Rightarrow>
             if ENCRYPTION_STRICT_MODE C \<and> \<not> strict_allow E s proto
             then cil_to_netdev_drop_err s src_sec_identity (DROP DROP_UNENCRYPTED_TRAFFIC)
             else cil_to_netdev_nat E C s src_sec_identity dst_sec_identity proto ret)
      else cil_to_netdev_nat E C s src_sec_identity dst_sec_identity proto ret)"

text \<open>The label \<^verbatim>\<open>skip_egress_gateway\<close>: bandwidth manager and IPsec (lines 1608-1631).\<close>

definition cil_to_netdev_skip_egress_gateway ::
  "env \<Rightarrow> config \<Rightarrow> state \<Rightarrow> u32 \<Rightarrow> u32 \<Rightarrow> u16 \<Rightarrow> rc \<Rightarrow> rc \<times> state" where
  "cil_to_netdev_skip_egress_gateway E C s src_sec_identity dst_sec_identity proto ret =
     (case
        (if ENABLE_BANDWIDTH_MANAGER C then
           (case edt_sched_departure E s proto of (ret, s) \<Rightarrow>
              if rc_negative ret then Inl (CTX_ACT_DROP, update_metrics s METRIC_EGRESS ret)
              else Inr (ret, s))
         else Inr (ret, s))
      of
        Inl r \<Rightarrow> r
      | Inr (ret, s) \<Rightarrow>
          if ENABLE_IPSEC C then
            (if mark (skb s) AND MARK_MAGIC_HOST_MASK C \<noteq> MARK_MAGIC_ENCRYPT C then
               (case ipsec_maybe_redirect_to_encrypt E s proto src_sec_identity of (ret, s) \<Rightarrow>
                  if ret = CTX_ACT_REDIRECT then (ret, s)
                  else if IS_ERR ret then cil_to_netdev_drop_err s src_sec_identity ret
                  else cil_to_netdev_wireguard E C s src_sec_identity dst_sec_identity proto ret)
             else
               cil_to_netdev_wireguard E C
                 (s\<lparr>trace := (trace s)\<lparr>trace_reason :=
                        trace_reason (trace s) OR TRACE_REASON_ENCRYPTED C\<rparr>\<rparr>)
                 src_sec_identity dst_sec_identity proto ret)
          else cil_to_netdev_wireguard E C s src_sec_identity dst_sec_identity proto ret)"

text \<open>
  The end of the egress gateway block (lines 1602-1606), after \<^verbatim>\<open>egress_gw_handle_packet\<close>.
\<close>

definition cil_to_netdev_egw_done ::
  "env \<Rightarrow> config \<Rightarrow> state \<Rightarrow> u32 \<Rightarrow> u32 \<Rightarrow> u16 \<Rightarrow> rc \<Rightarrow> rc \<times> state" where
  "cil_to_netdev_egw_done E C s src_sec_identity dst_sec_identity proto ret =
     (if IS_ERR ret then cil_to_netdev_drop_err s src_sec_identity ret
      else if ret \<noteq> CTX_ACT_OK then (ret, s)
      else cil_to_netdev_skip_egress_gateway E C s src_sec_identity dst_sec_identity proto ret)"

text \<open>The IPv4 case of the egress gateway block (lines 1507-1546).\<close>

definition cil_to_netdev_egw_ipv4 ::
  "env \<Rightarrow> config \<Rightarrow> state \<Rightarrow> u32 \<Rightarrow> u32 \<Rightarrow> u16 \<Rightarrow> rc \<times> state" where
  "cil_to_netdev_egw_ipv4 E C s src_sec_identity dst_sec_identity proto =
     (case revalidate_data4 E (skb s) of
        None \<Rightarrow> cil_to_netdev_drop_err s src_sec_identity (DROP DROP_INVALID)
      | Some ip4 \<Rightarrow>
          let fraginfo = ipfrag_encode_ipv4 E ip4;
              tuple4 = \<lparr>t4_daddr = ip4_daddr ip4, t4_saddr = ip4_saddr ip4, t4_dport = 0,
                        t4_sport = 0, t4_nexthdr = ip4_protocol ip4, t4_flags = 0\<rparr>;
              l4_off = ETH_HLEN C + ipv4_hdrlen E ip4
          in case ct_extract_ports4 E s ip4 fraginfo l4_off tuple4 of (ret, tuple4) \<Rightarrow>
               if IS_ERR ret then
                 (if ret = DROP DROP_CT_UNKNOWN_PROTO
                  then cil_to_netdev_skip_egress_gateway E C s src_sec_identity
                         dst_sec_identity proto ret
                  else cil_to_netdev_drop_err s src_sec_identity ret)
               else if ct_is_reply4 E tuple4 then
                 cil_to_netdev_skip_egress_gateway E C s src_sec_identity dst_sec_identity
                   proto ret
               else
                 let src_sec_identity =
                       (case uu_lookup_ip4_endpoint E (ip4_saddr ip4) of
                          Some src_ep \<Rightarrow> ep_sec_id src_ep
                        | None \<Rightarrow> src_sec_identity);
                     dst_sec_identity =
                       (case lookup_ip4_remote_endpoint E (ip4_daddr ip4) 0 of
                          Some info \<Rightarrow> sec_identity info
                        | None \<Rightarrow> dst_sec_identity);
                     tuple4 = uu_ipv4_ct_tuple_reverse E tuple4
                 in case egress_gw_handle_packet E s tuple4 src_sec_identity dst_sec_identity of
                      (ret, s) \<Rightarrow>
                        cil_to_netdev_egw_done E C s src_sec_identity dst_sec_identity proto
                          ret)"

text \<open>The IPv6 case of the egress gateway block (lines 1548-1596).\<close>

definition cil_to_netdev_egw_ipv6 ::
  "env \<Rightarrow> config \<Rightarrow> state \<Rightarrow> u32 \<Rightarrow> u32 \<Rightarrow> u16 \<Rightarrow> rc \<times> state" where
  "cil_to_netdev_egw_ipv6 E C s src_sec_identity dst_sec_identity proto =
     (case revalidate_data6 E (skb s) of
        None \<Rightarrow> cil_to_netdev_drop_err s src_sec_identity (DROP DROP_INVALID)
      | Some ip6 \<Rightarrow>
          (case ipv6_get_fraginfo E s ip6 of
             Inl e \<Rightarrow> cil_to_netdev_drop_err s src_sec_identity (DROP e)
           | Inr fraginfo \<Rightarrow>
               (case ipv6_hdrlen E s (ip6_nexthdr ip6) of
                  Inl e \<Rightarrow>
                    cil_to_netdev_drop_err s src_sec_identity (DROP (DROP_PLUS e (ETH_HLEN C)))
                | Inr (hdrlen, nexthdr) \<Rightarrow>
                    let tuple6 = \<lparr>t6_daddr = ip6_daddr ip6, t6_saddr = ip6_saddr ip6,
                                  t6_dport = 0, t6_sport = 0, t6_nexthdr = nexthdr,
                                  t6_flags = 0\<rparr>;
                        l4_off = ETH_HLEN C + hdrlen
                    in case ct_extract_ports6 E s ip6 fraginfo l4_off tuple6 of
                         (ret, tuple6) \<Rightarrow>
                           if IS_ERR ret then
                             (if ret = DROP DROP_CT_UNKNOWN_PROTO
                              then cil_to_netdev_skip_egress_gateway E C s src_sec_identity
                                     dst_sec_identity proto ret
                              else cil_to_netdev_drop_err s src_sec_identity ret)
                           else if ct_is_reply6 E tuple6 then
                             cil_to_netdev_skip_egress_gateway E C s src_sec_identity
                               dst_sec_identity proto ret
                           else
                             let src_sec_identity =
                                   (case uu_lookup_ip6_endpoint E (ip6_saddr ip6) of
                                      Some src_ep \<Rightarrow> ep_sec_id src_ep
                                    | None \<Rightarrow> src_sec_identity);
                                 dst_sec_identity =
                                   (case lookup_ip6_remote_endpoint E (ip6_daddr ip6) 0 of
                                      Some info \<Rightarrow> sec_identity info
                                    | None \<Rightarrow> dst_sec_identity);
                                 tuple6 = uu_ipv6_ct_tuple_reverse E tuple6
                             in case egress_gw_handle_packet_v6 E s tuple6 src_sec_identity
                                       dst_sec_identity of
                                  (ret, s) \<Rightarrow>
                                    cil_to_netdev_egw_done E C s src_sec_identity
                                      dst_sec_identity proto ret)))"

text \<open>
  The label \<^verbatim>\<open>skip_host_firewall\<close> (lines 1480-1606): the egress policy hook, which is
  the constant \<^verbatim>\<open>CTX_ACT_OK\<close> (line 59), and the egress gateway block.
\<close>

definition cil_to_netdev_skip_host_firewall ::
  "env \<Rightarrow> config \<Rightarrow> state \<Rightarrow> u32 \<Rightarrow> u32 \<Rightarrow> u16 \<Rightarrow> rc \<times> state" where
  "cil_to_netdev_skip_host_firewall E C s src_sec_identity dst_sec_identity proto =
     (let ret = CTX_ACT_OK in
      if IS_ERR ret then cil_to_netdev_drop_err s src_sec_identity ret
      else if ENABLE_EGRESS_GATEWAY_COMMON C then
        (if src_sec_identity = HOST_ID then
           cil_to_netdev_skip_egress_gateway E C s src_sec_identity dst_sec_identity proto ret
         else if ctx_egw_done E (skb s) then
           cil_to_netdev_skip_egress_gateway E C s src_sec_identity dst_sec_identity proto ret
         else if proto = bpf_htons ETH_P_IP then
           cil_to_netdev_egw_ipv4 E C s src_sec_identity dst_sec_identity proto
         else if ENABLE_IPV6 C \<and> proto = bpf_htons ETH_P_IPV6 then
           cil_to_netdev_egw_ipv6 E C s src_sec_identity dst_sec_identity proto
         else
           cil_to_netdev_skip_egress_gateway E C s src_sec_identity dst_sec_identity proto ret)
      else cil_to_netdev_skip_egress_gateway E C s src_sec_identity dst_sec_identity proto ret)"

text \<open>
  The host firewall egress evaluation (lines 1445-1478), which the snat-done test of
  line 1442 jumps over.
\<close>

definition cil_to_netdev_host_firewall ::
  "env \<Rightarrow> config \<Rightarrow> state \<Rightarrow> u32 \<Rightarrow> u32 \<Rightarrow> u16 \<Rightarrow> rc \<times> state" where
  "cil_to_netdev_host_firewall E C s src_sec_identity dst_sec_identity proto =
     (if \<not> eth_is_supported_ethertype E proto
      then cil_to_netdev_drop_err s src_sec_identity (DROP DROP_UNSUPPORTED_L2)
      else
        case
          (if (ENABLE_ARP_PASSTHROUGH C \<or> ENABLE_ARP_RESPONDER C)
              \<and> proto = bpf_htons ETH_P_ARP
           then (CTX_ACT_OK, s)
           else if ENABLE_IPV6 C \<and> proto = bpf_htons ETH_P_IPV6
           then handle_to_netdev_ipv6 E C s src_sec_identity
           else if ENABLE_IPV4 C \<and> proto = bpf_htons ETH_P_IP
           then handle_to_netdev_ipv4 E C s src_sec_identity
           else (DROP DROP_UNKNOWN_L3, s))
        of (ret, s) \<Rightarrow>
          if ret = CTX_ACT_REDIRECT then (ret, s)
          else if IS_ERR ret then cil_to_netdev_drop_err s src_sec_identity ret
          else cil_to_netdev_skip_host_firewall E C s src_sec_identity dst_sec_identity proto)"

definition cil_to_netdev :: "env \<Rightarrow> config \<Rightarrow> state \<Rightarrow> rc \<times> state" where
  "cil_to_netdev E C s =
     (let magic = mark (skb s) AND MARK_MAGIC_HOST_MASK C;
          dst_sec_identity = UNKNOWN_ID;
          src_sec_identity = UNKNOWN_ID;
          s = s\<lparr>trace := \<lparr>trace_reason = TRACE_REASON_UNKNOWN C, trace_monitor = 0\<rparr>,
                 ext_err := 0\<rparr>;
          s = bpf_clear_meta s;
          src_sec_identity =
            (if magic = MARK_MAGIC_HOST C \<or> magic = MARK_MAGIC_OVERLAY C
                \<or> ctx_mark_is_wireguard E (skb s)
             then HOST_ID
             else if ENABLE_IDENTITY_MARK C \<and> magic = MARK_MAGIC_IDENTITY C
             then get_identity E (skb s)
             else if ENABLE_EGRESS_GATEWAY_COMMON C \<and> magic = MARK_MAGIC_EGW_DONE C
             then get_identity E (skb s)
             else src_sec_identity);
          vlan_id = vlan_tci (skb s) AND 0xfff
      in
        if vlan_present (skb s) \<and> vlan_id \<noteq> 0 then
          (if allow_vlan (ifindex (skb s)) vlan_id then (CTX_ACT_OK, s)
           else cil_to_netdev_drop_err s src_sec_identity (DROP DROP_VLAN_FILTERED))
        else if ENABLE_L7_LB C \<and> magic = MARK_MAGIC_PROXY_EGRESS_EPID C then
          (let lxc_id = get_epid E (skb s);
               s = s\<lparr>skb := (skb s)\<lparr>mark := 0\<rparr>\<rparr>
           in case tail_call_egress_policy E s (ucast lxc_id) of
                Inl r \<Rightarrow> r
              | Inr (ret, s) \<Rightarrow> cil_to_netdev_drop_err s src_sec_identity ret)
        else
          case validate_ethertype E (skb s) of (ok, proto) \<Rightarrow>
            if ENABLE_HOST_FIREWALL C then
              (if ctx_snat_done E (skb s)
               then cil_to_netdev_skip_host_firewall E C s src_sec_identity dst_sec_identity
                      proto
               else cil_to_netdev_host_firewall E C s src_sec_identity dst_sec_identity proto)
            else cil_to_netdev_skip_host_firewall E C s src_sec_identity dst_sec_identity proto)"

section \<open>Sample inputs\<close>

text \<open>
  Modelled from the spec: \<^verbatim>\<open>identity_is_reserved\<close> is declared in \<^verbatim>\<open>lib/identity.h\<close>,
  which is not among the sources; the spec speaks of "a small set of reserved placeholder
  values (meaning not yet resolved)". The sample takes the identities that
  \<^verbatim>\<open>node_config.h\<close> reserves: unknown, host, world, the node identities 6 and 7 and the
  two per-family world identities.
\<close>

definition sample_identity_is_reserved :: "u32 \<Rightarrow> bool" where
  "sample_identity_is_reserved i = (i < 3 \<or> i = 6 \<or> i = 7 \<or> i = 9 \<or> i = 10)"

definition sample_info :: "u32 \<Rightarrow> remote_endpoint_info" where
  "sample_info i =
     \<lparr>sec_identity = i, tunnel_endpoint_ip4 = 0, flag_skip_tunnel = False,
      flag_has_tunnel_ep = False\<rparr>"

definition sample_v6 :: v6addr where
  "sample_v6 = \<lparr>v6_d1 = 0x20010DB800000000, v6_d2 = 5\<rparr>"

definition sample_ip4 :: iphdr where
  "sample_ip4 =
     \<lparr>ip4_saddr = 0x0A000005, ip4_daddr = 0x0A000107, ip4_protocol = 6, ip4_frag_off = 0\<rparr>"

definition sample_ip6 :: ipv6hdr where
  "sample_ip6 = \<lparr>ip6_saddr = sample_v6, ip6_daddr = sample_v6, ip6_nexthdr = 6\<rparr>"

text \<open>10.0.0.5 and 2001:db8::5 carry the identity 50 in the remote-endpoint table.\<close>

definition sample_env :: env where
  "sample_env =
     \<lparr>identity_is_reserved = sample_identity_is_reserved,
      identity_is_world_ipv4 = (\<lambda>i. i = 2 \<or> i = 9),
      identity_is_world_ipv6 = (\<lambda>i. i = 2 \<or> i = 10),
      identity_is_cluster = (\<lambda>i. \<not> (i = 2 \<or> i = 9 \<or> i = 10)),
      lookup_ip4_remote_endpoint =
        (\<lambda>a c. if a = 0x0A000005 then Some (sample_info 50) else None),
      lookup_ip6_remote_endpoint =
        (\<lambda>a c. if a = sample_v6 then Some (sample_info 50) else None),
      lookup_ip4_endpoint = (\<lambda>_. None),
      lookup_ip6_endpoint = (\<lambda>_. None),
      cilium_vtep_map = (\<lambda>_. None),
      revalidate_data4 = (\<lambda>_. Some sample_ip4),
      revalidate_data6 = (\<lambda>_. Some sample_ip6),
      uuuu_revalidate_data_pull4 = (\<lambda>_ _. Some sample_ip4),
      ipfrag_encode_ipv4 = (\<lambda>_. 0),
      ipfrag_is_fragment = (\<lambda>_. False),
      ipv6_get_fraginfo = (\<lambda>_ _. Inr 0),
      ipv6_hdrlen = (\<lambda>_ n. Inr (40, n)),
      icmp6_host_handle = (\<lambda>s _ _. (ICMP6_RET CTX_ACT_OK, s)),
      ctx_skip_nodeport = (\<lambda>_. False),
      ctx_skip_host_fw = (\<lambda>_. False),
      tc_index_from_ingress_proxy = (\<lambda>_. False),
      tc_index_from_egress_proxy = (\<lambda>_. False),
      nodeport_lb4 = (\<lambda>s _ _ _. (CTX_ACT_OK, s)),
      nodeport_lb6 = (\<lambda>s _ _. (CTX_ACT_OK, s)),
      ipv4_host_policy_egress_lookup = (\<lambda>_ _ _ _ b. (False, b)),
      ipv4_host_policy_ingress_lookup = (\<lambda>_ _ b. (False, b)),
      ipv6_host_policy_egress_lookup = (\<lambda>_ _ _ _ b. (False, b)),
      ipv6_host_policy_ingress_lookup = (\<lambda>_ _ b. (False, b)),
      map_update_elem_fails = (\<lambda>_. False),
      uu_ipv4_host_policy_egress = (\<lambda>s _ _ _. (CTX_ACT_OK, s)),
      uu_ipv4_host_policy_ingress = (\<lambda>s _ _ _. (CTX_ACT_OK, s)),
      uu_ipv6_host_policy_egress = (\<lambda>s _ _ _. (CTX_ACT_OK, s)),
      uu_ipv6_host_policy_ingress = (\<lambda>s _ _ _. (CTX_ACT_OK, s)),
      ipv4_local_delivery = (\<lambda>s _ _ _ _ _ _ _ _ _. (CTX_ACT_REDIRECT, s)),
      ipv6_local_delivery = (\<lambda>s _ _ _ _ _ _ _. (CTX_ACT_REDIRECT, s)),
      encap_and_redirect_with_nodeid = (\<lambda>s _ _ _ _. (CTX_ACT_REDIRECT, s)),
      uu_encap_and_redirect_with_nodeid = (\<lambda>s _ _ _ _ _. (CTX_ACT_REDIRECT, s)),
      is_srv6_packet = (\<lambda>_. False),
      srv6_lookup_sid = (\<lambda>_. False),
      tail_call_internal = (\<lambda>s _. Inl (CTX_ACT_OK, s)),
      ctx_get_protocol = (\<lambda>_. 0x0008),
      ctx_change_head = (\<lambda>s _ _. (0, s)),
      eth_store_proto = (\<lambda>s _ _. (0, s)),
      eth_store_daddr = (\<lambda>s _ _. (0, s)),
      eth_store_saddr = (\<lambda>s _ _. (0, s)),
      eth_store_daddr_aligned = (\<lambda>s _ _. (0, s)),
      eth_store_saddr_aligned = (\<lambda>s _ _. (0, s)),
      redirect_neigh = (\<lambda>s _ _. (CTX_ACT_REDIRECT, s)),
      ctx_redirect = (\<lambda>s _ _. (CTX_ACT_REDIRECT, s)),
      neigh_lookup_ip4 = (\<lambda>_. None),
      neigh_lookup_ip6 = (\<lambda>_. None),
      BPF_FIB_MAP_NO_NEIGH = 100,
      revalidate_data_pull4 = (\<lambda>_. Some sample_ip4),
      revalidate_data_pull6 = (\<lambda>_. Some sample_ip6),
      validate_ethertype = (\<lambda>_. (True, 0x0008)),
      eth_is_supported_ethertype = (\<lambda>_. True),
      ipv4_hdrlen = (\<lambda>_. 20),
      ctx_is_wireguard = (\<lambda>_ _ _ _. False),
      ctx_mark_is_wireguard = (\<lambda>_. False),
      ctx_is_overlay = (\<lambda>_. False),
      ctx_snat_done = (\<lambda>k. mark k AND 0x0F00 = 0x0300),
      ctx_egw_done = (\<lambda>_. False),
      ctx_get_xfer_flags = (\<lambda>_. 0),
      ctx_skip_nodeport_clear = (\<lambda>k. k),
      ctx_skip_nodeport_set = (\<lambda>k. k),
      ctx_snat_done_set = (\<lambda>k. k),
      get_identity = (\<lambda>_. 0),
      get_epid = (\<lambda>_. 0),
      do_decrypt = (\<lambda>s _. s),
      tail_call_egress_policy = (\<lambda>s _. Inl (CTX_ACT_OK, s)),
      ipv4_host_policy_egress = (\<lambda>s _ _ _. (DROP (DROP_OTHER 133), s)),
      ipv6_host_policy_egress = (\<lambda>s _ _ _. (DROP (DROP_OTHER 133), s)),
      ct_extract_ports4 = (\<lambda>_ _ _ _ tu. (CTX_ACT_OK, tu)),
      ct_extract_ports6 = (\<lambda>_ _ _ _ tu. (CTX_ACT_OK, tu)),
      ct_is_reply4 = (\<lambda>_. False),
      ct_is_reply6 = (\<lambda>_. False),
      uu_ipv4_ct_tuple_reverse = (\<lambda>tu. tu),
      uu_ipv6_ct_tuple_reverse = (\<lambda>tu. tu),
      uu_lookup_ip4_endpoint = (\<lambda>_. None),
      uu_lookup_ip6_endpoint = (\<lambda>_. None),
      egress_gw_handle_packet = (\<lambda>s _ _ _. (CTX_ACT_OK, s)),
      egress_gw_handle_packet_v6 = (\<lambda>s _ _ _. (CTX_ACT_OK, s)),
      edt_sched_departure = (\<lambda>s _. (CTX_ACT_OK, s)),
      ipsec_maybe_redirect_to_encrypt = (\<lambda>s _ _. (CTX_ACT_OK, s)),
      wg_maybe_redirect_to_encrypt = (\<lambda>s _ _. (CTX_ACT_OK, s)),
      strict_allow = (\<lambda>_ _. True),
      lb_handle_health = (\<lambda>s _. (CTX_ACT_OK, s)),
      handle_nat_fwd = (\<lambda>s _ _ _ _. (CTX_ACT_OK, s)),
      config_get_agent_liveness = (\<lambda>_. 0),
      ktime_get_ns = (\<lambda>_. 0),
      arp_validate = (\<lambda>_ _. None),
      arp_respond = (\<lambda>s _ _ _ _ _. (CTX_ACT_REDIRECT, s)),
      icmp6_ndisc_validate = (\<lambda>_ _ _. None),
      icmp6_send_ndisc_adv = (\<lambda>s _ _ _. (CTX_ACT_REDIRECT, s))\<rparr>"

definition sample_config :: config where
  "sample_config =
     \<lparr>ENABLE_IPV4 = True, ENABLE_IPV6 = True, ENABLE_HOST_FIREWALL = True,
      ENABLE_NODEPORT = False, ENABLE_HOST_ROUTING = True,
      ENABLE_IPV4_FRAGMENTS = True, ENABLE_IPV6_FRAGMENTS = True, ENABLE_SRV6 = False,
      ENABLE_VTEP = False, TUNNEL_MODE = False, ENABLE_IPSEC = False,
      ENABLE_WIREGUARD = False, ENCRYPTION_STRICT_MODE = False,
      ENABLE_MASQUERADE_IPV4 = False, ENABLE_MASQUERADE_IPV6 = False,
      ENABLE_L2_ANNOUNCEMENTS = False, ENABLE_ARP_PASSTHROUGH = False,
      ENABLE_ARP_RESPONDER = True, ENABLE_IDENTITY_MARK = True,
      ENABLE_NODEPORT_ACCELERATION = False, HAVE_ENCAP = False, ENABLE_L7_LB = False,
      ENABLE_EGRESS_GATEWAY_COMMON = False, ENABLE_BANDWIDTH_MANAGER = False,
      ENABLE_HEALTH_CHECK = False, secctx_from_ipcache = False,
      neigh_resolver_available = False, IS_L3_DEV = (\<lambda>_. False), ETH_HLEN = 14,
      interface_mac = [0xce, 0x72, 0xa7, 0x03, 0x88, 0x56],
      THIS_INTERFACE_IFINDEX = 116, ENDPOINT_MASK_HOST_DELIVERY = 1,
      TRACE_REASON_UNKNOWN = 5, TRACE_REASON_ENCRYPTED = 0x80, TRACE_PAYLOAD_LEN = 128,
      MARK_MAGIC_HOST_MASK = 0x0F00, MARK_MAGIC_HOST = 0x0C00, MARK_MAGIC_OVERLAY = 0x0400,
      MARK_MAGIC_IDENTITY = 0x0F00, MARK_MAGIC_EGW_DONE = 0x0500,
      MARK_MAGIC_PROXY_INGRESS = 0x0A00, MARK_MAGIC_PROXY_EGRESS = 0x0B00,
      MARK_MAGIC_PROXY_EGRESS_EPID = 0x0900, MARK_MAGIC_PROXY_TO_WORLD = 0x0800,
      MARK_MAGIC_ENCRYPT = 0x0E00, MARK_MAGIC_DECRYPT = 0x0D00,
      XFER_PKT_NO_SVC = 1, XFER_PKT_SNAT_DONE = 4\<rparr>"

definition sample_skb :: skb where
  "sample_skb =
     \<lparr>mark = 0, vlan_present = False, vlan_tci = 0, ifindex = 116, ingress_ifindex = 116,
      tc_index = 0, cb = (\<lambda>_. 0), frame = []\<rparr>"

definition sample_state :: state where
  "sample_state =
     \<lparr>skb = sample_skb, ext_err = 0,
      trace = \<lparr>trace_reason = 0, trace_monitor = 0\<rparr>, punt_to_stack = False,
      cilium_tail_call_buffer4 = Some zero_ct_buffer4,
      cilium_tail_call_buffer6 = Some zero_ct_buffer6,
      cilium_l2_responder_v4 = (\<lambda>_. None), cilium_l2_responder_v6 = (\<lambda>_. None),
      events = []\<rparr>"

text \<open>
  A host firewall whose lookups always ask for enforcement and fill the tuple from the
  header, the same with a transfer buffer that cannot be written, and a state in which
  the pre-check has asked for enforcement.
\<close>

definition sample_fill4 :: "iphdr \<Rightarrow> ct_buffer4 \<Rightarrow> ct_buffer4" where
  "sample_fill4 ip b =
     b\<lparr>cb4_tuple := (cb4_tuple b)\<lparr>t4_saddr := ip4_saddr ip, t4_daddr := ip4_daddr ip,
                                    t4_nexthdr := ip4_protocol ip\<rparr>,
       cb4_ret := Inr 1\<rparr>"

definition sample_fill6 :: "ipv6hdr \<Rightarrow> ct_buffer6 \<Rightarrow> ct_buffer6" where
  "sample_fill6 ip b =
     b\<lparr>cb6_tuple := (cb6_tuple b)\<lparr>t6_saddr := ip6_saddr ip, t6_daddr := ip6_daddr ip,
                                    t6_nexthdr := ip6_nexthdr ip\<rparr>,
       cb6_ret := Inr 1\<rparr>"

definition env_hostfw :: env where
  "env_hostfw =
     sample_env
       \<lparr>ipv4_host_policy_egress_lookup := (\<lambda>s a c ip b. (True, sample_fill4 ip b)),
        ipv4_host_policy_ingress_lookup := (\<lambda>s ip b. (True, sample_fill4 ip b)),
        ipv6_host_policy_egress_lookup := (\<lambda>s a c ip b. (True, sample_fill6 ip b)),
        ipv6_host_policy_ingress_lookup := (\<lambda>s ip b. (True, sample_fill6 ip b))\<rparr>"

definition env_hostfw_full :: env where
  "env_hostfw_full = env_hostfw\<lparr>map_update_elem_fails := (\<lambda>_. True)\<rparr>"

definition state_need_hostfw :: state where
  "state_need_hostfw = ctx_store_meta sample_state CB_FROM_HOST FROM_HOST_FLAG_NEED_HOSTFW"

text \<open>A packet with the source address 0.0.0.0, and the environment that receives it.\<close>

definition sample_ip4_any :: iphdr where
  "sample_ip4_any = sample_ip4\<lparr>ip4_saddr := 0\<rparr>"

definition env_hostfw_any :: env where
  "env_hostfw_any = env_hostfw\<lparr>revalidate_data4 := (\<lambda>_. Some sample_ip4_any)\<rparr>"

text \<open>
  The node's own address as destination (a local endpoint flagged for host delivery), a
  host policy that redirects to the proxy, a remote-endpoint table that maps every
  address to the world identity with a packet that comes from the egress proxy, and a
  state whose transfer buffer holds a lookup result.
\<close>

definition sample_host_ep :: endpoint_info where
  "sample_host_ep = \<lparr>ep_ifindex = 1, ep_flags = 1, ep_sec_id = 1\<rparr>"

definition env_local :: env where
  "env_local = sample_env\<lparr>lookup_ip4_endpoint := (\<lambda>_. Some sample_host_ep),
                           lookup_ip6_endpoint := (\<lambda>_. Some sample_host_ep)\<rparr>"

definition env_redirect :: env where
  "env_redirect = env_local\<lparr>uu_ipv4_host_policy_ingress := (\<lambda>s _ _ _. (CTX_ACT_REDIRECT, s))\<rparr>"

definition env_world :: env where
  "env_world =
     sample_env\<lparr>lookup_ip4_remote_endpoint := (\<lambda>a c. Some (sample_info 2)),
                 lookup_ip6_remote_endpoint := (\<lambda>a c. Some (sample_info 2)),
                 tc_index_from_egress_proxy := (\<lambda>_. True)\<rparr>"

definition state_stored :: state where
  "state_stored =
     ctx_store_meta
       (sample_state\<lparr>cilium_tail_call_buffer4 := Some (sample_fill4 sample_ip4 zero_ct_buffer4)\<rparr>)
       CB_FROM_HOST FROM_HOST_FLAG_NEED_HOSTFW"

text \<open>
  A plain redirect that leaves its mark on the packet context (the egress interface), an
  interface 42 without L2 addresses with the on-demand neighbour resolver at hand, and
  the result of a FIB lookup for 10.0.1.7.
\<close>

definition sample_redirect :: "state \<Rightarrow> u32 \<Rightarrow> u64 \<Rightarrow> rc \<times> state" where
  "sample_redirect s oif flags = (CTX_ACT_REDIRECT, s\<lparr>skb := (skb s)\<lparr>ifindex := oif\<rparr>\<rparr>)"

definition env_fib :: env where
  "env_fib = sample_env\<lparr>ctx_redirect := sample_redirect\<rparr>"

definition config_l3 :: config where
  "config_l3 = sample_config\<lparr>neigh_resolver_available := True, IS_L3_DEV := (\<lambda>i. i = 42)\<rparr>"

definition sample_fib_params :: bpf_fib_lookup where
  "sample_fib_params =
     \<lparr>fl_family = AF_INET, fl_ifindex = 42,
      fl_ipv6_dst = \<lparr>v6_d1 = 0x0A000107, v6_d2 = 0\<rparr>,
      fl_smac = [1, 2, 3, 4, 5, 6], fl_dmac = [6, 5, 4, 3, 2, 1]\<rparr>"

text \<open>
  A frame with a VLAN tag, a packet with the snat-done mark, and an environment in which
  every tail call fails.
\<close>

definition state_vlan :: "u32 \<Rightarrow> state" where
  "state_vlan tci = sample_state\<lparr>skb := sample_skb\<lparr>vlan_present := True, vlan_tci := tci\<rparr>\<rparr>"

definition state_snat_done :: state where
  "state_snat_done = sample_state\<lparr>skb := sample_skb\<lparr>mark := 0x0300\<rparr>\<rparr>"

definition env_no_tail_call :: env where
  "env_no_tail_call =
     sample_env\<lparr>tail_call_internal := (\<lambda>s c. Inr (DROP DROP_MISSED_TAIL_CALL, s\<lparr>ext_err := 1\<rparr>))\<rparr>"

section \<open>Source-identity resolution: properties\<close>

lemma resolve_srcid_ipv4_value:
  "fst (resolve_srcid_ipv4 E C s ip4 inband sec0 from_host) =
     (if \<not> from_host \<and> \<not> secctx_from_ipcache C then WORLD_IPV4_ID C
      else if \<not> identity_is_reserved E inband then inband
      else case lookup_ip4_remote_endpoint E (ip4_saddr ip4) 0 of
             None \<Rightarrow> inband
           | Some i \<Rightarrow> if sec_identity i \<noteq> HOST_ID then sec_identity i else inband)"
  by (simp add: resolve_srcid_ipv4_def Let_def split: option.splits)

lemma resolve_srcid_ipv6_value:
  "fst (resolve_srcid_ipv6 E C s ip6 inband sec0 from_host) =
     (if \<not> from_host \<and> \<not> secctx_from_ipcache C then WORLD_IPV6_ID C
      else if \<not> identity_is_reserved E inband then inband
      else case lookup_ip6_remote_endpoint E (ip6_saddr ip6) 0 of
             None \<Rightarrow> inband
           | Some i \<Rightarrow> if sec_identity i \<noteq> HOST_ID then sec_identity i else inband)"
  by (simp add: resolve_srcid_ipv6_def Let_def split: option.splits)

lemma resolve_srcid_ipv4_skb:
  "skb (snd (snd (resolve_srcid_ipv4 E C s ip4 inband sec0 from_host))) = skb s"
  by (simp add: resolve_srcid_ipv4_def Let_def cilium_dbg_def emit_def split: option.splits)

lemma resolve_srcid_ipv6_skb:
  "skb (snd (snd (resolve_srcid_ipv6 E C s ip6 inband sec0 from_host))) = skb s"
  by (simp add: resolve_srcid_ipv6_def Let_def cilium_dbg_def emit_def split: option.splits)

text \<open>
  C1, as stated, fails: the table lookup is made only when the in-band identity is a
  reserved one. From the host, with the in-band identity 12345 (not reserved), the
  source 10.0.0.5 whose table identity is 50 resolves to 12345.
\<close>

theorem resolve_srcid_inband_counterexample:
  "lookup_ip4_remote_endpoint sample_env (ip4_saddr sample_ip4) 0 = Some (sample_info 50)
   \<and> sec_identity (sample_info 50) \<noteq> HOST_ID
   \<and> \<not> identity_is_reserved sample_env (sec_identity (sample_info 50))
   \<and> fst (resolve_srcid_ipv4 sample_env sample_config sample_state sample_ip4 12345 0 True)
       = 12345
   \<and> fst (resolve_srcid_ipv4 sample_env sample_config sample_state sample_ip4 12345 0 True)
       \<noteq> sec_identity (sample_info 50)"
  by (simp add: resolve_srcid_ipv4_value sample_env_def sample_ip4_def sample_info_def
      sample_identity_is_reserved_def HOST_ID_def)

text \<open>
  C1, amended: for a source address that the remote-endpoint table maps to a non-host,
  non-reserved identity, \<^verbatim>\<open>resolve_srcid_ipv4\<close> and \<^verbatim>\<open>resolve_srcid_ipv6\<close> return the
  world identity of the address family when the direction is not from-host and
  \<^verbatim>\<open>secctx_from_ipcache\<close> is unset; otherwise they return the table identity when the
  in-band identity is a reserved one, and the in-band identity itself when it is not.
\<close>

theorem resolve_srcid_table_identity:
  "(lookup_ip4_remote_endpoint E (ip4_saddr ip4) 0 = Some i4
      \<and> sec_identity i4 \<noteq> HOST_ID \<and> \<not> identity_is_reserved E (sec_identity i4)
    \<longrightarrow> fst (resolve_srcid_ipv4 E C s ip4 inband sec0 from_host) =
          (if \<not> from_host \<and> \<not> secctx_from_ipcache C then WORLD_IPV4_ID C
           else if identity_is_reserved E inband then sec_identity i4 else inband))
   \<and>
   (lookup_ip6_remote_endpoint E (ip6_saddr ip6) 0 = Some i6
      \<and> sec_identity i6 \<noteq> HOST_ID \<and> \<not> identity_is_reserved E (sec_identity i6)
    \<longrightarrow> fst (resolve_srcid_ipv6 E C s ip6 inband sec0 from_host) =
          (if \<not> from_host \<and> \<not> secctx_from_ipcache C then WORLD_IPV6_ID C
           else if identity_is_reserved E inband then sec_identity i6 else inband))"
  by (simp add: resolve_srcid_ipv4_value resolve_srcid_ipv6_value)

theorem resolve_srcid_table_identity_witness:
  "lookup_ip4_remote_endpoint sample_env (ip4_saddr sample_ip4) 0 = Some (sample_info 50)
   \<and> lookup_ip6_remote_endpoint sample_env (ip6_saddr sample_ip6) 0 = Some (sample_info 50)
   \<and> sec_identity (sample_info 50) \<noteq> HOST_ID
   \<and> \<not> identity_is_reserved sample_env (sec_identity (sample_info 50))
   \<and> fst (resolve_srcid_ipv4 sample_env sample_config sample_state sample_ip4 2 0 True) = 50
   \<and> fst (resolve_srcid_ipv6 sample_env sample_config sample_state sample_ip6 2 0 True) = 50
   \<and> fst (resolve_srcid_ipv4 sample_env sample_config sample_state sample_ip4 2 0 False) = 9
   \<and> fst (resolve_srcid_ipv6 sample_env sample_config sample_state sample_ip6 2 0 False) = 10"
  using resolve_srcid_table_identity
    [of sample_env sample_ip4 "sample_info 50" sample_config sample_state 2 0 True
        sample_ip6 "sample_info 50"]
    resolve_srcid_table_identity
    [of sample_env sample_ip4 "sample_info 50" sample_config sample_state 2 0 False
        sample_ip6 "sample_info 50"]
  by (simp add: sample_env_def sample_ip4_def sample_ip6_def sample_info_def
      sample_identity_is_reserved_def sample_config_def HOST_ID_def WORLD_IPV4_ID_def
      WORLD_IPV6_ID_def)

text \<open>
  C9: \<^verbatim>\<open>resolve_srcid_ipv4\<close> and \<^verbatim>\<open>resolve_srcid_ipv6\<close> leave the packet context as it
  was, and the identity they return is a function of the source address, the in-band
  identity, the direction, the remote-endpoint table and \<^verbatim>\<open>secctx_from_ipcache\<close> only:
  it is the same from any state, for any other header contents and any initial value of
  \<^verbatim>\<open>*sec_identity\<close>, in particular when the function is run again on the state that a
  first run left.
\<close>

theorem resolve_srcid_read_only:
  "skb (snd (snd (resolve_srcid_ipv4 E C s ip4 inband sec0 from_host))) = skb s
   \<and> skb (snd (snd (resolve_srcid_ipv6 E C s ip6 inband sec0 from_host))) = skb s
   \<and> fst (resolve_srcid_ipv4 E C s' (ip4'\<lparr>ip4_saddr := ip4_saddr ip4\<rparr>) inband sec0' from_host)
       = fst (resolve_srcid_ipv4 E C s ip4 inband sec0 from_host)
   \<and> fst (resolve_srcid_ipv6 E C s' (ip6'\<lparr>ip6_saddr := ip6_saddr ip6\<rparr>) inband sec0' from_host)
       = fst (resolve_srcid_ipv6 E C s ip6 inband sec0 from_host)
   \<and> (let (id1, sec1, s1) = resolve_srcid_ipv4 E C s ip4 inband sec0 from_host
      in fst (resolve_srcid_ipv4 E C s1 ip4 inband sec1 from_host) = id1)
   \<and> (let (id1, sec1, s1) = resolve_srcid_ipv6 E C s ip6 inband sec0 from_host
      in fst (resolve_srcid_ipv6 E C s1 ip6 inband sec1 from_host) = id1)"
  by (simp add: resolve_srcid_ipv4_value resolve_srcid_ipv6_value resolve_srcid_ipv4_skb
      resolve_srcid_ipv6_skb case_prod_beta)

section \<open>Host firewall: the transfer buffer\<close>

text \<open>
  C2: with the host firewall enabled, \<^verbatim>\<open>handle_ipv4\<close> and \<^verbatim>\<open>handle_ipv6\<close> return
  \<^verbatim>\<open>DROP_INVALID_TC_BUFFER\<close> when their lookup has set \<^verbatim>\<open>need_hostfw\<close> and the store into
  the transfer buffer fails; \<^verbatim>\<open>handle_ipv4_cont\<close> and \<^verbatim>\<open>handle_ipv6_cont\<close> return
  \<^verbatim>\<open>DROP_INVALID_TC_BUFFER\<close> when the pre-check asked for enforcement and the buffer is
  absent or its source address is all-zero.
\<close>

theorem hostfw_fail_closed:
  "(ENABLE_HOST_FIREWALL C
      \<and> handle_ipv4_pre E C s secctx from_host = Inr (iph, st)
      \<and> handle_ipv4_hostfw_lookup E st secctx ipcache_srcid from_host iph = Inr (True, hid, x)
      \<and> map_update_elem_fails E st
    \<longrightarrow> fst (handle_ipv4 E C s secctx ipcache_srcid from_host) = DROP DROP_INVALID_TC_BUFFER)
   \<and>
   (ENABLE_HOST_FIREWALL C
      \<and> handle_ipv6_pre E C s secctx from_host = Inr (ipv, False, st)
      \<and> handle_ipv6_hostfw_lookup E st secctx ipcache_srcid from_host ipv = Inr (True, hid, y)
      \<and> map_update_elem_fails E st
    \<longrightarrow> fst (handle_ipv6 E C s secctx ipcache_srcid from_host) = DROP DROP_INVALID_TC_BUFFER)
   \<and>
   (ENABLE_HOST_FIREWALL C
      \<and> revalidate_data4 E (skb s) = Some iph
      \<and> cb (skb s) CB_FROM_HOST AND FROM_HOST_FLAG_NEED_HOSTFW \<noteq> 0
      \<and> (cilium_tail_call_buffer4 s = None
          \<or> (\<exists>b. cilium_tail_call_buffer4 s = Some b \<and> t4_saddr (cb4_tuple b) = 0))
    \<longrightarrow> fst (handle_ipv4_cont E C s secctx from_host) = DROP DROP_INVALID_TC_BUFFER)
   \<and>
   (ENABLE_HOST_FIREWALL C
      \<and> revalidate_data6 E (skb s) = Some ipv
      \<and> cb (skb s) CB_FROM_HOST AND FROM_HOST_FLAG_NEED_HOSTFW \<noteq> 0
      \<and> (cilium_tail_call_buffer6 s = None
          \<or> (\<exists>b. cilium_tail_call_buffer6 s = Some b
                \<and> v6_d1 (t6_saddr (cb6_tuple b)) = 0 \<and> v6_d2 (t6_saddr (cb6_tuple b)) = 0))
    \<longrightarrow> fst (handle_ipv6_cont E C s secctx from_host) = DROP DROP_INVALID_TC_BUFFER)"
proof (intro conjI impI)
  assume "ENABLE_HOST_FIREWALL C
      \<and> handle_ipv4_pre E C s secctx from_host = Inr (iph, st)
      \<and> handle_ipv4_hostfw_lookup E st secctx ipcache_srcid from_host iph = Inr (True, hid, x)
      \<and> map_update_elem_fails E st"
  then show "fst (handle_ipv4 E C s secctx ipcache_srcid from_host) = DROP DROP_INVALID_TC_BUFFER"
    by (simp add: handle_ipv4_def handle_ipv4_hostfw_store_def map_update_elem_buffer4_def)
next
  assume "ENABLE_HOST_FIREWALL C
      \<and> handle_ipv6_pre E C s secctx from_host = Inr (ipv, False, st)
      \<and> handle_ipv6_hostfw_lookup E st secctx ipcache_srcid from_host ipv = Inr (True, hid, y)
      \<and> map_update_elem_fails E st"
  then show "fst (handle_ipv6 E C s secctx ipcache_srcid from_host) = DROP DROP_INVALID_TC_BUFFER"
    by (simp add: handle_ipv6_def handle_ipv6_hostfw_store_def map_update_elem_buffer6_def)
next
  assume "ENABLE_HOST_FIREWALL C
      \<and> revalidate_data4 E (skb s) = Some iph
      \<and> cb (skb s) CB_FROM_HOST AND FROM_HOST_FLAG_NEED_HOSTFW \<noteq> 0
      \<and> (cilium_tail_call_buffer4 s = None
          \<or> (\<exists>b. cilium_tail_call_buffer4 s = Some b \<and> t4_saddr (cb4_tuple b) = 0))"
  then show "fst (handle_ipv4_cont E C s secctx from_host) = DROP DROP_INVALID_TC_BUFFER"
    by (auto simp: handle_ipv4_cont_def handle_ipv4_cont_hostfw_def cont_trace_init_def
        ctx_load_and_clear_meta_def ctx_store_meta_def Let_def split: prod.splits)
next
  assume "ENABLE_HOST_FIREWALL C
      \<and> revalidate_data6 E (skb s) = Some ipv
      \<and> cb (skb s) CB_FROM_HOST AND FROM_HOST_FLAG_NEED_HOSTFW \<noteq> 0
      \<and> (cilium_tail_call_buffer6 s = None
          \<or> (\<exists>b. cilium_tail_call_buffer6 s = Some b
                \<and> v6_d1 (t6_saddr (cb6_tuple b)) = 0 \<and> v6_d2 (t6_saddr (cb6_tuple b)) = 0))"
  then show "fst (handle_ipv6_cont E C s secctx from_host) = DROP DROP_INVALID_TC_BUFFER"
    by (auto simp: handle_ipv6_cont_def handle_ipv6_cont_hostfw_def cont_trace_init_def
        ctx_load_and_clear_meta_def ctx_store_meta_def Let_def split: prod.splits)
qed

lemma sample_pre4:
  "handle_ipv4_pre env_hostfw_full sample_config sample_state 5 False = Inr (sample_ip4, sample_state)"
  by (simp add: handle_ipv4_pre_def env_hostfw_full_def env_hostfw_def sample_env_def
      sample_config_def)

lemma sample_pre6:
  "handle_ipv6_pre env_hostfw_full sample_config sample_state 5 False
     = Inr (sample_ip6, False, sample_state)"
  by (simp add: handle_ipv6_pre_def env_hostfw_full_def env_hostfw_def sample_env_def
      sample_config_def sample_ip6_def IPPROTO_ICMPV6_def)

theorem hostfw_fail_closed_witness:
  "ENABLE_HOST_FIREWALL sample_config
   \<and> handle_ipv4_pre env_hostfw_full sample_config sample_state 5 False
       = Inr (sample_ip4, sample_state)
   \<and> handle_ipv4_hostfw_lookup env_hostfw_full sample_state 5 0 False sample_ip4
       = Inr (True, False, sample_fill4 sample_ip4 zero_ct_buffer4)
   \<and> handle_ipv6_pre env_hostfw_full sample_config sample_state 5 False
       = Inr (sample_ip6, False, sample_state)
   \<and> handle_ipv6_hostfw_lookup env_hostfw_full sample_state 5 0 False sample_ip6
       = Inr (True, False, sample_fill6 sample_ip6 zero_ct_buffer6)
   \<and> map_update_elem_fails env_hostfw_full sample_state
   \<and> fst (handle_ipv4 env_hostfw_full sample_config sample_state 5 0 False)
       = DROP DROP_INVALID_TC_BUFFER
   \<and> fst (handle_ipv6 env_hostfw_full sample_config sample_state 5 0 False)
       = DROP DROP_INVALID_TC_BUFFER
   \<and> cb (skb state_need_hostfw) CB_FROM_HOST AND FROM_HOST_FLAG_NEED_HOSTFW \<noteq> 0
   \<and> cilium_tail_call_buffer4 state_need_hostfw = Some zero_ct_buffer4
   \<and> t4_saddr (cb4_tuple zero_ct_buffer4) = 0
   \<and> cilium_tail_call_buffer6 state_need_hostfw = Some zero_ct_buffer6
   \<and> fst (handle_ipv4_cont env_hostfw sample_config state_need_hostfw 5 False)
       = DROP DROP_INVALID_TC_BUFFER
   \<and> fst (handle_ipv6_cont env_hostfw sample_config state_need_hostfw 5 False)
       = DROP DROP_INVALID_TC_BUFFER"
proof -
  have c: "ENABLE_HOST_FIREWALL sample_config"
    by (simp add: sample_config_def)
  have l4: "handle_ipv4_hostfw_lookup env_hostfw_full sample_state 5 0 False sample_ip4
       = Inr (True, False, sample_fill4 sample_ip4 zero_ct_buffer4)"
    by (simp add: handle_ipv4_hostfw_lookup_def env_hostfw_full_def env_hostfw_def
        sample_env_def sample_fill4_def)
  have l6: "handle_ipv6_hostfw_lookup env_hostfw_full sample_state 5 0 False sample_ip6
       = Inr (True, False, sample_fill6 sample_ip6 zero_ct_buffer6)"
    by (simp add: handle_ipv6_hostfw_lookup_def env_hostfw_full_def env_hostfw_def
        sample_env_def sample_fill6_def)
  have f: "map_update_elem_fails env_hostfw_full sample_state"
    by (simp add: env_hostfw_full_def)
  have r4: "revalidate_data4 env_hostfw (skb state_need_hostfw) = Some sample_ip4"
    and r6: "revalidate_data6 env_hostfw (skb state_need_hostfw) = Some sample_ip6"
    by (simp_all add: env_hostfw_def sample_env_def)
  have n: "cb (skb state_need_hostfw) CB_FROM_HOST AND FROM_HOST_FLAG_NEED_HOSTFW \<noteq> 0"
    by (simp add: state_need_hostfw_def ctx_store_meta_def FROM_HOST_FLAG_NEED_HOSTFW_def)
  have b4: "cilium_tail_call_buffer4 state_need_hostfw = Some zero_ct_buffer4"
    and b6: "cilium_tail_call_buffer6 state_need_hostfw = Some zero_ct_buffer6"
    by (simp_all add: state_need_hostfw_def ctx_store_meta_def sample_state_def)
  have z4: "t4_saddr (cb4_tuple zero_ct_buffer4) = 0"
    and z6: "v6_d1 (t6_saddr (cb6_tuple zero_ct_buffer6)) = 0
             \<and> v6_d2 (t6_saddr (cb6_tuple zero_ct_buffer6)) = 0"
    by (simp_all add: zero_ct_buffer4_def zero_ct_buffer6_def zero_v6addr_def)
  show ?thesis
    using hostfw_fail_closed
      [where C = sample_config and E = env_hostfw_full and s = sample_state and secctx = 5
         and from_host = False and iph = sample_ip4 and ipv = sample_ip6
         and st = sample_state and ipcache_srcid = 0 and hid = False
         and x = "sample_fill4 sample_ip4 zero_ct_buffer4"
         and y = "sample_fill6 sample_ip6 zero_ct_buffer6"]
      hostfw_fail_closed
      [where C = sample_config and E = env_hostfw and s = state_need_hostfw and secctx = 5
         and from_host = False and iph = sample_ip4 and ipv = sample_ip6]
      c l4 l6 f r4 r6 n b4 b6 z4 z6 sample_pre4 sample_pre6
    by simp
qed

lemma handle_ipv4_stored:
  assumes "ENABLE_HOST_FIREWALL C"
    and "handle_ipv4_pre E C s secctx from_host = Inr (iph, st)"
    and "handle_ipv4_hostfw_lookup E st secctx ipcache_srcid from_host iph = Inr (True, hid, x)"
    and "\<not> map_update_elem_fails E st"
  shows "handle_ipv4 E C s secctx ipcache_srcid from_host =
           (CTX_ACT_OK,
            ctx_store_meta (st\<lparr>cilium_tail_call_buffer4 := Some x\<rparr>) CB_FROM_HOST
              (FROM_HOST_FLAG_NEED_HOSTFW OR (if hid then FROM_HOST_FLAG_HOST_ID else 0)))"
  using assms
  by (simp add: handle_ipv4_def handle_ipv4_hostfw_store_def map_update_elem_buffer4_def)

lemma handle_ipv6_stored:
  assumes "ENABLE_HOST_FIREWALL C"
    and "handle_ipv6_pre E C s secctx from_host = Inr (ipv, False, st)"
    and "handle_ipv6_hostfw_lookup E st secctx ipcache_srcid from_host ipv = Inr (True, hid, y)"
    and "\<not> map_update_elem_fails E st"
  shows "handle_ipv6 E C s secctx ipcache_srcid from_host =
           (CTX_ACT_OK,
            ctx_store_meta (st\<lparr>cilium_tail_call_buffer6 := Some y\<rparr>) CB_FROM_HOST
              (FROM_HOST_FLAG_NEED_HOSTFW OR (if hid then FROM_HOST_FLAG_HOST_ID else 0)))"
  using assms
  by (simp add: handle_ipv6_def handle_ipv6_hostfw_store_def map_update_elem_buffer6_def
      handle_ipv6_skip_host_firewall_def)

lemma handle_ipv4_cont_reads:
  assumes "ENABLE_HOST_FIREWALL C"
    and "cilium_tail_call_buffer4 s = Some x"
    and "cb (skb s) CB_FROM_HOST AND FROM_HOST_FLAG_NEED_HOSTFW \<noteq> 0"
    and "t4_saddr (cb4_tuple x) \<noteq> 0"
  shows "handle_ipv4_cont E C s secctx from_host
           = handle_ipv4_cont_decide_from E C s secctx from_host x"
  using assms
  by (simp add: handle_ipv4_cont_def handle_ipv4_cont_decide_from_def
      handle_ipv4_cont_hostfw_def cont_trace_init_def ctx_load_and_clear_meta_def
      ctx_store_meta_def Let_def split: prod.splits option.splits)

lemma handle_ipv6_cont_reads:
  assumes "ENABLE_HOST_FIREWALL C"
    and "cilium_tail_call_buffer6 s = Some y"
    and "cb (skb s) CB_FROM_HOST AND FROM_HOST_FLAG_NEED_HOSTFW \<noteq> 0"
    and "\<not> (v6_d1 (t6_saddr (cb6_tuple y)) = 0 \<and> v6_d2 (t6_saddr (cb6_tuple y)) = 0)"
  shows "handle_ipv6_cont E C s secctx from_host
           = handle_ipv6_cont_decide_from E C s secctx from_host y"
proof -
  have n: "(v6_d1 (t6_saddr (cb6_tuple y)) = 0 \<and> v6_d2 (t6_saddr (cb6_tuple y)) = 0) = False"
    using assms(4) by simp
  show ?thesis
    using assms(1-3)
    by (simp add: handle_ipv6_cont_def handle_ipv6_cont_decide_from_def
        handle_ipv6_cont_hostfw_def cont_trace_init_def ctx_load_and_clear_meta_def
        ctx_store_meta_def Let_def n split: prod.splits option.splits)
qed

lemma stored_flag:
  "cb (skb (ctx_store_meta s CB_FROM_HOST
              (FROM_HOST_FLAG_NEED_HOSTFW OR (if hid then FROM_HOST_FLAG_HOST_ID else 0))))
      CB_FROM_HOST AND FROM_HOST_FLAG_NEED_HOSTFW \<noteq> 0"
  by (simp add: ctx_store_meta_def FROM_HOST_FLAG_NEED_HOSTFW_def FROM_HOST_FLAG_HOST_ID_def)

text \<open>
  C3, amended: when the pre-check of \<^verbatim>\<open>handle_ipv4\<close> (\<^verbatim>\<open>handle_ipv6\<close>) has set
  \<^verbatim>\<open>need_hostfw\<close>, the store has succeeded and the source address of the stored lookup
  result \<open>x\<close> is not all-zero, the function returns \<^verbatim>\<open>CTX_ACT_OK\<close>, the transfer buffer
  holds \<open>x\<close>, and \<^verbatim>\<open>handle_ipv4_cont\<close> (\<^verbatim>\<open>handle_ipv6_cont\<close>), run on any state with that
  buffer and that \<^verbatim>\<open>CB_FROM_HOST\<close> slot, does what deciding from \<open>x\<close> does. (A stored
  result whose source address is all-zero is taken for a buffer that was never written.)
\<close>

theorem hostfw_round_trip:
  "(ENABLE_HOST_FIREWALL C
      \<and> handle_ipv4_pre E C s secctx from_host = Inr (iph, st)
      \<and> handle_ipv4_hostfw_lookup E st secctx ipcache_srcid from_host iph = Inr (True, hid, x)
      \<and> \<not> map_update_elem_fails E st
      \<and> t4_saddr (cb4_tuple x) \<noteq> 0
    \<longrightarrow> fst (handle_ipv4 E C s secctx ipcache_srcid from_host) = CTX_ACT_OK
        \<and> cilium_tail_call_buffer4 (snd (handle_ipv4 E C s secctx ipcache_srcid from_host))
            = Some x
        \<and> (\<forall>s' secctx'.
              cilium_tail_call_buffer4 s'
                = cilium_tail_call_buffer4 (snd (handle_ipv4 E C s secctx ipcache_srcid from_host))
              \<and> cb (skb s') CB_FROM_HOST
                  = cb (skb (snd (handle_ipv4 E C s secctx ipcache_srcid from_host))) CB_FROM_HOST
            \<longrightarrow> handle_ipv4_cont E C s' secctx' from_host
                  = handle_ipv4_cont_decide_from E C s' secctx' from_host x))
   \<and>
   (ENABLE_HOST_FIREWALL C
      \<and> handle_ipv6_pre E C s secctx from_host = Inr (ipv, False, st)
      \<and> handle_ipv6_hostfw_lookup E st secctx ipcache_srcid from_host ipv = Inr (True, hid, y)
      \<and> \<not> map_update_elem_fails E st
      \<and> \<not> (v6_d1 (t6_saddr (cb6_tuple y)) = 0 \<and> v6_d2 (t6_saddr (cb6_tuple y)) = 0)
    \<longrightarrow> fst (handle_ipv6 E C s secctx ipcache_srcid from_host) = CTX_ACT_OK
        \<and> cilium_tail_call_buffer6 (snd (handle_ipv6 E C s secctx ipcache_srcid from_host))
            = Some y
        \<and> (\<forall>s' secctx'.
              cilium_tail_call_buffer6 s'
                = cilium_tail_call_buffer6 (snd (handle_ipv6 E C s secctx ipcache_srcid from_host))
              \<and> cb (skb s') CB_FROM_HOST
                  = cb (skb (snd (handle_ipv6 E C s secctx ipcache_srcid from_host))) CB_FROM_HOST
            \<longrightarrow> handle_ipv6_cont E C s' secctx' from_host
                  = handle_ipv6_cont_decide_from E C s' secctx' from_host y))"
proof (intro conjI impI)
  assume a: "ENABLE_HOST_FIREWALL C
      \<and> handle_ipv4_pre E C s secctx from_host = Inr (iph, st)
      \<and> handle_ipv4_hostfw_lookup E st secctx ipcache_srcid from_host iph = Inr (True, hid, x)
      \<and> \<not> map_update_elem_fails E st
      \<and> t4_saddr (cb4_tuple x) \<noteq> 0"
  let ?r = "handle_ipv4 E C s secctx ipcache_srcid from_host"
  have r: "?r = (CTX_ACT_OK,
            ctx_store_meta (st\<lparr>cilium_tail_call_buffer4 := Some x\<rparr>) CB_FROM_HOST
              (FROM_HOST_FLAG_NEED_HOSTFW OR (if hid then FROM_HOST_FLAG_HOST_ID else 0)))"
    using a handle_ipv4_stored [where C = C and E = E and s = s and secctx = secctx
        and from_host = from_host and iph = iph and st = st
        and ipcache_srcid = ipcache_srcid and hid = hid and x = x]
    by simp
  show "fst ?r = CTX_ACT_OK" by (simp add: r)
  show b: "cilium_tail_call_buffer4 (snd ?r) = Some x"
    by (simp add: r ctx_store_meta_def)
  have f: "cb (skb (snd ?r)) CB_FROM_HOST AND FROM_HOST_FLAG_NEED_HOSTFW \<noteq> 0"
    unfolding r snd_conv by (rule stored_flag)
  show "\<forall>s' secctx'.
          cilium_tail_call_buffer4 s' = cilium_tail_call_buffer4 (snd ?r)
          \<and> cb (skb s') CB_FROM_HOST = cb (skb (snd ?r)) CB_FROM_HOST
        \<longrightarrow> handle_ipv4_cont E C s' secctx' from_host
              = handle_ipv4_cont_decide_from E C s' secctx' from_host x"
  proof (intro allI impI)
    fix s' :: state and secctx' :: u32
    assume h: "cilium_tail_call_buffer4 s' = cilium_tail_call_buffer4 (snd ?r)
          \<and> cb (skb s') CB_FROM_HOST = cb (skb (snd ?r)) CB_FROM_HOST"
    show "handle_ipv4_cont E C s' secctx' from_host
              = handle_ipv4_cont_decide_from E C s' secctx' from_host x"
      using a h b f
        handle_ipv4_cont_reads [where C = C and E = E and s = s' and x = x
          and secctx = secctx' and from_host = from_host]
      by simp
  qed
next
  assume a: "ENABLE_HOST_FIREWALL C
      \<and> handle_ipv6_pre E C s secctx from_host = Inr (ipv, False, st)
      \<and> handle_ipv6_hostfw_lookup E st secctx ipcache_srcid from_host ipv = Inr (True, hid, y)
      \<and> \<not> map_update_elem_fails E st
      \<and> \<not> (v6_d1 (t6_saddr (cb6_tuple y)) = 0 \<and> v6_d2 (t6_saddr (cb6_tuple y)) = 0)"
  let ?r = "handle_ipv6 E C s secctx ipcache_srcid from_host"
  have r: "?r = (CTX_ACT_OK,
            ctx_store_meta (st\<lparr>cilium_tail_call_buffer6 := Some y\<rparr>) CB_FROM_HOST
              (FROM_HOST_FLAG_NEED_HOSTFW OR (if hid then FROM_HOST_FLAG_HOST_ID else 0)))"
    using a handle_ipv6_stored [where C = C and E = E and s = s and secctx = secctx
        and from_host = from_host and ipv = ipv and st = st
        and ipcache_srcid = ipcache_srcid and hid = hid and y = y]
    by simp
  show "fst ?r = CTX_ACT_OK" by (simp add: r)
  show b: "cilium_tail_call_buffer6 (snd ?r) = Some y"
    by (simp add: r ctx_store_meta_def)
  have f: "cb (skb (snd ?r)) CB_FROM_HOST AND FROM_HOST_FLAG_NEED_HOSTFW \<noteq> 0"
    unfolding r snd_conv by (rule stored_flag)
  show "\<forall>s' secctx'.
          cilium_tail_call_buffer6 s' = cilium_tail_call_buffer6 (snd ?r)
          \<and> cb (skb s') CB_FROM_HOST = cb (skb (snd ?r)) CB_FROM_HOST
        \<longrightarrow> handle_ipv6_cont E C s' secctx' from_host
              = handle_ipv6_cont_decide_from E C s' secctx' from_host y"
  proof (intro allI impI)
    fix s' :: state and secctx' :: u32
    assume h: "cilium_tail_call_buffer6 s' = cilium_tail_call_buffer6 (snd ?r)
          \<and> cb (skb s') CB_FROM_HOST = cb (skb (snd ?r)) CB_FROM_HOST"
    show "handle_ipv6_cont E C s' secctx' from_host
              = handle_ipv6_cont_decide_from E C s' secctx' from_host y"
      using a h b f
        handle_ipv6_cont_reads [where C = C and E = E and s = s' and y = y
          and secctx = secctx' and from_host = from_host]
      by simp
  qed
qed

lemma sample_hostfw_pre4:
  "handle_ipv4_pre env_hostfw sample_config sample_state 5 False = Inr (sample_ip4, sample_state)"
  by (simp add: handle_ipv4_pre_def env_hostfw_def sample_env_def sample_config_def)

lemma sample_hostfw_pre6:
  "handle_ipv6_pre env_hostfw sample_config sample_state 5 False
     = Inr (sample_ip6, False, sample_state)"
  by (simp add: handle_ipv6_pre_def env_hostfw_def sample_env_def
      sample_config_def sample_ip6_def IPPROTO_ICMPV6_def)

lemma sample_hostfw_lookup4:
  "handle_ipv4_hostfw_lookup env_hostfw sample_state 5 0 False sample_ip4
       = Inr (True, False, sample_fill4 sample_ip4 zero_ct_buffer4)"
  by (simp add: handle_ipv4_hostfw_lookup_def env_hostfw_def sample_env_def sample_fill4_def)

lemma sample_hostfw_lookup6:
  "handle_ipv6_hostfw_lookup env_hostfw sample_state 5 0 False sample_ip6
       = Inr (True, False, sample_fill6 sample_ip6 zero_ct_buffer6)"
  by (simp add: handle_ipv6_hostfw_lookup_def env_hostfw_def sample_env_def sample_fill6_def)

theorem hostfw_round_trip_witness:
  "ENABLE_HOST_FIREWALL sample_config
   \<and> handle_ipv4_pre env_hostfw sample_config sample_state 5 False
       = Inr (sample_ip4, sample_state)
   \<and> handle_ipv4_hostfw_lookup env_hostfw sample_state 5 0 False sample_ip4
       = Inr (True, False, sample_fill4 sample_ip4 zero_ct_buffer4)
   \<and> handle_ipv6_pre env_hostfw sample_config sample_state 5 False
       = Inr (sample_ip6, False, sample_state)
   \<and> handle_ipv6_hostfw_lookup env_hostfw sample_state 5 0 False sample_ip6
       = Inr (True, False, sample_fill6 sample_ip6 zero_ct_buffer6)
   \<and> \<not> map_update_elem_fails env_hostfw sample_state
   \<and> t4_saddr (cb4_tuple (sample_fill4 sample_ip4 zero_ct_buffer4)) = 0x0A000005
   \<and> v6_d2 (t6_saddr (cb6_tuple (sample_fill6 sample_ip6 zero_ct_buffer6))) = 5
   \<and> handle_ipv4_cont env_hostfw sample_config
        (snd (handle_ipv4 env_hostfw sample_config sample_state 5 0 False)) 5 False
       = handle_ipv4_cont_decide_from env_hostfw sample_config
           (snd (handle_ipv4 env_hostfw sample_config sample_state 5 0 False)) 5 False
           (sample_fill4 sample_ip4 zero_ct_buffer4)
   \<and> handle_ipv6_cont env_hostfw sample_config
        (snd (handle_ipv6 env_hostfw sample_config sample_state 5 0 False)) 5 False
       = handle_ipv6_cont_decide_from env_hostfw sample_config
           (snd (handle_ipv6 env_hostfw sample_config sample_state 5 0 False)) 5 False
           (sample_fill6 sample_ip6 zero_ct_buffer6)"
proof -
  have c: "ENABLE_HOST_FIREWALL sample_config"
    by (simp add: sample_config_def)
  have f: "\<not> map_update_elem_fails env_hostfw sample_state"
    by (simp add: env_hostfw_def sample_env_def)
  have z4: "t4_saddr (cb4_tuple (sample_fill4 sample_ip4 zero_ct_buffer4)) = 0x0A000005"
    by (simp add: sample_fill4_def sample_ip4_def)
  have z6: "v6_d2 (t6_saddr (cb6_tuple (sample_fill6 sample_ip6 zero_ct_buffer6))) = 5"
    by (simp add: sample_fill6_def sample_ip6_def sample_v6_def)
  show ?thesis
    using hostfw_round_trip
      [where C = sample_config and E = env_hostfw and s = sample_state and secctx = 5
         and from_host = False and iph = sample_ip4 and ipv = sample_ip6
         and st = sample_state and ipcache_srcid = 0 and hid = False
         and x = "sample_fill4 sample_ip4 zero_ct_buffer4"
         and y = "sample_fill6 sample_ip6 zero_ct_buffer6"]
      c f z4 z6 sample_hostfw_pre4 sample_hostfw_pre6 sample_hostfw_lookup4
      sample_hostfw_lookup6
    by simp
qed

text \<open>
  C3, as stated, fails for a packet whose lookup result has the source address 0.0.0.0:
  the pre-check stores it, and the apply phase returns \<^verbatim>\<open>DROP_INVALID_TC_BUFFER\<close> where the
  decision from the stored result is \<^verbatim>\<open>CTX_ACT_OK\<close>.
\<close>

theorem hostfw_round_trip_counterexample:
  "ENABLE_HOST_FIREWALL sample_config
   \<and> handle_ipv4_pre env_hostfw_any sample_config sample_state 5 False
       = Inr (sample_ip4_any, sample_state)
   \<and> handle_ipv4_hostfw_lookup env_hostfw_any sample_state 5 0 False sample_ip4_any
       = Inr (True, False, sample_fill4 sample_ip4_any zero_ct_buffer4)
   \<and> \<not> map_update_elem_fails env_hostfw_any sample_state
   \<and> fst (handle_ipv4 env_hostfw_any sample_config sample_state 5 0 False) = CTX_ACT_OK
   \<and> cilium_tail_call_buffer4 (snd (handle_ipv4 env_hostfw_any sample_config sample_state 5 0 False))
       = Some (sample_fill4 sample_ip4_any zero_ct_buffer4)
   \<and> fst (handle_ipv4_cont env_hostfw_any sample_config
             (snd (handle_ipv4 env_hostfw_any sample_config sample_state 5 0 False)) 5 False)
       = DROP DROP_INVALID_TC_BUFFER
   \<and> fst (handle_ipv4_cont_decide_from env_hostfw_any sample_config
             (snd (handle_ipv4 env_hostfw_any sample_config sample_state 5 0 False)) 5 False
             (sample_fill4 sample_ip4_any zero_ct_buffer4))
       = CTX_ACT_OK"
proof -
  have c: "ENABLE_HOST_FIREWALL sample_config"
    by (simp add: sample_config_def)
  have p: "handle_ipv4_pre env_hostfw_any sample_config sample_state 5 False
       = Inr (sample_ip4_any, sample_state)"
    by (simp add: handle_ipv4_pre_def env_hostfw_any_def env_hostfw_def sample_env_def
        sample_config_def)
  have l: "handle_ipv4_hostfw_lookup env_hostfw_any sample_state 5 0 False sample_ip4_any
       = Inr (True, False, sample_fill4 sample_ip4_any zero_ct_buffer4)"
    by (simp add: handle_ipv4_hostfw_lookup_def env_hostfw_any_def env_hostfw_def
        sample_env_def sample_fill4_def)
  have f: "\<not> map_update_elem_fails env_hostfw_any sample_state"
    by (simp add: env_hostfw_any_def env_hostfw_def sample_env_def)
  have r: "handle_ipv4 env_hostfw_any sample_config sample_state 5 0 False =
           (CTX_ACT_OK,
            ctx_store_meta
              (sample_state\<lparr>cilium_tail_call_buffer4 :=
                  Some (sample_fill4 sample_ip4_any zero_ct_buffer4)\<rparr>) CB_FROM_HOST
              (FROM_HOST_FLAG_NEED_HOSTFW OR (if False then FROM_HOST_FLAG_HOST_ID else 0)))"
    by (rule handle_ipv4_stored [OF c p l f])
  have d: "fst (handle_ipv4_cont env_hostfw_any sample_config
             (snd (handle_ipv4 env_hostfw_any sample_config sample_state 5 0 False)) 5 False)
       = DROP DROP_INVALID_TC_BUFFER"
    unfolding r
    by (simp add: handle_ipv4_cont_def handle_ipv4_cont_hostfw_def cont_trace_init_def
        cont_from_proxy_def ctx_load_and_clear_meta_def ctx_store_meta_def Let_def
        env_hostfw_any_def env_hostfw_def sample_env_def sample_config_def
        sample_fill4_def sample_ip4_any_def zero_ct_buffer4_def
        FROM_HOST_FLAG_NEED_HOSTFW_def)
  have e: "fst (handle_ipv4_cont_decide_from env_hostfw_any sample_config
             (snd (handle_ipv4 env_hostfw_any sample_config sample_state 5 0 False)) 5 False
             (sample_fill4 sample_ip4_any zero_ct_buffer4))
       = CTX_ACT_OK"
    unfolding r
    by (simp add: handle_ipv4_cont_decide_from_def handle_ipv4_cont_hostfw_apply_def
        handle_ipv4_cont_deliver_def cont_trace_init_def
        cont_from_proxy_def ctx_load_and_clear_meta_def ctx_store_meta_def Let_def
        env_hostfw_any_def env_hostfw_def sample_env_def sample_config_def IS_ERR_def)
  show ?thesis using c p l f d e by (simp add: r ctx_store_meta_def)
qed

section \<open>The continuation handlers: delivery and the remote-endpoint decision\<close>

lemma cont_from_proxy_fst:
  "fst (cont_from_proxy E C k from_host)
     = (from_host \<and> (tc_index_from_ingress_proxy E k \<or> tc_index_from_egress_proxy E k))"
  by (simp add: cont_from_proxy_def Let_def)

lemma cont_trace_init_skb: "skb (cont_trace_init C s) = skb s"
  by (simp add: cont_trace_init_def)

lemma handle_ipv4_cont_unfold:
  assumes "revalidate_data4 E (skb s) = Some iph"
    and "(if ENABLE_HOST_FIREWALL C then handle_ipv4_cont_hostfw E (cont_trace_init C s) from_host iph
          else Inr (iph, cont_trace_init C s)) = Inr (iph', st)"
  shows "handle_ipv4_cont E C s secctx from_host =
           handle_ipv4_cont_deliver E C st secctx from_host
             (fst (cont_from_proxy E C (skb s) from_host))
             (snd (cont_from_proxy E C (skb s) from_host)) iph'"
  using assms
  by (simp add: handle_ipv4_cont_def Let_def cont_trace_init_skb case_prod_beta)

lemma handle_ipv6_cont_unfold:
  assumes "revalidate_data6 E (skb s) = Some ipv"
    and "(if ENABLE_HOST_FIREWALL C then handle_ipv6_cont_hostfw E C (cont_trace_init C s) from_host ipv
          else Inr (ipv, cont_trace_init C s)) = Inr (ipv', st)"
  shows "handle_ipv6_cont E C s secctx from_host =
           handle_ipv6_cont_deliver E C st secctx from_host
             (fst (cont_from_proxy E C (skb s) from_host))
             (snd (cont_from_proxy E C (skb s) from_host)) ipv'"
  using assms
  by (simp add: handle_ipv6_cont_def Let_def cont_trace_init_skb case_prod_beta)

lemma handle_ipv4_cont_skip_vtep_fst:
  assumes "\<forall>i. TUNNEL_MODE C \<and> lookup_ip4_remote_endpoint E (ip4_daddr iph) 0 = Some i
               \<longrightarrow> flag_skip_tunnel i \<or> \<not> flag_has_tunnel_ep i"
  shows "fst (handle_ipv4_cont_skip_vtep E C s secctx from_proxy iph) =
           (case lookup_ip4_remote_endpoint E (ip4_daddr iph) 0 of
              None \<Rightarrow> DROP DROP_UNROUTABLE
            | Some i \<Rightarrow>
                if \<not> from_proxy \<and> identity_is_world_ipv4 E (sec_identity i)
                then DROP DROP_UNROUTABLE else CTX_ACT_OK)"
  using assms
  by (auto simp: handle_ipv4_cont_skip_vtep_def Let_def split: option.splits)

lemma handle_ipv6_cont_remote_fst:
  assumes "\<forall>i. TUNNEL_MODE C \<and> lookup_ip6_remote_endpoint E (ip6_daddr ipv) 0 = Some i
               \<longrightarrow> flag_skip_tunnel i \<or> \<not> flag_has_tunnel_ep i"
  shows "fst (handle_ipv6_cont_remote E C s secctx from_proxy ipv) =
           (case lookup_ip6_remote_endpoint E (ip6_daddr ipv) 0 of
              None \<Rightarrow> DROP DROP_UNROUTABLE
            | Some i \<Rightarrow>
                if \<not> from_proxy \<and> identity_is_world_ipv6 E (sec_identity i)
                then DROP DROP_UNROUTABLE else CTX_ACT_OK)"
  using assms
  by (auto simp: handle_ipv6_cont_remote_def Let_def split: option.splits)

lemma handle_ipv4_cont_deliver_remote:
  assumes "lookup_ip4_endpoint E iph = None"
    and "\<forall>v. ENABLE_VTEP C \<and> cilium_vtep_map E (ip4_daddr iph AND VTEP_MASK) = Some v
             \<longrightarrow> vtep_mac v = 0 \<or> vtep_tunnel_endpoint v = 0"
  shows "handle_ipv4_cont_deliver E C s secctx True from_proxy magic iph
           = handle_ipv4_cont_skip_vtep E C s secctx from_proxy iph"
  using assms
  by (auto simp: handle_ipv4_cont_deliver_def split: option.splits)

lemma handle_ipv6_cont_deliver_remote:
  assumes "lookup_ip6_endpoint E ipv = None"
  shows "handle_ipv6_cont_deliver E C s secctx True from_proxy magic ipv
           = handle_ipv6_cont_remote E C s secctx from_proxy ipv"
  using assms
  by (auto simp: handle_ipv6_cont_deliver_def split: option.splits)

text \<open>
  C4, amended: for a from-host packet that reaches the remote-endpoint decision of
  \<^verbatim>\<open>handle_ipv4_cont\<close> (\<^verbatim>\<open>handle_ipv6_cont\<close>) - the header revalidates, the host firewall
  block lets the packet pass, the destination is no local endpoint, no VTEP entry takes
  the packet and, in tunnel mode, the remote-endpoint entry has no tunnel endpoint or is
  flagged skip-tunnel - the handler returns \<^verbatim>\<open>DROP_UNROUTABLE\<close> when the destination has no
  remote-endpoint entry, or when the entry maps to the world identity and the packet does
  not come from a proxy; otherwise (so for a packet from a proxy toward the world
  identity) it returns \<^verbatim>\<open>CTX_ACT_OK\<close>.
\<close>

theorem cont_drop_unroutable:
  "(revalidate_data4 E (skb s) = Some iph
      \<and> (if ENABLE_HOST_FIREWALL C
          then handle_ipv4_cont_hostfw E (cont_trace_init C s) True iph
          else Inr (iph, cont_trace_init C s)) = Inr (iph', st)
      \<and> lookup_ip4_endpoint E iph' = None
      \<and> (\<forall>v. ENABLE_VTEP C \<and> cilium_vtep_map E (ip4_daddr iph' AND VTEP_MASK) = Some v
              \<longrightarrow> vtep_mac v = 0 \<or> vtep_tunnel_endpoint v = 0)
      \<and> (\<forall>i. TUNNEL_MODE C \<and> lookup_ip4_remote_endpoint E (ip4_daddr iph') 0 = Some i
              \<longrightarrow> flag_skip_tunnel i \<or> \<not> flag_has_tunnel_ep i)
    \<longrightarrow> fst (handle_ipv4_cont E C s secctx True) =
          (case lookup_ip4_remote_endpoint E (ip4_daddr iph') 0 of
             None \<Rightarrow> DROP DROP_UNROUTABLE
           | Some i \<Rightarrow>
               if \<not> (tc_index_from_ingress_proxy E (skb s) \<or> tc_index_from_egress_proxy E (skb s))
                  \<and> identity_is_world_ipv4 E (sec_identity i)
               then DROP DROP_UNROUTABLE else CTX_ACT_OK))
   \<and>
   (revalidate_data6 E (skb s) = Some ipv
      \<and> (if ENABLE_HOST_FIREWALL C
          then handle_ipv6_cont_hostfw E C (cont_trace_init C s) True ipv
          else Inr (ipv, cont_trace_init C s)) = Inr (ipv', st)
      \<and> lookup_ip6_endpoint E ipv' = None
      \<and> (\<forall>i. TUNNEL_MODE C \<and> lookup_ip6_remote_endpoint E (ip6_daddr ipv') 0 = Some i
              \<longrightarrow> flag_skip_tunnel i \<or> \<not> flag_has_tunnel_ep i)
    \<longrightarrow> fst (handle_ipv6_cont E C s secctx True) =
          (case lookup_ip6_remote_endpoint E (ip6_daddr ipv') 0 of
             None \<Rightarrow> DROP DROP_UNROUTABLE
           | Some i \<Rightarrow>
               if \<not> (tc_index_from_ingress_proxy E (skb s) \<or> tc_index_from_egress_proxy E (skb s))
                  \<and> identity_is_world_ipv6 E (sec_identity i)
               then DROP DROP_UNROUTABLE else CTX_ACT_OK))"
proof (intro conjI impI)
  assume a: "revalidate_data4 E (skb s) = Some iph
      \<and> (if ENABLE_HOST_FIREWALL C
          then handle_ipv4_cont_hostfw E (cont_trace_init C s) True iph
          else Inr (iph, cont_trace_init C s)) = Inr (iph', st)
      \<and> lookup_ip4_endpoint E iph' = None
      \<and> (\<forall>v. ENABLE_VTEP C \<and> cilium_vtep_map E (ip4_daddr iph' AND VTEP_MASK) = Some v
              \<longrightarrow> vtep_mac v = 0 \<or> vtep_tunnel_endpoint v = 0)
      \<and> (\<forall>i. TUNNEL_MODE C \<and> lookup_ip4_remote_endpoint E (ip4_daddr iph') 0 = Some i
              \<longrightarrow> flag_skip_tunnel i \<or> \<not> flag_has_tunnel_ep i)"
  have "handle_ipv4_cont E C s secctx True =
          handle_ipv4_cont_skip_vtep E C st secctx (fst (cont_from_proxy E C (skb s) True)) iph'"
    using a handle_ipv4_cont_unfold [of E s iph C True iph' st secctx]
      handle_ipv4_cont_deliver_remote [of E iph' C st secctx]
    by simp
  then show "fst (handle_ipv4_cont E C s secctx True) =
          (case lookup_ip4_remote_endpoint E (ip4_daddr iph') 0 of
             None \<Rightarrow> DROP DROP_UNROUTABLE
           | Some i \<Rightarrow>
               if \<not> (tc_index_from_ingress_proxy E (skb s) \<or> tc_index_from_egress_proxy E (skb s))
                  \<and> identity_is_world_ipv4 E (sec_identity i)
               then DROP DROP_UNROUTABLE else CTX_ACT_OK)"
    using a handle_ipv4_cont_skip_vtep_fst [of C E iph' st secctx]
    by (simp add: cont_from_proxy_fst)
next
  assume a: "revalidate_data6 E (skb s) = Some ipv
      \<and> (if ENABLE_HOST_FIREWALL C
          then handle_ipv6_cont_hostfw E C (cont_trace_init C s) True ipv
          else Inr (ipv, cont_trace_init C s)) = Inr (ipv', st)
      \<and> lookup_ip6_endpoint E ipv' = None
      \<and> (\<forall>i. TUNNEL_MODE C \<and> lookup_ip6_remote_endpoint E (ip6_daddr ipv') 0 = Some i
              \<longrightarrow> flag_skip_tunnel i \<or> \<not> flag_has_tunnel_ep i)"
  have "handle_ipv6_cont E C s secctx True =
          handle_ipv6_cont_remote E C st secctx (fst (cont_from_proxy E C (skb s) True)) ipv'"
    using a handle_ipv6_cont_unfold [of E s ipv C True ipv' st secctx]
      handle_ipv6_cont_deliver_remote [of E ipv' C st secctx]
    by simp
  then show "fst (handle_ipv6_cont E C s secctx True) =
          (case lookup_ip6_remote_endpoint E (ip6_daddr ipv') 0 of
             None \<Rightarrow> DROP DROP_UNROUTABLE
           | Some i \<Rightarrow>
               if \<not> (tc_index_from_ingress_proxy E (skb s) \<or> tc_index_from_egress_proxy E (skb s))
                  \<and> identity_is_world_ipv6 E (sec_identity i)
               then DROP DROP_UNROUTABLE else CTX_ACT_OK)"
    using a handle_ipv6_cont_remote_fst [of C E ipv' st secctx]
    by (simp add: cont_from_proxy_fst)
qed


lemma sample_cont_hostfw_skip4:
  "handle_ipv4_cont_hostfw E (cont_trace_init sample_config sample_state) fh sample_ip4
     = Inr (sample_ip4, cont_trace_init sample_config sample_state)"
  by (simp add: handle_ipv4_cont_hostfw_def ctx_load_and_clear_meta_def ctx_store_meta_def
      cont_trace_init_def sample_state_def sample_skb_def fun_upd_idem)

lemma sample_cont_hostfw_skip6:
  "handle_ipv6_cont_hostfw E sample_config (cont_trace_init sample_config sample_state) fh
     sample_ip6
     = Inr (sample_ip6, cont_trace_init sample_config sample_state)"
  by (simp add: handle_ipv6_cont_hostfw_def ctx_load_and_clear_meta_def ctx_store_meta_def
      cont_trace_init_def sample_state_def sample_skb_def fun_upd_idem)

theorem cont_drop_unroutable_witness:
  "revalidate_data4 sample_env (skb sample_state) = Some sample_ip4
   \<and> revalidate_data6 sample_env (skb sample_state) = Some sample_ip6
   \<and> lookup_ip4_endpoint sample_env sample_ip4 = None
   \<and> lookup_ip6_endpoint sample_env sample_ip6 = None
   \<and> lookup_ip4_remote_endpoint sample_env (ip4_daddr sample_ip4) 0 = None
   \<and> fst (handle_ipv4_cont sample_env sample_config sample_state 5 True) = DROP DROP_UNROUTABLE
   \<and> lookup_ip6_remote_endpoint sample_env (ip6_daddr sample_ip6) 0 = Some (sample_info 50)
   \<and> fst (handle_ipv6_cont sample_env sample_config sample_state 5 True) = CTX_ACT_OK
   \<and> lookup_ip4_remote_endpoint env_world (ip4_daddr sample_ip4) 0 = Some (sample_info 2)
   \<and> identity_is_world_ipv4 env_world (sec_identity (sample_info 2))
   \<and> tc_index_from_egress_proxy env_world (skb sample_state)
   \<and> fst (handle_ipv4_cont env_world sample_config sample_state 5 True) = CTX_ACT_OK
   \<and> fst (handle_ipv6_cont env_world sample_config sample_state 5 True) = CTX_ACT_OK"
proof -
  have c: "ENABLE_HOST_FIREWALL sample_config" "\<not> ENABLE_VTEP sample_config"
    "\<not> TUNNEL_MODE sample_config"
    by (simp_all add: sample_config_def)
  have e: "revalidate_data4 sample_env (skb sample_state) = Some sample_ip4"
    "revalidate_data6 sample_env (skb sample_state) = Some sample_ip6"
    "lookup_ip4_endpoint sample_env sample_ip4 = None"
    "lookup_ip6_endpoint sample_env sample_ip6 = None"
    "lookup_ip4_remote_endpoint sample_env (ip4_daddr sample_ip4) 0 = None"
    "lookup_ip6_remote_endpoint sample_env (ip6_daddr sample_ip6) 0 = Some (sample_info 50)"
    "\<not> identity_is_world_ipv6 sample_env 50"
    by (simp_all add: sample_env_def sample_ip4_def sample_ip6_def)
  have w: "revalidate_data4 env_world (skb sample_state) = Some sample_ip4"
    "revalidate_data6 env_world (skb sample_state) = Some sample_ip6"
    "lookup_ip4_endpoint env_world sample_ip4 = None"
    "lookup_ip6_endpoint env_world sample_ip6 = None"
    "lookup_ip4_remote_endpoint env_world (ip4_daddr sample_ip4) 0 = Some (sample_info 2)"
    "lookup_ip6_remote_endpoint env_world (ip6_daddr sample_ip6) 0 = Some (sample_info 2)"
    "identity_is_world_ipv4 env_world (sec_identity (sample_info 2))"
    "tc_index_from_egress_proxy env_world (skb sample_state)"
    by (simp_all add: env_world_def sample_env_def sample_info_def)
  show ?thesis
    using cont_drop_unroutable
      [where E = sample_env and C = sample_config and s = sample_state and secctx = 5
         and iph = sample_ip4 and iph' = sample_ip4 and ipv = sample_ip6 and ipv' = sample_ip6
         and st = "cont_trace_init sample_config sample_state"]
      cont_drop_unroutable
      [where E = env_world and C = sample_config and s = sample_state and secctx = 5
         and iph = sample_ip4 and iph' = sample_ip4 and ipv = sample_ip6 and ipv' = sample_ip6
         and st = "cont_trace_init sample_config sample_state"]
      c e w sample_cont_hostfw_skip4 sample_cont_hostfw_skip6
    by (simp add: sample_info_def)
qed

text \<open>
  C4, as stated, fails: a from-host packet to the node's own address, a local endpoint
  flagged for host delivery for which the remote-endpoint table has no entry, is passed
  to the stack with \<^verbatim>\<open>CTX_ACT_OK\<close>.
\<close>

theorem cont_drop_unroutable_counterexample:
  "lookup_ip4_remote_endpoint env_local (ip4_daddr sample_ip4) 0 = None
   \<and> revalidate_data4 env_local (skb sample_state) = Some sample_ip4
   \<and> lookup_ip4_endpoint env_local sample_ip4 = Some sample_host_ep
   \<and> fst (handle_ipv4_cont env_local sample_config sample_state 5 True) = CTX_ACT_OK
   \<and> fst (handle_ipv4_cont env_local sample_config sample_state 5 True) \<noteq> DROP DROP_UNROUTABLE"
proof -
  have c: "ENABLE_HOST_FIREWALL sample_config"
    by (simp add: sample_config_def)
  have e: "revalidate_data4 env_local (skb sample_state) = Some sample_ip4"
    "lookup_ip4_endpoint env_local sample_ip4 = Some sample_host_ep"
    "lookup_ip4_remote_endpoint env_local (ip4_daddr sample_ip4) 0 = None"
    by (simp_all add: env_local_def sample_env_def sample_ip4_def)
  have "handle_ipv4_cont env_local sample_config sample_state 5 True =
          handle_ipv4_cont_deliver env_local sample_config
            (cont_trace_init sample_config sample_state) 5 True
            (fst (cont_from_proxy env_local sample_config (skb sample_state) True))
            (snd (cont_from_proxy env_local sample_config (skb sample_state) True)) sample_ip4"
    using c e sample_cont_hostfw_skip4
    by (intro handle_ipv4_cont_unfold) simp_all
  then have "fst (handle_ipv4_cont env_local sample_config sample_state 5 True) = CTX_ACT_OK"
    using e by (simp add: handle_ipv4_cont_deliver_def sample_config_def sample_host_ep_def)
  then show ?thesis using e by simp
qed

lemma handle_ipv4_cont_deliver_host:
  assumes "lookup_ip4_endpoint E iph = Some ep"
    and "ep_flags ep AND ENDPOINT_MASK_HOST_DELIVERY C \<noteq> 0"
  shows "handle_ipv4_cont_deliver E C s secctx from_host from_proxy magic iph = (CTX_ACT_OK, s)"
  using assms by (simp add: handle_ipv4_cont_deliver_def)

lemma handle_ipv6_cont_deliver_host:
  assumes "lookup_ip6_endpoint E ipv = Some ep"
    and "ep_flags ep AND ENDPOINT_MASK_HOST_DELIVERY C \<noteq> 0"
    and "\<not> (ENABLE_SRV6 C \<and> \<not> from_host \<and> is_srv6_packet E ipv
            \<and> srv6_lookup_sid E (ip6_daddr ipv))"
  shows "handle_ipv6_cont_deliver E C s secctx from_host from_proxy magic ipv = (CTX_ACT_OK, s)"
  using assms by (auto simp: handle_ipv6_cont_deliver_def)

text \<open>
  C8, amended: for a packet whose destination is a local endpoint flagged for host
  delivery, \<^verbatim>\<open>handle_ipv4_cont\<close> and \<^verbatim>\<open>handle_ipv6_cont\<close> return \<^verbatim>\<open>CTX_ACT_OK\<close> (and no
  redirect) once the header revalidates and the host firewall block lets the packet
  pass (it returns neither a drop nor a redirect of the host policy) and, for IPv6, the
  packet is not handed to the SRv6 decapsulation.
\<close>

theorem cont_host_delivery:
  "(revalidate_data4 E (skb s) = Some iph
      \<and> (if ENABLE_HOST_FIREWALL C
          then handle_ipv4_cont_hostfw E (cont_trace_init C s) from_host iph
          else Inr (iph, cont_trace_init C s)) = Inr (iph', st)
      \<and> lookup_ip4_endpoint E iph' = Some ep
      \<and> ep_flags ep AND ENDPOINT_MASK_HOST_DELIVERY C \<noteq> 0
    \<longrightarrow> handle_ipv4_cont E C s secctx from_host = (CTX_ACT_OK, st))
   \<and>
   (revalidate_data6 E (skb s) = Some ipv
      \<and> (if ENABLE_HOST_FIREWALL C
          then handle_ipv6_cont_hostfw E C (cont_trace_init C s) from_host ipv
          else Inr (ipv, cont_trace_init C s)) = Inr (ipv', st)
      \<and> \<not> (ENABLE_SRV6 C \<and> \<not> from_host \<and> is_srv6_packet E ipv'
            \<and> srv6_lookup_sid E (ip6_daddr ipv'))
      \<and> lookup_ip6_endpoint E ipv' = Some ep
      \<and> ep_flags ep AND ENDPOINT_MASK_HOST_DELIVERY C \<noteq> 0
    \<longrightarrow> handle_ipv6_cont E C s secctx from_host = (CTX_ACT_OK, st))"
proof (intro conjI impI)
  assume a: "revalidate_data4 E (skb s) = Some iph
      \<and> (if ENABLE_HOST_FIREWALL C
          then handle_ipv4_cont_hostfw E (cont_trace_init C s) from_host iph
          else Inr (iph, cont_trace_init C s)) = Inr (iph', st)
      \<and> lookup_ip4_endpoint E iph' = Some ep
      \<and> ep_flags ep AND ENDPOINT_MASK_HOST_DELIVERY C \<noteq> 0"
  show "handle_ipv4_cont E C s secctx from_host = (CTX_ACT_OK, st)"
    using a handle_ipv4_cont_unfold [of E s iph C from_host iph' st secctx]
      handle_ipv4_cont_deliver_host [of E iph' ep C st secctx from_host]
    by simp
next
  assume a: "revalidate_data6 E (skb s) = Some ipv
      \<and> (if ENABLE_HOST_FIREWALL C
          then handle_ipv6_cont_hostfw E C (cont_trace_init C s) from_host ipv
          else Inr (ipv, cont_trace_init C s)) = Inr (ipv', st)
      \<and> \<not> (ENABLE_SRV6 C \<and> \<not> from_host \<and> is_srv6_packet E ipv'
            \<and> srv6_lookup_sid E (ip6_daddr ipv'))
      \<and> lookup_ip6_endpoint E ipv' = Some ep
      \<and> ep_flags ep AND ENDPOINT_MASK_HOST_DELIVERY C \<noteq> 0"
  show "handle_ipv6_cont E C s secctx from_host = (CTX_ACT_OK, st)"
    using a handle_ipv6_cont_unfold [of E s ipv C from_host ipv' st secctx]
      handle_ipv6_cont_deliver_host [of E ipv' ep C from_host st secctx]
    by simp
qed

theorem cont_host_delivery_witness:
  "revalidate_data4 env_local (skb sample_state) = Some sample_ip4
   \<and> revalidate_data6 env_local (skb sample_state) = Some sample_ip6
   \<and> lookup_ip4_endpoint env_local sample_ip4 = Some sample_host_ep
   \<and> lookup_ip6_endpoint env_local sample_ip6 = Some sample_host_ep
   \<and> ep_flags sample_host_ep AND ENDPOINT_MASK_HOST_DELIVERY sample_config \<noteq> 0
   \<and> fst (handle_ipv4_cont env_local sample_config sample_state 5 False) = CTX_ACT_OK
   \<and> fst (handle_ipv6_cont env_local sample_config sample_state 5 False) = CTX_ACT_OK"
proof -
  have c: "ENABLE_HOST_FIREWALL sample_config" "\<not> ENABLE_SRV6 sample_config"
    "ep_flags sample_host_ep AND ENDPOINT_MASK_HOST_DELIVERY sample_config \<noteq> 0"
    by (simp_all add: sample_config_def sample_host_ep_def)
  have e: "revalidate_data4 env_local (skb sample_state) = Some sample_ip4"
    "revalidate_data6 env_local (skb sample_state) = Some sample_ip6"
    "lookup_ip4_endpoint env_local sample_ip4 = Some sample_host_ep"
    "lookup_ip6_endpoint env_local sample_ip6 = Some sample_host_ep"
    by (simp_all add: env_local_def sample_env_def)
  show ?thesis
    using cont_host_delivery
      [where E = env_local and C = sample_config and s = sample_state and secctx = 5
         and from_host = False and ep = sample_host_ep
         and iph = sample_ip4 and iph' = sample_ip4 and ipv = sample_ip6 and ipv' = sample_ip6
         and st = "cont_trace_init sample_config sample_state"]
      c e sample_cont_hostfw_skip4 sample_cont_hostfw_skip6
    by simp
qed

text \<open>
  C8, as stated, fails with the host firewall enabled: for a packet from the network to
  the node's own address whose ingress host policy answers with a redirect to the proxy,
  \<^verbatim>\<open>handle_ipv4_cont\<close> returns \<^verbatim>\<open>CTX_ACT_REDIRECT\<close>.
\<close>

theorem cont_host_delivery_counterexample:
  "revalidate_data4 env_redirect (skb state_stored) = Some sample_ip4
   \<and> lookup_ip4_endpoint env_redirect sample_ip4 = Some sample_host_ep
   \<and> ep_flags sample_host_ep AND ENDPOINT_MASK_HOST_DELIVERY sample_config \<noteq> 0
   \<and> fst (handle_ipv4_cont env_redirect sample_config state_stored 5 False) = CTX_ACT_REDIRECT
   \<and> fst (handle_ipv4_cont env_redirect sample_config state_stored 5 False) \<noteq> CTX_ACT_OK"
proof -
  have e: "revalidate_data4 env_redirect (skb state_stored) = Some sample_ip4"
    "lookup_ip4_endpoint env_redirect sample_ip4 = Some sample_host_ep"
    "ep_flags sample_host_ep AND ENDPOINT_MASK_HOST_DELIVERY sample_config \<noteq> 0"
    by (simp_all add: env_redirect_def env_local_def sample_env_def sample_config_def
        sample_host_ep_def)
  have "fst (handle_ipv4_cont env_redirect sample_config state_stored 5 False) = CTX_ACT_REDIRECT"
    by (simp add: handle_ipv4_cont_def handle_ipv4_cont_hostfw_def
        handle_ipv4_cont_hostfw_apply_def cont_trace_init_def cont_from_proxy_def
        ctx_load_and_clear_meta_def ctx_store_meta_def Let_def state_stored_def
        env_redirect_def env_local_def sample_env_def sample_config_def sample_state_def
        sample_fill4_def sample_ip4_def zero_ct_buffer4_def FROM_HOST_FLAG_NEED_HOSTFW_def)
  then show ?thesis using e by simp
qed


section \<open>FIB redirect: no neighbour entry\<close>

text \<open>
  C5, amended: in \<^verbatim>\<open>fib_do_redirect\<close> with the FIB result \<^verbatim>\<open>BPF_FIB_LKUP_RET_NO_NEIGH\<close>,
  once the L2 pre-step lets the function reach the result (no L2 check is asked for, or
  \<^verbatim>\<open>maybe_add_l2_hdr\<close> returns 0 and leaves \<^verbatim>\<open>l2_hdr_required\<close> set: the egress interface is
  not an L3 device): if the on-demand neighbour resolver is available the redirect is
  \<^verbatim>\<open>redirect_neigh\<close>, with the next hop of \<^verbatim>\<open>fib_params\<close> when there is one; otherwise the
  static neighbour map is consulted, when allowed, for the destination of \<^verbatim>\<open>fib_params\<close>,
  and without an entry (or when the map is not allowed) the function returns
  \<^verbatim>\<open>DROP_NO_FIB\<close> with the extended error \<^verbatim>\<open>BPF_FIB_MAP_NO_NEIGH\<close>.
\<close>

theorem fib_do_redirect_no_neigh:
  "(if needs_l2_check then maybe_add_l2_hdr E C s oif True else (None, True, s)) = (None, True, st)
   \<longrightarrow>
   (neigh_resolver_available C \<longrightarrow>
      fib_do_redirect E C s needs_l2_check fib_params allow_neigh_map BPF_FIB_LKUP_RET_NO_NEIGH oif
        = Some (redirect_neigh E st oif
                  (map_option (\<lambda>p. \<lparr>nh_family = fl_family p, ipv6_nh = fl_ipv6_dst p\<rparr>)
                     fib_params)))
   \<and>
   (\<not> neigh_resolver_available C \<and> \<not> allow_neigh_map \<longrightarrow>
      fib_do_redirect E C s needs_l2_check fib_params allow_neigh_map BPF_FIB_LKUP_RET_NO_NEIGH oif
        = Some (DROP DROP_NO_FIB, st\<lparr>ext_err := BPF_FIB_MAP_NO_NEIGH E\<rparr>))
   \<and>
   (\<forall>p. \<not> neigh_resolver_available C \<and> allow_neigh_map \<and> fib_params = Some p \<longrightarrow>
      fib_do_redirect E C s needs_l2_check fib_params allow_neigh_map BPF_FIB_LKUP_RET_NO_NEIGH oif
        = (case (if fl_family p = AF_INET then neigh_lookup_ip4 E (fl_ipv4_dst p)
                 else neigh_lookup_ip6 E (fl_ipv6_dst p)) of
             None \<Rightarrow> Some (DROP DROP_NO_FIB, st\<lparr>ext_err := BPF_FIB_MAP_NO_NEIGH E\<rparr>)
           | Some dmac \<Rightarrow>
               (case eth_store_daddr_aligned E st dmac 0 of (r, s') \<Rightarrow>
                  if r < 0 then Some (DROP DROP_WRITE_ERROR, s')
                  else case eth_store_saddr_aligned E s' (NATIVE_DEV_MAC_BY_IFINDEX oif) 0 of
                    (r, s'') \<Rightarrow>
                      if r < 0 then Some (DROP DROP_WRITE_ERROR, s'')
                      else Some (ctx_redirect E s'' oif 0))))"
  by (cases needs_l2_check; cases fib_params)
     (auto simp: fib_do_redirect_def fib_do_redirect_out_send_def Let_def
        split: option.splits prod.splits)

theorem fib_do_redirect_no_neigh_witness:
  "maybe_add_l2_hdr sample_env sample_config sample_state 7 True = (None, True, sample_state)
   \<and> \<not> neigh_resolver_available sample_config
   \<and> neigh_lookup_ip4 sample_env (fl_ipv4_dst sample_fib_params) = None
   \<and> fib_do_redirect sample_env sample_config sample_state True (Some sample_fib_params) True
        BPF_FIB_LKUP_RET_NO_NEIGH 7
       = Some (DROP DROP_NO_FIB, sample_state\<lparr>ext_err := BPF_FIB_MAP_NO_NEIGH sample_env\<rparr>)
   \<and> neigh_resolver_available (sample_config\<lparr>neigh_resolver_available := True\<rparr>)
   \<and> fib_do_redirect sample_env (sample_config\<lparr>neigh_resolver_available := True\<rparr>) sample_state
        False None True BPF_FIB_LKUP_RET_NO_NEIGH 7
       = Some (redirect_neigh sample_env sample_state 7 None)"
proof -
  have m: "maybe_add_l2_hdr sample_env sample_config sample_state 7 True
             = (None, True, sample_state)"
    by (simp add: maybe_add_l2_hdr_def sample_config_def)
  have n: "\<not> neigh_resolver_available sample_config"
    "neigh_resolver_available (sample_config\<lparr>neigh_resolver_available := True\<rparr>)"
    by (simp_all add: sample_config_def)
  have l: "neigh_lookup_ip4 sample_env (fl_ipv4_dst sample_fib_params) = None"
    "fl_family sample_fib_params = AF_INET"
    by (simp_all add: sample_env_def sample_fib_params_def)
  show ?thesis
    using fib_do_redirect_no_neigh
      [where E = sample_env and C = sample_config and s = sample_state and oif = 7
         and needs_l2_check = True and st = sample_state
         and fib_params = "Some sample_fib_params" and allow_neigh_map = True]
      fib_do_redirect_no_neigh
      [where E = sample_env and C = "sample_config\<lparr>neigh_resolver_available := True\<rparr>"
         and s = sample_state and oif = 7
         and needs_l2_check = False and st = sample_state
         and fib_params = None and allow_neigh_map = True]
      m n l
    by simp
qed

text \<open>
  C5, as stated, fails: with the L2 check asked for and an egress interface that is an L3
  device, the function skips the L2 addresses and the neighbour resolution and sends the
  packet with a plain \<^verbatim>\<open>ctx_redirect\<close>, although the resolver is available.
\<close>

theorem fib_do_redirect_no_neigh_counterexample:
  "neigh_resolver_available config_l3
   \<and> fib_do_redirect env_fib config_l3 sample_state True (Some sample_fib_params) True
        BPF_FIB_LKUP_RET_NO_NEIGH 42
       = Some (ctx_redirect env_fib sample_state 42 0)
   \<and> fib_do_redirect env_fib config_l3 sample_state True (Some sample_fib_params) True
        BPF_FIB_LKUP_RET_NO_NEIGH 42
       \<noteq> Some (redirect_neigh env_fib sample_state 42
                 (Some \<lparr>nh_family = fl_family sample_fib_params,
                        ipv6_nh = fl_ipv6_dst sample_fib_params\<rparr>))"
  by (simp add: fib_do_redirect_def fib_do_redirect_out_send_def maybe_add_l2_hdr_def
      config_l3_def sample_config_def env_fib_def sample_env_def sample_redirect_def
      sample_state_def sample_skb_def)

section \<open>Entry points: VLAN filter, chain continuation, snat-done\<close>

text \<open>
  C6: for a frame with a non-zero VLAN id, \<^verbatim>\<open>cil_from_netdev\<close> and \<^verbatim>\<open>cil_to_netdev\<close> end in
  the drop notification with the reason \<^verbatim>\<open>DROP_VLAN_FILTERED\<close> (and the drop verdict)
  when the pair of interface and VLAN id is not in the allow-list, and return
  \<^verbatim>\<open>CTX_ACT_OK\<close> with the frame as it was when it is (\<^verbatim>\<open>cil_to_netdev\<close> has cleared the
  metadata slots by then); the allow-list of interface 116 has 4000 and 4001 and not
  4002.
\<close>

theorem vlan_filter:
  "(vlan_present (skb s) \<and> vlan_tci (skb s) AND 0xfff \<noteq> 0 \<longrightarrow>
      (if allow_vlan (ifindex (skb s)) (vlan_tci (skb s) AND 0xfff) then
         cil_from_netdev E C s = (CTX_ACT_OK, s)
         \<and> fst (cil_to_netdev E C s) = CTX_ACT_OK
         \<and> skb (snd (cil_to_netdev E C s)) = (skb s)\<lparr>cb := (\<lambda>_. 0)\<rparr>
         \<and> events (snd (cil_to_netdev E C s)) = events s
       else
         cil_from_netdev E C s =
           (CTX_ACT_DROP,
            emit s (Drop_notify UNKNOWN_ID 0 (DROP DROP_VLAN_FILTERED) 0 CTX_ACT_DROP
                      METRIC_INGRESS))
         \<and> fst (cil_to_netdev E C s) = CTX_ACT_DROP
         \<and> (\<exists>src. events (snd (cil_to_netdev E C s)) =
                     events s @ [Drop_notify src 0 (DROP DROP_VLAN_FILTERED) 0 CTX_ACT_DROP
                                   METRIC_EGRESS])))
   \<and> allow_vlan 116 4000 \<and> allow_vlan 116 4001 \<and> \<not> allow_vlan 116 4002"
  by (auto simp: cil_from_netdev_def cil_to_netdev_def Let_def send_drop_notify_error_def
      send_drop_notify_error_ext_def send_drop_notify_error_with_exitcode_ext_def
      cil_to_netdev_drop_err_def bpf_clear_meta_def emit_def allow_vlan_def)

theorem vlan_filter_witness:
  "vlan_present (skb (state_vlan 4002)) \<and> vlan_tci (skb (state_vlan 4002)) AND 0xfff = 4002
   \<and> ifindex (skb (state_vlan 4002)) = 116
   \<and> fst (cil_from_netdev sample_env sample_config (state_vlan 4002)) = CTX_ACT_DROP
   \<and> events (snd (cil_from_netdev sample_env sample_config (state_vlan 4002)))
       = [Drop_notify 0 0 (DROP DROP_VLAN_FILTERED) 0 CTX_ACT_DROP METRIC_INGRESS]
   \<and> fst (cil_to_netdev sample_env sample_config (state_vlan 4002)) = CTX_ACT_DROP
   \<and> cil_from_netdev sample_env sample_config (state_vlan 4001) = (CTX_ACT_OK, state_vlan 4001)
   \<and> fst (cil_to_netdev sample_env sample_config (state_vlan 4001)) = CTX_ACT_OK"
proof -
  have a: "vlan_present (skb (state_vlan 4002))" "vlan_tci (skb (state_vlan 4002)) AND 0xfff = 4002"
    "ifindex (skb (state_vlan 4002)) = 116" "events (state_vlan 4002) = []"
    "vlan_present (skb (state_vlan 4001))" "vlan_tci (skb (state_vlan 4001)) AND 0xfff = 4001"
    "ifindex (skb (state_vlan 4001)) = 116"
    by (simp_all add: state_vlan_def sample_skb_def sample_state_def)
  show ?thesis
    using vlan_filter [of "state_vlan 4002" sample_env sample_config]
      vlan_filter [of "state_vlan 4001" sample_env sample_config] a
    by (simp add: emit_def UNKNOWN_ID_def)
qed

lemma htons_distinct:
  "bpf_htons ETH_P_IP \<noteq> bpf_htons ETH_P_ARP"
  "bpf_htons ETH_P_IPV6 \<noteq> bpf_htons ETH_P_ARP"
  "bpf_htons ETH_P_IP \<noteq> bpf_htons ETH_P_IPV6"
  by (simp_all add: bpf_htons_def ETH_P_IP_def ETH_P_ARP_def ETH_P_IPV6_def)

text \<open>
  C7: for an IPv4 or IPv6 packet that \<^verbatim>\<open>do_netdev\<close> hands to the protocol handler, a
  failure of \<^verbatim>\<open>tail_call_internal\<close> with the error \<open>err\<close> ends in the exit code
  \<^verbatim>\<open>CTX_ACT_OK\<close>, after a drop notification with the reason \<open>err\<close>, the resolved
  identity and the extended error of the failed call.
\<close>

theorem do_netdev_tail_call_failure:
  "(ENABLE_IPV4 C \<and> proto = bpf_htons ETH_P_IP
      \<and> revalidate_data_pull4 E (skb (do_netdev_init C s)) = Some iph
      \<and> do_netdev_ipv4_prepare E C (do_netdev_init C s) proto identity obs_point from_host iph
          = (ident, st)
      \<and> tail_call_internal E st
           (if from_host then CILIUM_CALL_IPV4_FROM_HOST else CILIUM_CALL_IPV4_FROM_NETDEV)
          = Inr (err, st')
    \<longrightarrow> do_netdev E C s proto identity obs_point from_host =
          (CTX_ACT_OK,
           emit st' (Drop_notify ident 0 err (ext_err st') CTX_ACT_OK METRIC_INGRESS)))
   \<and>
   (ENABLE_IPV6 C \<and> proto = bpf_htons ETH_P_IPV6
      \<and> revalidate_data_pull6 E (skb (do_netdev_init C s)) = Some ipv
      \<and> do_netdev_ipv6_l2 E C (do_netdev_init C s) identity ipv = Inr (ipv', sl)
      \<and> do_netdev_ipv6_prepare E C sl proto identity obs_point from_host ipv' = (ident, st)
      \<and> tail_call_internal E st
           (if from_host then CILIUM_CALL_IPV6_FROM_HOST else CILIUM_CALL_IPV6_FROM_NETDEV)
          = Inr (err, st')
    \<longrightarrow> do_netdev E C s proto identity obs_point from_host =
          (CTX_ACT_OK,
           emit st' (Drop_notify ident 0 err (ext_err st') CTX_ACT_OK METRIC_INGRESS)))"
  by (intro conjI impI; elim conjE)
     (simp_all add: do_netdev_def do_netdev_tail_call_def Let_def htons_distinct
        send_drop_notify_error_with_exitcode_ext_def)

theorem do_netdev_tail_call_failure_witness:
  "ENABLE_IPV4 sample_config \<and> ENABLE_IPV6 sample_config
   \<and> revalidate_data_pull4 env_no_tail_call (skb (do_netdev_init sample_config sample_state))
       = Some sample_ip4
   \<and> revalidate_data_pull6 env_no_tail_call (skb (do_netdev_init sample_config sample_state))
       = Some sample_ip6
   \<and> fst (do_netdev env_no_tail_call sample_config sample_state (bpf_htons ETH_P_IP) 0
             TRACE_FROM_NETWORK False) = CTX_ACT_OK
   \<and> last (events (snd (do_netdev env_no_tail_call sample_config sample_state
                           (bpf_htons ETH_P_IP) 0 TRACE_FROM_NETWORK False)))
       = Drop_notify 9 0 (DROP DROP_MISSED_TAIL_CALL) 1 CTX_ACT_OK METRIC_INGRESS
   \<and> fst (do_netdev env_no_tail_call sample_config sample_state (bpf_htons ETH_P_IPV6) 0
             TRACE_FROM_NETWORK False) = CTX_ACT_OK
   \<and> last (events (snd (do_netdev env_no_tail_call sample_config sample_state
                           (bpf_htons ETH_P_IPV6) 0 TRACE_FROM_NETWORK False)))
       = Drop_notify 10 0 (DROP DROP_MISSED_TAIL_CALL) 1 CTX_ACT_OK METRIC_INGRESS"
proof -
  let ?s = "do_netdev_init sample_config sample_state"
  let ?p4 = "do_netdev_ipv4_prepare env_no_tail_call sample_config ?s (bpf_htons ETH_P_IP) 0
               TRACE_FROM_NETWORK False sample_ip4"
  let ?p6 = "do_netdev_ipv6_prepare env_no_tail_call sample_config ?s (bpf_htons ETH_P_IPV6) 0
               TRACE_FROM_NETWORK False sample_ip6"
  have c: "ENABLE_IPV4 sample_config" "ENABLE_IPV6 sample_config"
    by (simp_all add: sample_config_def)
  have r: "revalidate_data_pull4 env_no_tail_call (skb ?s) = Some sample_ip4"
    "revalidate_data_pull6 env_no_tail_call (skb ?s) = Some sample_ip6"
    by (simp_all add: env_no_tail_call_def sample_env_def)
  have l: "do_netdev_ipv6_l2 env_no_tail_call sample_config ?s 0 sample_ip6
             = Inr (sample_ip6, ?s)"
    by (simp add: do_netdev_ipv6_l2_def sample_config_def)
  have t: "\<And>s c. tail_call_internal env_no_tail_call s c
             = Inr (DROP DROP_MISSED_TAIL_CALL, s\<lparr>ext_err := 1\<rparr>)"
    by (simp add: env_no_tail_call_def)
  have i4: "fst ?p4 = 9"
    by (simp add: do_netdev_ipv4_prepare_def case_prod_beta Let_def resolve_srcid_ipv4_value
        sample_config_def WORLD_IPV4_ID_def)
  have i6: "fst ?p6 = 10"
    by (simp add: do_netdev_ipv6_prepare_def case_prod_beta Let_def resolve_srcid_ipv6_value
        sample_config_def WORLD_IPV6_ID_def)
  have e4: "?p4 = (9, snd ?p4)"
    using i4 by (metis prod.collapse)
  have e6: "?p6 = (10, snd ?p6)"
    using i6 by (metis prod.collapse)
  show ?thesis
    using do_netdev_tail_call_failure
      [where E = env_no_tail_call and C = sample_config and s = sample_state
         and proto = "bpf_htons ETH_P_IP" and identity = 0 and obs_point = TRACE_FROM_NETWORK
         and from_host = False and iph = sample_ip4 and ident = 9 and st = "snd ?p4"
         and err = "DROP DROP_MISSED_TAIL_CALL" and st' = "(snd ?p4)\<lparr>ext_err := 1\<rparr>"]
      do_netdev_tail_call_failure
      [where E = env_no_tail_call and C = sample_config and s = sample_state
         and proto = "bpf_htons ETH_P_IPV6" and identity = 0 and obs_point = TRACE_FROM_NETWORK
         and from_host = False and ipv = sample_ip6 and ipv' = sample_ip6 and sl = ?s
         and ident = 10 and st = "snd ?p6"
         and err = "DROP DROP_MISSED_TAIL_CALL" and st' = "(snd ?p6)\<lparr>ext_err := 1\<rparr>"]
      c r l t e4 [symmetric] e6 [symmetric]
    by (simp add: emit_def)
qed

text \<open>The code after the host firewall block reads neither the switch nor the collaborators of the block.\<close>

lemma cil_to_netdev_exit_hostfw:
  "cil_to_netdev_exit (C\<lparr>ENABLE_HOST_FIREWALL := b\<rparr>) = cil_to_netdev_exit C"
  by (simp add: cil_to_netdev_exit_def fun_eq_iff)

lemma cil_to_netdev_nat_hostfw:
  "cil_to_netdev_nat
     (E\<lparr>eth_is_supported_ethertype := f, ipv4_host_policy_egress := g,
        ipv6_host_policy_egress := h\<rparr>) (C\<lparr>ENABLE_HOST_FIREWALL := b\<rparr>)
     = cil_to_netdev_nat E C"
  by (simp add: cil_to_netdev_nat_def fun_eq_iff cil_to_netdev_exit_hostfw
      cong: prod.case_cong sum.case_cong option.case_cong if_cong)

lemma cil_to_netdev_wireguard_hostfw:
  "cil_to_netdev_wireguard
     (E\<lparr>eth_is_supported_ethertype := f, ipv4_host_policy_egress := g,
        ipv6_host_policy_egress := h\<rparr>) (C\<lparr>ENABLE_HOST_FIREWALL := b\<rparr>)
     = cil_to_netdev_wireguard E C"
  by (simp add: cil_to_netdev_wireguard_def fun_eq_iff cil_to_netdev_nat_hostfw
      cong: prod.case_cong sum.case_cong option.case_cong if_cong)

lemma cil_to_netdev_skip_egress_gateway_hostfw:
  "cil_to_netdev_skip_egress_gateway
     (E\<lparr>eth_is_supported_ethertype := f, ipv4_host_policy_egress := g,
        ipv6_host_policy_egress := h\<rparr>) (C\<lparr>ENABLE_HOST_FIREWALL := b\<rparr>)
     = cil_to_netdev_skip_egress_gateway E C"
  by (simp add: cil_to_netdev_skip_egress_gateway_def fun_eq_iff cil_to_netdev_wireguard_hostfw
      cong: prod.case_cong sum.case_cong option.case_cong if_cong)

lemma cil_to_netdev_egw_done_hostfw:
  "cil_to_netdev_egw_done
     (E\<lparr>eth_is_supported_ethertype := f, ipv4_host_policy_egress := g,
        ipv6_host_policy_egress := h\<rparr>) (C\<lparr>ENABLE_HOST_FIREWALL := b\<rparr>)
     = cil_to_netdev_egw_done E C"
  by (simp add: cil_to_netdev_egw_done_def fun_eq_iff cil_to_netdev_skip_egress_gateway_hostfw
      cong: prod.case_cong sum.case_cong option.case_cong if_cong)

lemma cil_to_netdev_egw_ipv4_hostfw:
  "cil_to_netdev_egw_ipv4
     (E\<lparr>eth_is_supported_ethertype := f, ipv4_host_policy_egress := g,
        ipv6_host_policy_egress := h\<rparr>) (C\<lparr>ENABLE_HOST_FIREWALL := b\<rparr>)
     = cil_to_netdev_egw_ipv4 E C"
  by (simp add: cil_to_netdev_egw_ipv4_def fun_eq_iff cil_to_netdev_skip_egress_gateway_hostfw cil_to_netdev_egw_done_hostfw
      cong: prod.case_cong sum.case_cong option.case_cong if_cong)

lemma cil_to_netdev_egw_ipv6_hostfw:
  "cil_to_netdev_egw_ipv6
     (E\<lparr>eth_is_supported_ethertype := f, ipv4_host_policy_egress := g,
        ipv6_host_policy_egress := h\<rparr>) (C\<lparr>ENABLE_HOST_FIREWALL := b\<rparr>)
     = cil_to_netdev_egw_ipv6 E C"
  by (simp add: cil_to_netdev_egw_ipv6_def fun_eq_iff cil_to_netdev_skip_egress_gateway_hostfw cil_to_netdev_egw_done_hostfw
      cong: prod.case_cong sum.case_cong option.case_cong if_cong)

lemma cil_to_netdev_skip_host_firewall_hostfw:
  "cil_to_netdev_skip_host_firewall
     (E\<lparr>eth_is_supported_ethertype := f, ipv4_host_policy_egress := g,
        ipv6_host_policy_egress := h\<rparr>) (C\<lparr>ENABLE_HOST_FIREWALL := b\<rparr>)
     = cil_to_netdev_skip_host_firewall E C"
  by (simp add: cil_to_netdev_skip_host_firewall_def fun_eq_iff cil_to_netdev_skip_egress_gateway_hostfw cil_to_netdev_egw_ipv4_hostfw cil_to_netdev_egw_ipv6_hostfw
      cong: prod.case_cong sum.case_cong option.case_cong if_cong)

lemma cil_to_netdev_snat_done:
  assumes "ctx_snat_done E ((skb s)\<lparr>cb := (\<lambda>_. 0)\<rparr>)"
  shows "cil_to_netdev
           (E\<lparr>eth_is_supported_ethertype := f, ipv4_host_policy_egress := g,
              ipv6_host_policy_egress := h\<rparr>) (C\<lparr>ENABLE_HOST_FIREWALL := b\<rparr>) s
         = cil_to_netdev E C s"
  using assms
  by (simp add: cil_to_netdev_def Let_def bpf_clear_meta_def
      cil_to_netdev_skip_host_firewall_hostfw
      cil_to_netdev_skip_host_firewall_hostfw
        [where f = "eth_is_supported_ethertype E" and g = "ipv4_host_policy_egress E"
           and h = "ipv6_host_policy_egress E" and b = "ENABLE_HOST_FIREWALL C", simplified]
      cong: prod.case_cong sum.case_cong option.case_cong if_cong)

text \<open>
  C10: in \<^verbatim>\<open>cil_to_netdev\<close>, for a packet whose context has the snat-done flag set (at
  the test, after the metadata slots were cleared), the host firewall egress evaluation
  is skipped even when the host firewall is enabled: the program does what it does
  with the host firewall compiled out, and neither the ethertype check
  \<^verbatim>\<open>eth_is_supported_ethertype\<close> nor the policy application of \<^verbatim>\<open>handle_to_netdev_ipv4\<close>
  and \<^verbatim>\<open>handle_to_netdev_ipv6\<close> has any influence on its result.
\<close>

theorem to_netdev_snat_done_skips_host_firewall:
  "ctx_snat_done E ((skb s)\<lparr>cb := (\<lambda>_. 0)\<rparr>) \<longrightarrow>
     cil_to_netdev E C s = cil_to_netdev E (C\<lparr>ENABLE_HOST_FIREWALL := False\<rparr>) s
     \<and> (\<forall>f g h.
           cil_to_netdev
             (E\<lparr>eth_is_supported_ethertype := f, ipv4_host_policy_egress := g,
                ipv6_host_policy_egress := h\<rparr>) C s
           = cil_to_netdev E C s)"
proof (intro impI conjI allI)
  assume a: "ctx_snat_done E ((skb s)\<lparr>cb := (\<lambda>_. 0)\<rparr>)"
  show "cil_to_netdev E C s = cil_to_netdev E (C\<lparr>ENABLE_HOST_FIREWALL := False\<rparr>) s"
    using cil_to_netdev_snat_done
      [OF a, where f = "eth_is_supported_ethertype E" and g = "ipv4_host_policy_egress E"
         and h = "ipv6_host_policy_egress E" and b = False and C = C]
    by simp
  fix f g h
  show "cil_to_netdev
          (E\<lparr>eth_is_supported_ethertype := f, ipv4_host_policy_egress := g,
             ipv6_host_policy_egress := h\<rparr>) C s
        = cil_to_netdev E C s"
    using cil_to_netdev_snat_done
      [OF a, where f = f and g = g and h = h and b = "ENABLE_HOST_FIREWALL C" and C = C]
    by simp
qed

theorem to_netdev_snat_done_skips_host_firewall_witness:
  "ENABLE_HOST_FIREWALL sample_config
   \<and> ctx_snat_done sample_env ((skb state_snat_done)\<lparr>cb := (\<lambda>_. 0)\<rparr>)
   \<and> cil_to_netdev sample_env sample_config state_snat_done
       = cil_to_netdev sample_env (sample_config\<lparr>ENABLE_HOST_FIREWALL := False\<rparr>) state_snat_done
   \<and> fst (cil_to_netdev sample_env sample_config state_snat_done) = CTX_ACT_OK
   \<and> \<not> ctx_snat_done sample_env ((skb sample_state)\<lparr>cb := (\<lambda>_. 0)\<rparr>)
   \<and> fst (cil_to_netdev sample_env sample_config sample_state) = CTX_ACT_DROP"
proof -
  have c: "ENABLE_HOST_FIREWALL sample_config"
    by (simp add: sample_config_def)
  have d: "ctx_snat_done sample_env ((skb state_snat_done)\<lparr>cb := (\<lambda>_. 0)\<rparr>)"
    "\<not> ctx_snat_done sample_env ((skb sample_state)\<lparr>cb := (\<lambda>_. 0)\<rparr>)"
    by (simp_all add: sample_env_def state_snat_done_def sample_state_def sample_skb_def)
  have e: "fst (cil_to_netdev sample_env (sample_config\<lparr>ENABLE_HOST_FIREWALL := False\<rparr>)
                  state_snat_done) = CTX_ACT_OK"
    by (simp add: cil_to_netdev_def Let_def bpf_clear_meta_def
        cil_to_netdev_skip_host_firewall_def cil_to_netdev_skip_egress_gateway_def
        cil_to_netdev_wireguard_def cil_to_netdev_nat_def cil_to_netdev_exit_def
        IS_ERR_def sample_config_def sample_env_def state_snat_done_def sample_state_def
        sample_skb_def)
  have g: "fst (cil_to_netdev sample_env sample_config sample_state) = CTX_ACT_DROP"
    by (simp add: cil_to_netdev_def Let_def bpf_clear_meta_def
        cil_to_netdev_host_firewall_def handle_to_netdev_ipv4_def cil_to_netdev_drop_err_def
        send_drop_notify_error_ext_def send_drop_notify_error_with_exitcode_ext_def
        resolve_srcid_ipv4_def cilium_dbg_def emit_def HOST_ID_def UNKNOWN_ID_def
        bpf_htons_def ETH_P_IP_def ETH_P_ARP_def ETH_P_IPV6_def
        IS_ERR_def sample_config_def sample_env_def sample_state_def
        sample_skb_def sample_identity_is_reserved_def split: prod.splits)
  show ?thesis
    using to_netdev_snat_done_skips_host_firewall
      [of sample_env state_snat_done sample_config] c d e g
    by simp
qed


end
